theory Spec2Isabelle
  imports Main "HOL-Library.Sublist"
begin

section \<open>The Nekoweb deployment hook of astro-adapter-nekoweb\<close>

text \<open>
  The adapter (version 3.0.0) registers one hook, \<^verbatim>\<open>astro:build:done\<close>, that stages the
  build output, zips it, uploads the archive through a big-file session of the Nekoweb
  API, and then touches two files through a second, cookie-authenticated client.

  The embedding is shallow. The hook and the methods of \<^verbatim>\<open>NekoAPI\<close> and
  \<^verbatim>\<open>BigFileExt\<close> become functions over an explicit world: the local file system and the
  chronological list of what the code sends and logs. A thrown error or a rejected promise
  is the left injection of a sum. The package \<^verbatim>\<open>@indiefellas/nekoweb-api\<close>, the server
  behind it and the clock are outside the repository: what each call site gets back from
  them is an input, collected in the record \<open>env\<close>. Every call site of the hook runs at
  most once, so one field per call site loses no generality.
\<close>

subsection \<open>JavaScript values\<close>

text \<open>
  A thrown value is an \<^verbatim>\<open>Error\<close> object: its name and its message.
  Interpolating it into a template string calls \<^verbatim>\<open>Error.prototype.toString\<close>.
\<close>

datatype error = Error (err_name: string) (err_message: string)

definition error_toString :: "error \<Rightarrow> string" where
  "error_toString e =
     (if err_name e = [] then err_message e
      else if err_message e = [] then err_name e
      else err_name e @ '': '' @ err_message e)"

text \<open>\<^verbatim>\<open>new Error(msg)\<close>\<close>

definition new_Error :: "string \<Rightarrow> error" where
  "new_Error msg = Error ''Error'' msg"

text \<open>
  An optional string is truthy when it is present and not empty: the test behind
  \<^verbatim>\<open>if (cookie)\<close>, \<^verbatim>\<open>if (rssFeed)\<close>, \<^verbatim>\<open>!folder\<close>.
\<close>

definition truthy :: "string option \<Rightarrow> bool" where
  "truthy s = (case s of None \<Rightarrow> False | Some x \<Rightarrow> x \<noteq> [])"

text \<open>The decimal rendering of a non-negative integer, as \<^verbatim>\<open>${Date.now()}\<close> gives it.\<close>

definition digit_char :: "nat \<Rightarrow> char" where
  "digit_char d = char_of (48 + d)"

function string_of_nat :: "nat \<Rightarrow> string" where
  "string_of_nat n =
     (if n < 10 then [digit_char n]
      else string_of_nat (n div 10) @ [digit_char (n mod 10)])"
  by pat_completeness auto
termination
  by (relation "measure (\<lambda>n. n)") auto

declare string_of_nat.simps [simp del]

text \<open>\<^verbatim>\<open>s.split(c)\<close>: never empty, \<^verbatim>\<open>''.split('/')\<close> is \<^verbatim>\<open>['']\<close>.\<close>

fun split :: "char \<Rightarrow> string \<Rightarrow> string list" where
  "split c [] = [[]]"
| "split c (x # xs) =
     (if x = c then [] # split c xs
      else (case split c xs of
              [] \<Rightarrow> [[x]]
            | s # ss \<Rightarrow> (x # s) # ss))"

text \<open>\<^verbatim>\<open>xs.join(sep)\<close>\<close>

fun join_with :: "string \<Rightarrow> string list \<Rightarrow> string" where
  "join_with sep [] = []"
| "join_with sep [s] = s"
| "join_with sep (s # t # ss) = s @ sep @ join_with sep (t # ss)"

text \<open>
  \<^verbatim>\<open>encodeURIComponent\<close> on a string held as its UTF-8 bytes: the unreserved characters
  stay, every other byte becomes \<^verbatim>\<open>%XX\<close>.
\<close>

definition hex_digit :: "nat \<Rightarrow> char" where
  "hex_digit d = (if d < 10 then char_of (48 + d) else char_of (55 + d))"

definition uri_unreserved :: "char \<Rightarrow> bool" where
  "uri_unreserved c =
     (let n = (of_char c :: nat) in
        (65 \<le> n \<and> n \<le> 90) \<or> (97 \<le> n \<and> n \<le> 122) \<or> (48 \<le> n \<and> n \<le> 57)
        \<or> c \<in> set ''-_.!~*'' \<or> n = 39 \<or> c \<in> set ''()'')"

definition encodeURIComponent :: "string \<Rightarrow> string" where
  "encodeURIComponent s =
     concat (map (\<lambda>c. if uri_unreserved c then [c]
                      else [CHR ''%'', hex_digit ((of_char c :: nat) div 16),
                            hex_digit ((of_char c :: nat) mod 16)]) s)"

subsection \<open>POSIX \<^verbatim>\<open>path.join\<close>\<close>

text \<open>
  \<^verbatim>\<open>normalizeString\<close> of node:path, on the segments between slashes: empty segments and
  \<^verbatim>\<open>.\<close> are dropped, \<^verbatim>\<open>..\<close> removes the segment before it, and is kept only where a
  relative path climbs above its start. The segments kept so far are held in reverse.
\<close>

fun normalizeString :: "bool \<Rightarrow> string list \<Rightarrow> string list \<Rightarrow> string list" where
  "normalizeString allowAboveRoot res [] = rev res"
| "normalizeString allowAboveRoot res (s # ss) =
     (if s = [] \<or> s = ''.'' then normalizeString allowAboveRoot res ss
      else if s = ''..'' then
        (case res of
           [] \<Rightarrow> normalizeString allowAboveRoot (if allowAboveRoot then [''..''] else []) ss
         | t # ts \<Rightarrow>
             if t \<noteq> ''..'' then normalizeString allowAboveRoot ts ss
             else normalizeString allowAboveRoot
                    (if allowAboveRoot then ''..'' # res else res) ss)
      else normalizeString allowAboveRoot (s # res) ss)"

definition normalize :: "string \<Rightarrow> string" where
  "normalize p =
     (if p = [] then ''.''
      else
        let isAbsolute = (hd p = CHR ''/'');
            trailingSeparator = (last p = CHR ''/'');
            q = join_with ''/'' (normalizeString (\<not> isAbsolute) [] (split CHR ''/'' p))
        in if q = [] then
             (if isAbsolute then ''/'' else if trailingSeparator then ''./'' else ''.'')
           else
             (let q' = (if trailingSeparator then q @ ''/'' else q)
              in if isAbsolute then ''/'' @ q' else q'))"

definition join :: "string \<Rightarrow> string \<Rightarrow> string" where
  "join a b =
     (let parts = filter (\<lambda>s. s \<noteq> []) [a, b]
      in if parts = [] then ''.'' else normalize (join_with ''/'' parts))"

subsection \<open>The local file system\<close>

text \<open>
  Four places on disk matter to the hook, and they are taken to be disjoint: the build
  output directory \<^verbatim>\<open>outDir\<close>, the staging directory \<^verbatim>\<open>.build-temp\<close> of the working
  directory, the archive the hook writes in the working directory, and the rest of the
  disk, which the hook reaches only when an option leads out of the first two.

  A directory is the list of its files, each under its path relative to the directory,
  with the bytes it holds; lookup is \<open>map_of\<close>. The paths are normalised (no empty
  segment, no \<^verbatim>\<open>.\<close> or \<^verbatim>\<open>..\<close>), the subdirectories are those the paths go through, and
  a directory lists its entries in the order the list first names them. The files
  written for the archive are kept under the name the hook gave; a file holds bytes, or a
  zip archive of a directory. The rest of the disk is a map from normalised paths, as
  \<^verbatim>\<open>path.join\<close> writes them, to bytes.

  Failures of the disk itself (permissions, a full disk) and symbolic links are not
  modelled: an operation fails only where the file it needs is missing or in the way.
\<close>

type_synonym tree = "(string \<times> string) list"

datatype bytes = Text string | Zip tree

record fs_state =
  outDir_files :: tree
  tmpBuildDir :: "tree option"
  cwd_files :: "string \<rightharpoonup> bytes"
  elsewhere :: "string \<rightharpoonup> string"

subsection \<open>What the hook sends and logs\<close>

text \<open>
  The options object of a \<^verbatim>\<open>NekowebAPI\<close> client: the API key, the application name and
  the extra request headers (\<^verbatim>\<open>request.headers\<close>, empty when none are given). The
  logging callback only forwards the library's own messages to the logger and is left out.
\<close>

record NekowebConfig =
  cfg_apiKey :: string
  cfg_appName :: string
  cfg_headers :: "(string \<times> string) list"

text \<open>
  The calls the hook makes. \<open>FilesEdit\<close> carries the four form fields in the order
  pathname, content, site, csrf; \<open>BigAppend\<close> the session id and the bytes sent.
\<close>

datatype call =
    GetSiteInfo "string option"
  | BigCreate
  | BigAppend string bytes
  | DeletePath string
  | BigImport string
  | GetCsrf
  | FilesEdit string string string string

datatype level = Info | Warn | Err

text \<open>
  An event is a call through a client of the library, a line given to the logger, an
  error printed on the console, or (in version 2.0.3, which talks to the server itself) a
  \<^verbatim>\<open>fetch\<close> with its address, method, headers and form fields.
\<close>

datatype event =
    Request NekowebConfig call
  | Logger level string
  | Console error
  | Fetch string string "(string \<times> string) list" "(string \<times> bytes) list"

record world =
  files :: fs_state
  events :: "event list"

subsection \<open>Sequencing with errors\<close>

text \<open>
  A computation takes the world and gives back a result, or the error thrown, with the
  world as it is then. \<open>bind\<close> is \<^verbatim>\<open>await\<close> and the semicolon: an error ends the
  sequence. \<open>try_catch\<close> is \<^verbatim>\<open>try { } catch (e) { }\<close>.
\<close>

type_synonym 'a prog = "world \<Rightarrow> (error + 'a) \<times> world"

definition ret :: "'a \<Rightarrow> 'a prog" where
  "ret x w = (Inr x, w)"

definition throw :: "error \<Rightarrow> 'a prog" where
  "throw e w = (Inl e, w)"

definition bind :: "'a prog \<Rightarrow> ('a \<Rightarrow> 'b prog) \<Rightarrow> 'b prog" where
  "bind m f w = (case m w of (Inl e, w') \<Rightarrow> (Inl e, w') | (Inr x, w') \<Rightarrow> f x w')"

definition try_catch :: "'a prog \<Rightarrow> (error \<Rightarrow> 'a prog) \<Rightarrow> 'a prog" where
  "try_catch m h w = (case m w of (Inl e, w') \<Rightarrow> h e w' | (Inr x, w') \<Rightarrow> (Inr x, w'))"

text \<open>A promise that has settled, awaited: its value, or its rejection thrown.\<close>

definition settle :: "error + 'a \<Rightarrow> 'a prog" where
  "settle r w = (r, w)"

definition emit :: "event \<Rightarrow> unit prog" where
  "emit e w = (Inr (), w\<lparr>events := events w @ [e]\<rparr>)"

definition logger :: "level \<Rightarrow> string \<Rightarrow> unit prog" where
  "logger l msg = emit (Logger l msg)"

text \<open>
  A call into the library through the client with options \<open>cfg\<close>: the request goes out,
  and the promise settles to what the environment answers.
\<close>

definition request :: "NekowebConfig \<Rightarrow> call \<Rightarrow> error + 'a \<Rightarrow> 'a prog" where
  "request cfg c answer = bind (emit (Request cfg c)) (\<lambda>_. settle answer)"

definition modify_fs :: "(fs_state \<Rightarrow> fs_state) \<Rightarrow> unit prog" where
  "modify_fs f w = (Inr (), w\<lparr>files := f (files w)\<rparr>)"

definition read_fs :: "(fs_state \<Rightarrow> 'a) \<Rightarrow> 'a prog" where
  "read_fs f w = (Inr (f (files w)), w)"

subsection \<open>The file operations the hook uses\<close>

definition existsSync_tmp :: "bool prog" where
  "existsSync_tmp = read_fs (\<lambda>fs. tmpBuildDir fs \<noteq> None)"

text \<open>\<^verbatim>\<open>fs.rmSync(tmpBuildDir, { recursive: true, force: true })\<close>: no error when absent.\<close>

definition rmSync_tmp :: "unit prog" where
  "rmSync_tmp = modify_fs (\<lambda>fs. fs\<lparr>tmpBuildDir := None\<rparr>)"

definition mkdirSync_tmp :: "unit prog" where
  "mkdirSync_tmp =
     bind (read_fs tmpBuildDir) (\<lambda>t.
       case t of
         Some _ \<Rightarrow> throw (new_Error ''EEXIST: file already exists, mkdir .build-temp'')
       | None \<Rightarrow> modify_fs (\<lambda>fs. fs\<lparr>tmpBuildDir := Some []\<rparr>))"

text \<open>
  Where a path leads. \<open>below d p\<close> is the path of \<open>p\<close> relative to the directory \<open>d\<close>
  when \<open>p\<close> is that directory or lies in it; \<open>p\<close> is normalised, as \<^verbatim>\<open>path.join\<close>
  returns it, and \<open>d\<close> is any way of writing the directory.
\<close>

definition strip_slash :: "string \<Rightarrow> string" where
  "strip_slash p = (if p \<noteq> [] \<and> last p = CHR ''/'' then butlast p else p)"

definition below :: "string \<Rightarrow> string \<Rightarrow> string option" where
  "below d p =
     (let n = strip_slash (normalize d) in
      if n = ''.'' then
        (if p \<noteq> [] \<and> hd p \<noteq> CHR ''/'' \<and> hd (split CHR ''/'' p) \<noteq> ''..''
         then Some (if hd (split CHR ''/'' p) = ''.'' then [] else p)
         else None)
      else if prefix (n @ ''/'') (p @ ''/'') then Some (drop (length n + 1) p)
      else None)"

text \<open>
  Opening the file at \<open>p\<close> for reading, with the output directory at \<open>outDir\<close>: the
  bytes of the file, or the error of \<^verbatim>\<open>open\<close>. A path with a slash at its end, or one
  that names a directory, does not open.
\<close>

definition is_directory :: "string \<Rightarrow> tree \<Rightarrow> bool" where
  "is_directory name t = list_ex (\<lambda>(p, _). prefix (name @ ''/'') p) t"

definition open_error :: "string \<Rightarrow> string \<Rightarrow> error" where
  "open_error code p = new_Error (code @ '', open '' @ [CHR 0x27] @ p @ [CHR 0x27])"

definition open_file ::
  "string \<Rightarrow> tree \<Rightarrow> (string \<rightharpoonup> string) \<Rightarrow> string \<Rightarrow> error + string" where
  "open_file outDir out rest p =
     (case below outDir p of
        Some rel \<Rightarrow>
          (case map_of out (strip_slash rel) of
             Some c \<Rightarrow>
               if strip_slash rel = rel then Inr c
               else Inl (open_error ''ENOTDIR: not a directory'' p)
           | None \<Rightarrow>
               if rel = [] \<or> is_directory (strip_slash rel) out
               then Inl (new_Error ''EISDIR: illegal operation on a directory, read'')
               else Inl (open_error ''ENOENT: no such file or directory'' p))
      | None \<Rightarrow>
          (case rest (strip_slash p) of
             Some c \<Rightarrow>
               if strip_slash p = p then Inr c
               else Inl (open_error ''ENOTDIR: not a directory'' p)
           | None \<Rightarrow> Inl (open_error ''ENOENT: no such file or directory'' p)))"

definition readFile :: "string \<Rightarrow> fs_state \<Rightarrow> string \<Rightarrow> error + string" where
  "readFile outDir fs p = open_file outDir (outDir_files fs) (elsewhere fs) p"

text \<open>
  \<^verbatim>\<open>fs.readFileSync(p, 'utf-8')\<close>. The bytes are decoded to a string, and the string
  is encoded again when it is sent: \<open>decode\<close> is what the two together make of the bytes.
  They give back bytes that are well-formed UTF-8 as they are, and replace what is not by
  the replacement character.
\<close>

definition readFileSync_utf8 :: "(string \<Rightarrow> string) \<Rightarrow> string \<Rightarrow> string \<Rightarrow> string prog" where
  "readFileSync_utf8 decode outDir p =
     bind (read_fs (\<lambda>fs. readFile outDir fs p)) (\<lambda>r.
     bind (settle r) (\<lambda>b.
     ret (decode b)))"

text \<open>
  \<^verbatim>\<open>path.join(outDir, '404.html')\<close> and \<^verbatim>\<open>path.join(outDir, 'not_found.html')\<close> are
  the entries of these names in the output directory.
\<close>

definition existsSync_out :: "string \<Rightarrow> bool prog" where
  "existsSync_out p = read_fs (\<lambda>fs. map_of (outDir_files fs) p \<noteq> None)"

text \<open>
  \<^verbatim>\<open>fs.renameSync\<close> inside a directory: the file moves to its new name and replaces a
  file that had it.
\<close>

definition rename_entry :: "string \<Rightarrow> string \<Rightarrow> tree \<Rightarrow> tree" where
  "rename_entry src dst t =
     (case map_of t src of
        None \<Rightarrow> t
      | Some c \<Rightarrow> (dst, c) # filter (\<lambda>(p, _). p \<noteq> src \<and> p \<noteq> dst) t)"

definition renameSync_out :: "string \<Rightarrow> string \<Rightarrow> unit prog" where
  "renameSync_out src dst =
     bind (read_fs outDir_files) (\<lambda>t.
       case map_of t src of
         None \<Rightarrow> throw (new_Error (''ENOENT: no such file or directory, rename '' @ src))
       | Some _ \<Rightarrow> modify_fs (\<lambda>fs. fs\<lparr>outDir_files := rename_entry src dst t\<rparr>))"

text \<open>
  \<^verbatim>\<open>fs.cpSync(outDir, tmpBuildDir + `/${folder}`, { recursive: true })\<close>: the file at
  \<open>p\<close> in the output directory is copied to \<^verbatim>\<open>path.join\<close> of the destination and
  \<open>p\<close>. The copies that land in the staging directory are kept under their path
  relative to it; \<^verbatim>\<open>folder\<close> can also lead out of the staging directory, and the copies
  are then written on the rest of the disk.
\<close>

definition copy_to :: "string \<Rightarrow> tree \<Rightarrow> tree" where
  "copy_to folder t = map (\<lambda>(p, c). (join (''.build-temp/'' @ folder) p, c)) t"

definition copy_under :: "string \<Rightarrow> tree \<Rightarrow> tree" where
  "copy_under folder t =
     concat (map (\<lambda>(q, c). case below ''.build-temp'' q of
                               Some rel \<Rightarrow> [(rel, c)]
                             | None \<Rightarrow> [])
                 (copy_to folder t))"

definition copy_outside :: "string \<Rightarrow> tree \<Rightarrow> tree" where
  "copy_outside folder t =
     filter (\<lambda>(q, c). below ''.build-temp'' q = None) (copy_to folder t)"

definition cpSync_out_tmp :: "string \<Rightarrow> unit prog" where
  "cpSync_out_tmp folder =
     modify_fs (\<lambda>fs. fs\<lparr>tmpBuildDir :=
        Some (copy_under folder (outDir_files fs)
              @ (case tmpBuildDir fs of None \<Rightarrow> [] | Some old \<Rightarrow> old)),
        elsewhere := elsewhere fs ++ map_of (copy_outside folder (outDir_files fs))\<rparr>)"

text \<open>
  \<^verbatim>\<open>zipDirectory(tmpBuildDir, out)\<close>: the archive of the staging directory's content,
  paths relative to it, written to \<^verbatim>\<open>out\<close>. The function returns the promise of
  \<^verbatim>\<open>archive.finalize()\<close> and does not wait for the output stream to close; the archive
  is taken to be written in full by the time the hook reads the file again, which is
  after the session has been created.
\<close>

definition zipDirectory :: "string \<Rightarrow> unit prog" where
  "zipDirectory out =
     bind (read_fs tmpBuildDir) (\<lambda>t.
       case t of
         None \<Rightarrow> throw (new_Error ''ENOENT: no such file or directory, .build-temp'')
       | Some staged \<Rightarrow> modify_fs (\<lambda>fs. fs\<lparr>cwd_files := (cwd_files fs)(out \<mapsto> Zip staged)\<rparr>))"

definition readFileSync_cwd :: "string \<Rightarrow> bytes prog" where
  "readFileSync_cwd name =
     bind (read_fs cwd_files) (\<lambda>m.
       case m name of
         None \<Rightarrow> throw (new_Error (''ENOENT: no such file or directory, open '' @ name))
       | Some b \<Rightarrow> ret b)"

definition unlink :: "string \<Rightarrow> unit prog" where
  "unlink name =
     bind (read_fs cwd_files) (\<lambda>m.
       case m name of
         None \<Rightarrow> throw (new_Error (''ENOENT: no such file or directory, unlink '' @ name))
       | Some _ \<Rightarrow> modify_fs (\<lambda>fs. fs\<lparr>cwd_files := (cwd_files fs)(name := None)\<rparr>))"

subsection \<open>Options, clients and the environment\<close>

record Options =
  apiKey :: string
  domain :: "string option"
  cookie :: "string option"
  siteName :: "string option"
  rssFeed :: "string option"

text \<open>
  What \<^verbatim>\<open>getSiteInfo\<close> resolves to, as far as the adapter reads it: \<^verbatim>\<open>folder\<close> (may
  be missing), \<^verbatim>\<open>domain\<close>, and \<^verbatim>\<open>username\<close>, which only the version before 3.0.0
  reads.
\<close>

record SiteInfo =
  site_folder :: "string option"
  site_domain :: string
  site_username :: string

text \<open>
  The object \<^verbatim>\<open>new NekoAPI(apiKey, logger, cookie)\<close>: the options passed to
  \<^verbatim>\<open>super\<close> (the API-key client), the cookie client \<^verbatim>\<open>ucfg\<close> or \<^verbatim>\<open>null\<close>, and the two
  private fields. A big-file handle holds the session id and the client it came from.
\<close>

record NekoAPI =
  config :: NekowebConfig
  ucfg :: "NekowebConfig option"
  csrf :: string
  site :: string

record BigFileExt =
  big_id :: string
  big_config :: NekowebConfig

text \<open>
  What the library, the server, the clock and the runtime give back, one field per call
  site of the hook: the settled outcome of each promise, \<^verbatim>\<open>Date.now()\<close> at its two
  uses, and what reading a file as \<^verbatim>\<open>'utf-8'\<close> and sending the string makes of the
  file's bytes. \<open>now_date\<close> is \<^verbatim>\<open>new Date(Date.now()).toString()\<close>, which only the
  version before 3.0.0 writes.
\<close>

record env =
  site_info_res :: "error + SiteInfo"
  create_res :: "error + string"
  append_res :: "error + unit"
  delete_res :: "error + unit"
  import_res :: "error + unit"
  csrf_site_info_res :: "error + SiteInfo"
  csrf_res :: "error + string"
  edit_rss_res :: "error + unit"
  edit_marker_res :: "error + unit"
  now_rss :: nat
  now_marker :: nat
  now_date :: string
  utf8_text :: "string \<Rightarrow> string"

definition version :: string where
  "version = ''3.0.0''"

text \<open>
  The constructor. With a cookie both clients get the interpolated application name;
  without one the name is written in single quotes in the source, so \<^verbatim>\<open>${version}\<close>
  stays as it is.
\<close>

definition cookie_headers :: "string \<Rightarrow> (string \<times> string) list" where
  "cookie_headers c =
     [(''Authorization'', []),
      (''Origin'', ''https://nekoweb.org''),
      (''Host'', ''nekoweb.org''),
      (''User-Agent'', []),
      (''Referer'', ''https://nekoweb.org/?'' @ encodeURIComponent
          (''astro-adapter-nekoweb@'' @ version @ '' deployment library (pls no bans)'')),
      (''Cookie'', ''token='' @ c)]"

definition new_NekoAPI :: "string \<Rightarrow> string option \<Rightarrow> NekoAPI" where
  "new_NekoAPI key ck =
     (case ck of
        Some c \<Rightarrow>
          if c \<noteq> [] then
            \<lparr>config = \<lparr>cfg_apiKey = key,
                       cfg_appName = ''astro-adapter-nekoweb/'' @ version
                         @ '' (https://github.com/indiefellas/astro-adapter-nekoweb)'',
                       cfg_headers = []\<rparr>,
             ucfg = Some \<lparr>cfg_apiKey = [],
                           cfg_appName = ''astro-adapter-nekoweb/'' @ version
                             @ '' (https://github.com/indiefellas/astro-adapter-nekoweb)'',
                           cfg_headers = cookie_headers c\<rparr>,
             csrf = [], site = []\<rparr>
          else
            \<lparr>config = \<lparr>cfg_apiKey = key,
                       cfg_appName = ''astro-adapter-nekoweb/${version} (https://github.com/indiefellas/astro-adapter-nekoweb)'',
                       cfg_headers = []\<rparr>,
             ucfg = None, csrf = [], site = []\<rparr>
      | None \<Rightarrow>
          \<lparr>config = \<lparr>cfg_apiKey = key,
                     cfg_appName = ''astro-adapter-nekoweb/${version} (https://github.com/indiefellas/astro-adapter-nekoweb)'',
                     cfg_headers = []\<rparr>,
           ucfg = None, csrf = [], site = []\<rparr>)"

subsection \<open>The methods of \<^verbatim>\<open>NekoAPI\<close>\<close>

text \<open>
  \<^verbatim>\<open>getCSRFToken\<close>: site info through the API-key client, then \<^verbatim>\<open>/csrf\<close> through the
  cookie client. With no cookie client \<^verbatim>\<open>this.ucfg?.generic\<close> is \<^verbatim>\<open>undefined\<close> and
  \<^verbatim>\<open>Buffer.from\<close> throws a TypeError. The object comes back with both fields set.
\<close>

definition getCSRFToken :: "env \<Rightarrow> NekoAPI \<Rightarrow> NekoAPI prog" where
  "getCSRFToken env api =
     bind (request (config api) (GetSiteInfo None) (csrf_site_info_res env)) (\<lambda>ures.
       let domain' = site_domain ures in
       bind (case ucfg api of
               None \<Rightarrow> ret None
             | Some u \<Rightarrow> bind (request u GetCsrf (csrf_res env)) (\<lambda>r. ret (Some r)))
         (\<lambda>response.
            case response of
              None \<Rightarrow> throw (Error ''TypeError''
                ''The first argument must be of type string or an instance of Buffer, ArrayBuffer, or Array or an Array-like Object. Received undefined'')
            | Some r \<Rightarrow> ret (api\<lparr>csrf := r, site := domain'\<rparr>)))"

text \<open>
  \<^verbatim>\<open>editFileCSRF(path, content, siteName)\<close>; \<open>answer\<close> is what the environment gives
  at the call site.
\<close>

definition editFileCSRF ::
  "error + unit \<Rightarrow> NekoAPI \<Rightarrow> string \<Rightarrow> string \<Rightarrow> string \<Rightarrow> unit prog" where
  "editFileCSRF answer api path body siteName' =
     (case ucfg api of
        None \<Rightarrow> ret ()
      | Some u \<Rightarrow> request u (FilesEdit path body siteName' (csrf api)) answer)"

definition createBigFile :: "env \<Rightarrow> NekoAPI \<Rightarrow> BigFileExt prog" where
  "createBigFile env api =
     bind (request (config api) BigCreate (create_res env)) (\<lambda>id'.
       ret \<lparr>big_id = id', big_config = config api\<rparr>)"

definition initFileUpload :: "env \<Rightarrow> NekoAPI \<Rightarrow> BigFileExt prog" where
  "initFileUpload env api =
     try_catch (createBigFile env api)
       (\<lambda>error. bind (emit (Console error)) (\<lambda>_. throw error))"

subsection \<open>\<^verbatim>\<open>BigFileExt.finalizeUpload\<close>\<close>

definition marker_pathname :: string where
  "marker_pathname = ''/.astro-adapter-nekoweb.html''"

definition marker_content :: "nat \<Rightarrow> string" where
  \<open>marker_content now =
     ''<!--\<newline>'' @
     ''    This is an auto-generated file created by astro-adapter-nekoweb.\<newline>'' @
     ''\<newline>'' @
     ''    This file is used to put you on the 'Last Updated' page\<newline>'' @
     ''    on Nekoweb.\<newline>'' @
     ''\<newline>'' @
     ''    You can delete this file if you want, but it will come\<newline>'' @
     ''    back the next time you deploy using astro-adapter-nekoweb.\<newline>'' @
     ''                \<newline>'' @
     ''    https://deploy.nekoweb.org/astro\<newline>'' @
     ''    https://github.com/indiefellas/astro-adapter-nekoweb\<newline>'' @
     ''\<newline>'' @
     ''    '' @ string_of_nat now @ ''\<newline>'' @
     ''-->''\<close>

text \<open>
  \<^verbatim>\<open>let res = this.import()\<close> sends the import request and keeps the promise without
  awaiting it. Without a cookie client the promise is returned from inside the
  \<^verbatim>\<open>try\<close>: a returned promise is not awaited there, so its rejection passes the
  \<^verbatim>\<open>catch\<close> and becomes the rejection of \<^verbatim>\<open>finalizeUpload\<close> itself. With a cookie
  client nothing reads the promise again: the method goes on whatever the import does,
  and what the \<^verbatim>\<open>try\<close> block throws is logged and swallowed. A rejection of the
  import is then a rejection nobody handles; what the host process does about such a
  rejection is not part of the hook and is not modelled.
  The body of the \<^verbatim>\<open>try\<close> yields the promise the method returns, already settled.
\<close>

definition finalizeUpload ::
  "env \<Rightarrow> BigFileExt \<Rightarrow> NekoAPI \<Rightarrow> string \<Rightarrow> string option \<Rightarrow> string option \<Rightarrow> unit prog"
where
  "finalizeUpload env this api siteName' rssFeed' rssContent =
     bind
       (try_catch
          (bind (emit (Request (big_config this) (BigImport (big_id this)))) (\<lambda>_.
             let res = import_res env in
             if ucfg api = None then
               bind (logger Warn ''Nekoweb Cookie not found. Skipping Recently Updated support...'')
                 (\<lambda>_. ret res)
             else
               bind (getCSRFToken env api) (\<lambda>api.
               bind (case (rssFeed', rssContent) of
                       (Some f, Some c) \<Rightarrow>
                         if f \<noteq> [] \<and> c \<noteq> []
                         then editFileCSRF (edit_rss_res env) api f c siteName'
                         else ret ()
                     | _ \<Rightarrow> ret ()) (\<lambda>_.
               bind (editFileCSRF (edit_marker_res env) api marker_pathname
                       (marker_content (now_marker env)) siteName') (\<lambda>_.
               bind (logger Info ''Sent cookie request'') (\<lambda>_.
               ret (Inr ())))))))
          (\<lambda>error.
             bind (logger Err (''Failed to upload. '' @ error_toString error)) (\<lambda>_.
             ret (Inr ()))))
       settle"

subsection \<open>The hook \<^verbatim>\<open>astro:build:done\<close>\<close>

definition rss_marker :: "nat \<Rightarrow> string" where
  "rss_marker now =
     ''<!-- deployed to Nekoweb using astro-adapter-nekoweb on '' @ string_of_nat now @ '' -->''"

definition astro_build_done :: "Options \<Rightarrow> env \<Rightarrow> string \<Rightarrow> unit prog" where
  \<open>astro_build_done args env outDir =
     (if apiKey args = [] then
        bind (logger Err ''Missing API key. You need to define it so you can deploy your site.'')
          (\<lambda>_. throw (new_Error ''Missing API key''))
      else
        let neko = new_NekoAPI (apiKey args) (cookie args) in
        bind (request (config neko) (GetSiteInfo (domain args)) (site_info_res env)) (\<lambda>site.
        if \<not> truthy (site_folder site) then
          bind (logger Err ''Missing folder.'') (\<lambda>_. throw (new_Error ''Missing folder''))
        else
          let folder = (case site_folder site of Some f \<Rightarrow> f | None \<Rightarrow> []) in
          bind existsSync_tmp (\<lambda>stale.
          bind (if stale then rmSync_tmp else ret ()) (\<lambda>_.
          bind mkdirSync_tmp (\<lambda>_.
          let zipFileName = hd (split CHR ''/'' folder) @ ''.zip'' in
          bind (case rssFeed args of
                  None \<Rightarrow> ret None
                | Some f \<Rightarrow>
                    if f = [] then ret None
                    else bind (readFileSync_utf8 (utf8_text env) outDir (join outDir f)) (\<lambda>orig.
                           ret (Some (orig @ ''\<newline>'' @ rss_marker (now_rss env)))))
            (\<lambda>rssContent.
          bind (existsSync_out ''404.html'') (\<lambda>found.
          bind (if found then
                  bind (logger Info ''Found 404.html, renaming it to not_found.html...'') (\<lambda>_.
                    renameSync_out ''404.html'' ''not_found.html'')
                else ret ()) (\<lambda>_.
          bind (cpSync_out_tmp folder) (\<lambda>_.
          bind (zipDirectory zipFileName) (\<lambda>_.
          bind (logger Info (''Compressed "'' @ outDir @ ''"'')) (\<lambda>_.
          bind (initFileUpload env neko) (\<lambda>bigId.
          bind (logger Info (''Created BigFile upload session (ID: '' @ big_id bigId @ '')'')) (\<lambda>_.
          bind (readFileSync_cwd zipFileName) (\<lambda>zip.
          bind (request (big_config bigId) (BigAppend (big_id bigId) zip) (append_res env)) (\<lambda>_.
          bind (logger Info (''Uploaded "'' @ outDir @ ''"'')) (\<lambda>_.
          bind (try_catch (request (config neko) (DeletePath folder) (delete_res env))
                  (\<lambda>e. ret ())) (\<lambda>_.
          bind (finalizeUpload env bigId neko
                  (case siteName args of None \<Rightarrow> [] | Some s \<Rightarrow> s)
                  (case rssFeed args of
                     None \<Rightarrow> None
                   | Some f \<Rightarrow> if f = [] then None else Some (join (''/'' @ folder) f))
                  rssContent) (\<lambda>_.
          bind (logger Info (''Successfully deployed "'' @ outDir @ ''"'')) (\<lambda>_.
          bind (unlink zipFileName) (\<lambda>_.
          rmSync_tmp))))))))))))))))))))\<close>

text \<open>A run of the hook: from a file system and an empty record of events.\<close>

definition run :: "Options \<Rightarrow> env \<Rightarrow> string \<Rightarrow> fs_state \<Rightarrow> (error + unit) \<times> world" where
  "run args env outDir fs = astro_build_done args env outDir \<lparr>files = fs, events = []\<rparr>"

section \<open>The version before 3.0.0, on the library\<close>

text \<open>
  Before version 3.0.0 the hook already went through the library (its version string is
  still \<^verbatim>\<open>2.0.3\<close>). It differs from its successor in what matters below: the serve
  folder is an option and is not asked from the server, the RSS feed is searched for in
  the build output and is not named by an option, the feed is sent with a newline and no
  comment after it, the file edits carry the user name as the site, and
  \<^verbatim>\<open>finalizeUpload\<close> throws again the error it has caught and logged.
\<close>

record Options_2 =
  apiKey_2 :: "string option"
  folder_2 :: "string option"
  cookie_2 :: "string option"

subsection \<open>\<^verbatim>\<open>getRssFile\<close>\<close>

text \<open>
  \<^verbatim>\<open>fs.readdirSync(dir)\<close> gives the names of the entries of a directory, and
  \<^verbatim>\<open>lstatSync(filePath).isDirectory()\<close> tells the subdirectories from the files;
  \<open>subdir\<close> is the content of a subdirectory. \<open>weight\<close> measures a directory by the
  length of its paths: a subdirectory weighs less than the directory it is in.
\<close>

definition readdirSync :: "tree \<Rightarrow> string list" where
  "readdirSync t = rev (remdups (rev (map (\<lambda>(p, _). hd (split CHR ''/'' p)) t)))"

definition subdir :: "string \<Rightarrow> tree \<Rightarrow> tree" where
  "subdir name t =
     map (\<lambda>(p, c). (drop (length name + 1) p, c))
       (filter (\<lambda>(p, _). prefix (name @ ''/'') p) t)"

definition weight :: "tree \<Rightarrow> nat" where
  "weight t = sum_list (map (\<lambda>(p, _). length p) t)"

text \<open>
  The search goes through the entries in the order of the listing, descends into a
  subdirectory before it looks at the entries after it, and returns the first file whose
  name ends in \<^verbatim>\<open>.xml\<close>, under the path \<^verbatim>\<open>path.join\<close> has built for it from
  \<^verbatim>\<open>dir\<close>. The \<^verbatim>\<open>catch\<close> of the source answers errors of the disk, which are not
  modelled.
\<close>

function getRssFile :: "string \<Rightarrow> tree \<Rightarrow> string option"
  and getRssFile_loop :: "string \<Rightarrow> tree \<Rightarrow> string list \<Rightarrow> string option" where
  "getRssFile dir t = getRssFile_loop dir t (readdirSync t)"
| "getRssFile_loop dir t [] = None"
| "getRssFile_loop dir t (file # rest) =
     (let filePath = join dir file in
      if is_directory file t then
        (case getRssFile filePath (subdir file t) of
           Some res \<Rightarrow> if res \<noteq> [] then Some res else getRssFile_loop dir t rest
         | None \<Rightarrow> getRssFile_loop dir t rest)
      else if suffix ''.xml'' file then Some filePath
      else getRssFile_loop dir t rest)"
  by pat_completeness auto
termination
proof -
  have le: "weight (subdir name t) \<le> weight t" for name t
    by (induct t) (auto simp: weight_def subdir_def)
  have less: "weight (subdir name t) < weight t" if "is_directory name t" for name t
    using that
  proof (induct t)
    case Nil
    then show ?case by (simp add: is_directory_def)
  next
    case (Cons a t)
    obtain p c where a: "a = (p, c)" by (cases a)
    show ?case
    proof (cases "prefix (name @ ''/'') p")
      case True
      then have "length (drop (length name + 1) p) < length p"
        by (auto simp: prefix_def)
      moreover have "weight (subdir name t) \<le> weight t" by (rule le)
      ultimately show ?thesis
        using True a by (simp add: weight_def subdir_def)
    next
      case False
      with Cons a have "weight (subdir name t) < weight t"
        by (simp add: is_directory_def)
      with False a show ?thesis by (simp add: weight_def subdir_def)
    qed
  qed
  show ?thesis
    by (relation "measures [\<lambda>x. case x of Inl (d, t) \<Rightarrow> weight t | Inr (d, t, fs) \<Rightarrow> weight t,
                           \<lambda>x. case x of Inl (d, t) \<Rightarrow> Suc (length (readdirSync t))
                                        | Inr (d, t, fs) \<Rightarrow> length fs]")
       (auto simp: less)
qed

subsection \<open>The client and its methods\<close>

text \<open>
  The constructor: here the application name is written in single quotes in all three
  places, so \<^verbatim>\<open>${version}\<close> stays as it is; only the \<^verbatim>\<open>Referer\<close> is interpolated.
\<close>

definition version_2 :: string where
  "version_2 = ''2.0.3''"

definition cookie_headers_lib :: "string \<Rightarrow> (string \<times> string) list" where
  "cookie_headers_lib c =
     [(''Authorization'', []),
      (''Origin'', ''https://nekoweb.org''),
      (''Host'', ''nekoweb.org''),
      (''User-Agent'', []),
      (''Referer'', ''https://nekoweb.org/?'' @ encodeURIComponent
          (''astro-adapter-nekoweb@'' @ version_2 @ '' deployment library (pls no bans)'')),
      (''Cookie'', ''token='' @ c)]"

definition new_NekoAPI_lib :: "string \<Rightarrow> string option \<Rightarrow> NekoAPI" where
  "new_NekoAPI_lib key ck =
     (case ck of
        Some c \<Rightarrow>
          if c \<noteq> [] then
            \<lparr>config = \<lparr>cfg_apiKey = key,
                       cfg_appName = ''astro-adapter-nekoweb/${version} (https://github.com/indiefellas/astro-adapter-nekoweb)'',
                       cfg_headers = []\<rparr>,
             ucfg = Some \<lparr>cfg_apiKey = [],
                           cfg_appName = ''astro-adapter-nekoweb/${version} (https://github.com/indiefellas/astro-adapter-nekoweb)'',
                           cfg_headers = cookie_headers_lib c\<rparr>,
             csrf = [], site = []\<rparr>
          else
            \<lparr>config = \<lparr>cfg_apiKey = key,
                       cfg_appName = ''astro-adapter-nekoweb/${version} (https://github.com/indiefellas/astro-adapter-nekoweb)'',
                       cfg_headers = []\<rparr>,
             ucfg = None, csrf = [], site = []\<rparr>
      | None \<Rightarrow>
          \<lparr>config = \<lparr>cfg_apiKey = key,
                     cfg_appName = ''astro-adapter-nekoweb/${version} (https://github.com/indiefellas/astro-adapter-nekoweb)'',
                     cfg_headers = []\<rparr>,
           ucfg = None, csrf = [], site = []\<rparr>)"

text \<open>
  \<^verbatim>\<open>getCSRFToken\<close> keeps the user name of the site info, and \<^verbatim>\<open>editFileCSRF(path,
  content)\<close> sends it as the site. \<^verbatim>\<open>initFileUpload\<close> and \<^verbatim>\<open>createBigFile\<close> are
  the same lines as in version 3.0.0.
\<close>

definition getCSRFToken_lib :: "env \<Rightarrow> NekoAPI \<Rightarrow> NekoAPI prog" where
  "getCSRFToken_lib env api =
     bind (request (config api) (GetSiteInfo None) (csrf_site_info_res env)) (\<lambda>ures.
       let username = site_username ures in
       bind (case ucfg api of
               None \<Rightarrow> ret None
             | Some u \<Rightarrow> bind (request u GetCsrf (csrf_res env)) (\<lambda>r. ret (Some r)))
         (\<lambda>response.
            case response of
              None \<Rightarrow> throw (Error ''TypeError''
                ''The first argument must be of type string or an instance of Buffer, ArrayBuffer, or Array or an Array-like Object. Received undefined'')
            | Some r \<Rightarrow> ret (api\<lparr>csrf := r, site := username\<rparr>)))"

definition editFileCSRF_lib ::
  "error + unit \<Rightarrow> NekoAPI \<Rightarrow> string \<Rightarrow> string \<Rightarrow> unit prog" where
  "editFileCSRF_lib answer api path body =
     (case ucfg api of
        None \<Rightarrow> ret ()
      | Some u \<Rightarrow> request u (FilesEdit path body (site api) (csrf api)) answer)"

subsection \<open>\<^verbatim>\<open>BigFileExt.finalizeUpload\<close>, with the error thrown again\<close>

definition marker_pathname_lib :: string where
  "marker_pathname_lib = ''/.astro-adapter.nekoweb.html''"

definition marker_content_lib :: "string \<Rightarrow> string" where
  "marker_content_lib date =
     ''<!-- deployed to Nekoweb using @indiefellas/astro-adapter-nekoweb on '' @ date @ '' -->''"

text \<open>
  The same method as in version 3.0.0, import promise included, but for the last line of
  the \<^verbatim>\<open>catch\<close>: \<^verbatim>\<open>throw error\<close>. What a metadata call throws is logged and then
  rejects \<^verbatim>\<open>finalizeUpload\<close>.
\<close>

definition finalizeUpload_lib ::
  "env \<Rightarrow> BigFileExt \<Rightarrow> NekoAPI \<Rightarrow> string option \<Rightarrow> string option \<Rightarrow> unit prog" where
  "finalizeUpload_lib env this api rssFile rssContent =
     bind
       (try_catch
          (bind (emit (Request (big_config this) (BigImport (big_id this)))) (\<lambda>_.
             let res = import_res env in
             if ucfg api = None then
               bind (logger Warn ''Nekoweb Cookie not found. Skipping Recently Updated support...'')
                 (\<lambda>_. ret res)
             else
               bind (getCSRFToken_lib env api) (\<lambda>api.
               bind (case (rssFile, rssContent) of
                       (Some f, Some c) \<Rightarrow>
                         if f \<noteq> [] \<and> c \<noteq> []
                         then editFileCSRF_lib (edit_rss_res env) api f c
                         else ret ()
                     | _ \<Rightarrow> ret ()) (\<lambda>_.
               bind (editFileCSRF_lib (edit_marker_res env) api marker_pathname_lib
                       (marker_content_lib (now_date env))) (\<lambda>_.
               bind (logger Info ''Sent cookie request'') (\<lambda>_.
               ret (Inr ())))))))
          (\<lambda>error.
             bind (logger Err (''Failed to upload. '' @ error_toString error)) (\<lambda>_.
             throw error)))
       settle"

subsection \<open>The hook\<close>

text \<open>
  The archive is named after the whole folder option, and the feed is read under the path
  \<^verbatim>\<open>getRssFile\<close> returned.
\<close>

definition astro_build_done_lib :: "Options_2 \<Rightarrow> env \<Rightarrow> string \<Rightarrow> unit prog" where
  \<open>astro_build_done_lib args env outDir =
     (if \<not> truthy (apiKey_2 args) then
        bind (logger Err ''Missing API key. You need to define it so you can deploy your site.'')
          (\<lambda>_. throw (new_Error ''Missing API key''))
      else if \<not> truthy (folder_2 args) then
        bind (logger Err ''Missing serve folder.'')
          (\<lambda>_. throw (new_Error ''Missing serve directory''))
      else
        let apiKey' = (case apiKey_2 args of Some k \<Rightarrow> k | None \<Rightarrow> []);
            folder = (case folder_2 args of Some f \<Rightarrow> f | None \<Rightarrow> ''build'');
            neko = new_NekoAPI_lib apiKey' (cookie_2 args) in
        bind existsSync_tmp (\<lambda>stale.
        bind (if stale then rmSync_tmp else ret ()) (\<lambda>_.
        bind mkdirSync_tmp (\<lambda>_.
        let zipFileName = folder @ ''.zip'' in
        bind (read_fs (\<lambda>fs. getRssFile outDir (outDir_files fs))) (\<lambda>rssFile.
        bind (case rssFile of
                None \<Rightarrow> ret None
              | Some f \<Rightarrow>
                  if f = [] then ret None
                  else bind (readFileSync_utf8 (utf8_text env) outDir f) (\<lambda>orig.
                         ret (Some (orig @ ''\<newline>''))))
          (\<lambda>rssContent.
        bind (existsSync_out ''404.html'') (\<lambda>found.
        bind (if found then
                bind (logger Info ''Found 404.html, renaming it to not_found.html...'') (\<lambda>_.
                  renameSync_out ''404.html'' ''not_found.html'')
              else ret ()) (\<lambda>_.
        bind (cpSync_out_tmp folder) (\<lambda>_.
        bind (zipDirectory zipFileName) (\<lambda>_.
        bind (logger Info (''Compressed "'' @ outDir @ ''"'')) (\<lambda>_.
        bind (initFileUpload env neko) (\<lambda>bigId.
        bind (logger Info (''Created BigFile upload session (ID: '' @ big_id bigId @ '')'')) (\<lambda>_.
        bind (readFileSync_cwd zipFileName) (\<lambda>zf.
        bind (request (big_config bigId) (BigAppend (big_id bigId) zf) (append_res env)) (\<lambda>_.
        bind (logger Info (''Uploaded "'' @ outDir @ ''"'')) (\<lambda>_.
        bind (try_catch (request (config neko) (DeletePath folder) (delete_res env))
                (\<lambda>e. ret ())) (\<lambda>_.
        bind (finalizeUpload_lib env bigId neko rssFile rssContent) (\<lambda>_.
        bind (logger Info (''Successfully deployed "'' @ outDir @ ''"'')) (\<lambda>_.
        bind (unlink zipFileName) (\<lambda>_.
        rmSync_tmp))))))))))))))))))))\<close>

definition run_lib ::
  "Options_2 \<Rightarrow> env \<Rightarrow> string \<Rightarrow> fs_state \<Rightarrow> (error + unit) \<times> world" where
  "run_lib args env outDir fs = astro_build_done_lib args env outDir \<lparr>files = fs, events = []\<rparr>"

section \<open>Version 2.0.3: the adapter that talks to the server itself\<close>

text \<open>
  Before the adapter moved to the library, \<^verbatim>\<open>index.ts\<close> sent every request with
  \<^verbatim>\<open>fetch\<close> and checked \<^verbatim>\<open>response.ok\<close> itself. Its functions \<^verbatim>\<open>getToken\<close>,
  \<^verbatim>\<open>initFileUpload\<close>, \<^verbatim>\<open>uploadFile\<close>, \<^verbatim>\<open>getCSRFToken\<close> and
  \<^verbatim>\<open>finalizeUpload\<close> and its hook follow; \<^verbatim>\<open>getRssFile\<close> and \<^verbatim>\<open>zipDirectory\<close>
  are the functions above. A response is read through \<^verbatim>\<open>ok\<close>, \<^verbatim>\<open>status\<close>,
  \<^verbatim>\<open>statusText\<close> and \<^verbatim>\<open>text()\<close>; \<^verbatim>\<open>fetch\<close> itself rejects when the network
  fails.
\<close>

record Response =
  resp_ok :: bool
  resp_status :: nat
  resp_statusText :: string
  resp_text :: string

text \<open>
  The answers at the call sites of version 2.0.3, in the order of the hook. The body of
  the create response is read as JSON and its \<^verbatim>\<open>id\<close> taken: \<open>create_json\<close> is that
  field, or the error of reading it; in the same way \<open>username_json\<close> is the
  \<^verbatim>\<open>username\<close> of the site-info body. \<open>now_text\<close> is
  \<^verbatim>\<open>new Date(Date.now()).toString()\<close>, and \<open>utf8_text_2\<close> is what reading a file as
  \<^verbatim>\<open>'utf-8'\<close> and sending the string makes of its bytes.
\<close>

record fetch_env =
  create_fetch :: "error + Response"
  create_json :: "error + string"
  append_fetch :: "error + Response"
  delete_fetch :: "error + Response"
  import_fetch :: "error + Response"
  site_info_fetch :: "error + Response"
  username_json :: "error + string"
  csrf_fetch :: "error + Response"
  edit_rss_fetch :: "error + Response"
  edit_marker_fetch :: "error + Response"
  now_text :: string
  utf8_text_2 :: "string \<Rightarrow> string"

definition nekowebApiUrl :: string where
  "nekowebApiUrl = ''https://nekoweb.org/api''"

definition genericRequest ::
  "string \<Rightarrow> string \<Rightarrow> (string \<times> string) list \<Rightarrow> (string \<times> bytes) list
     \<Rightarrow> error + Response \<Rightarrow> Response prog" where
  "genericRequest endpoint method hdrs form answer =
     bind (emit (Fetch (nekowebApiUrl @ endpoint) method hdrs form)) (\<lambda>_. settle answer)"

definition getToken :: "string \<Rightarrow> string option \<Rightarrow> (string \<times> string) list" where
  "getToken key ck =
     (case ck of
        Some c \<Rightarrow>
          if c \<noteq> [] then
            [(''Origin'', ''https://nekoweb.org''),
             (''Host'', ''nekoweb.org''),
             (''User-Agent'', ''astro-adapter-nekoweb/'' @ version_2
                @ '' (https://github.com/jbcarreon123/astro-adapter-nekoweb)''),
             (''Referer'', ''https://nekoweb.org/?'' @ encodeURIComponent
                (''astro-adapter-nekoweb@'' @ version_2 @ '' deployment library (pls no bans)'')),
             (''Cookie'', ''token='' @ c)]
          else
            [(''User-Agent'', ''astro-adapter-nekoweb/'' @ version_2
                @ '' (https://github.com/jbcarreon123/astro-adapter-nekoweb)''),
             (''Authorization'', key)]
      | None \<Rightarrow>
          [(''User-Agent'', ''astro-adapter-nekoweb/'' @ version_2
              @ '' (https://github.com/jbcarreon123/astro-adapter-nekoweb)''),
           (''Authorization'', key)])"

text \<open>The text after \<^verbatim>\<open>Failed to ...: \<close> in the errors of version 2.0.3.\<close>

definition status_line :: "Response \<Rightarrow> string" where
  "status_line r = string_of_nat (resp_status r) @ '' '' @ resp_statusText r"

text \<open>
  \<^verbatim>\<open>initFileUpload\<close> returns the promise of \<^verbatim>\<open>response.json()\<close> from inside its
  \<^verbatim>\<open>try\<close>, so an error of reading the body passes the \<^verbatim>\<open>catch\<close>; the hook reads
  \<^verbatim>\<open>id\<close> from what the promise gives.
\<close>

definition initFileUpload_v2 :: "fetch_env \<Rightarrow> (string \<times> string) list \<Rightarrow> string prog" where
  "initFileUpload_v2 fenv token =
     bind
       (try_catch
          (bind (genericRequest ''/files/big/create'' ''GET'' token [] (create_fetch fenv))
             (\<lambda>response.
               if \<not> resp_ok response then
                 throw (new_Error (''Failed to create upload session: '' @ status_line response
                                   @ '' - '' @ resp_text response))
               else ret (create_json fenv)))
          (\<lambda>error. bind (emit (Console error)) (\<lambda>_. throw error)))
       settle"

definition uploadFile ::
  "error + Response \<Rightarrow> (string \<times> string) list \<Rightarrow> string \<Rightarrow> string \<Rightarrow> string prog" where
  "uploadFile answer token filePath bigId =
     bind (readFileSync_cwd filePath) (\<lambda>fileBuffer.
     bind (emit (Fetch ''https://nekoweb.org/api/files/big/append'' ''POST'' token
                   [(''id'', Text bigId), (''file'', fileBuffer)])) (\<lambda>_.
     bind (settle answer) (\<lambda>response.
       if \<not> resp_ok response then
         throw (new_Error (''Failed to upload: '' @ status_line response @ '' - ''
                           @ resp_text response))
       else ret (resp_text response))))"

text \<open>
  Object spread: the entries of \<open>token\<close> after those written before it, a later key
  replacing an earlier one in its place.
\<close>

fun spread :: "(string \<times> string) list \<Rightarrow> (string \<times> string) list \<Rightarrow> (string \<times> string) list" where
  "spread obj [] = obj"
| "spread obj ((k, v) # rest) =
     spread (if map_of obj k = None then obj @ [(k, v)]
             else map (\<lambda>(k', v'). if k' = k then (k', v) else (k', v')) obj) rest"

definition getCSRFToken_v2 ::
  "fetch_env \<Rightarrow> (string \<times> string) list \<Rightarrow> (string \<times> string) prog" where
  "getCSRFToken_v2 fenv token =
     bind (genericRequest ''/site/info'' ''GET'' token [] (site_info_fetch fenv)) (\<lambda>ures.
     bind (settle (username_json fenv)) (\<lambda>username.
     bind (genericRequest ''/csrf'' ''GET''
             (spread [(''Origin'', ''https://nekoweb.org''), (''Host'', ''nekoweb.org''),
                      (''Content-Type'', ''multipart/form-data'')] token)
             [] (csrf_fetch fenv)) (\<lambda>response.
       if \<not> resp_ok response then
         throw (new_Error (''Failed to get CSRF token: '' @ status_line response @ '' (''
                           @ resp_text response @ '')''))
       else ret (resp_text response, username))))"

definition finalizeUpload_v2 ::
  "fetch_env \<Rightarrow> (string \<times> string) list \<Rightarrow> (string \<times> string) list \<Rightarrow> string
     \<Rightarrow> string option \<Rightarrow> string option \<Rightarrow> unit prog" where
  "finalizeUpload_v2 fenv apiToken token bigId rssFile rssContent =
     bind (genericRequest (''/files/import/'' @ bigId) ''POST'' apiToken []
             (import_fetch fenv)) (\<lambda>response.
       if \<not> resp_ok response then
         throw (new_Error (''Failed to import: '' @ status_line response @ '' (''
                           @ resp_text response @ '')''))
       else if \<not> truthy (map_of token ''Cookie'') then
         logger Warn ''Nekoweb Cookie not found. Skipping Recently Updated support...''
       else
         bind (getCSRFToken_v2 fenv token) (\<lambda>(csrfToken, username).
         bind (case (rssFile, rssContent) of
                 (Some f, Some c) \<Rightarrow>
                   if f \<noteq> [] \<and> c \<noteq> [] then
                     bind (genericRequest ''/files/edit'' ''POST'' token
                             [(''csrf'', Text csrfToken), (''site'', Text username),
                              (''pathname'', Text f), (''content'', Text c)]
                             (edit_rss_fetch fenv)) (\<lambda>resp.
                       if \<not> resp_ok resp then
                         logger Err (''Failed to send RSS cookie request: '' @ status_line resp
                                     @ '' ('' @ resp_text resp @ '')'')
                       else ret ())
                   else ret ()
               | _ \<Rightarrow> ret ()) (\<lambda>_.
         bind (genericRequest ''/files/edit'' ''POST'' token
                 [(''csrf'', Text csrfToken), (''site'', Text username),
                  (''pathname'', Text ''.astro-adapter-nekoweb.html''),
                  (''content'', Text (''<!-- deployed to Nekoweb using @indiefellas/astro-adapter-nekoweb on ''
                                      @ now_text fenv @ '' -->''))]
                 (edit_marker_fetch fenv)) (\<lambda>resp.
           if \<not> resp_ok resp then
             logger Err (''Failed to send cookie request: '' @ status_line resp
                         @ '' ('' @ resp_text resp @ '')'')
           else logger Info ''Sent cookie request''))))"


subsection \<open>The hook of version 2.0.3\<close>

text \<open>
  The hook has the lines of its successors, with its own requests: two header sets (the
  second always with the API key), no renaming of \<^verbatim>\<open>404.html\<close>, and the delete request
  sent with the body \<^verbatim>\<open>pathname=<folder>\<close>, recorded here as the field
  \<^verbatim>\<open>pathname\<close>.
\<close>

definition astro_build_done_v2 :: "Options_2 \<Rightarrow> fetch_env \<Rightarrow> string \<Rightarrow> unit prog" where
  \<open>astro_build_done_v2 args fenv outDir =
     (if \<not> truthy (apiKey_2 args) then
        bind (logger Err ''Missing API key. You need to define it so you can deploy your site.'')
          (\<lambda>_. throw (new_Error ''Missing API key''))
      else if \<not> truthy (folder_2 args) then
        bind (logger Err ''Missing serve folder.'')
          (\<lambda>_. throw (new_Error ''Missing serve directory''))
      else
        let apiKey' = (case apiKey_2 args of Some k \<Rightarrow> k | None \<Rightarrow> []);
            folder = (case folder_2 args of Some f \<Rightarrow> f | None \<Rightarrow> ''build'');
            token = getToken apiKey' (cookie_2 args);
            apiToken = getToken apiKey' None in
        bind existsSync_tmp (\<lambda>stale.
        bind (if stale then rmSync_tmp else ret ()) (\<lambda>_.
        bind mkdirSync_tmp (\<lambda>_.
        let zipFileName = folder @ ''.zip'' in
        bind (read_fs (\<lambda>fs. getRssFile outDir (outDir_files fs))) (\<lambda>rssFile.
        bind (case rssFile of
                None \<Rightarrow> ret None
              | Some f \<Rightarrow>
                  if f = [] then ret None
                  else bind (readFileSync_utf8 (utf8_text_2 fenv) outDir f) (\<lambda>orig.
                         ret (Some (orig @ ''\<newline>''))))
          (\<lambda>rssContent.
        bind (cpSync_out_tmp folder) (\<lambda>_.
        bind (zipDirectory zipFileName) (\<lambda>_.
        bind (logger Info (''Compressed "'' @ outDir @ ''"'')) (\<lambda>_.
        bind (initFileUpload_v2 fenv apiToken) (\<lambda>bigId.
        bind (logger Info (''Created BigFile upload session (ID: '' @ bigId @ '')'')) (\<lambda>_.
        bind (uploadFile (append_fetch fenv) apiToken zipFileName bigId) (\<lambda>_.
        bind (logger Info (''Uploaded "'' @ outDir @ ''"'')) (\<lambda>_.
        bind (try_catch
                (bind (genericRequest ''/files/delete'' ''POST''
                         (spread token [(''Content-Type'', ''application/x-www-form-urlencoded'')])
                         [(''pathname'', Text folder)] (delete_fetch fenv)) (\<lambda>_. ret ()))
                (\<lambda>e. ret ())) (\<lambda>_.
        bind (finalizeUpload_v2 fenv apiToken token bigId rssFile rssContent) (\<lambda>_.
        bind (logger Info (''Successfully deployed "'' @ outDir @ ''"'')) (\<lambda>_.
        bind (unlink zipFileName) (\<lambda>_.
        rmSync_tmp)))))))))))))))))\<close>

definition run_v2 ::
  "Options_2 \<Rightarrow> fetch_env \<Rightarrow> string \<Rightarrow> fs_state \<Rightarrow> (error + unit) \<times> world" where
  "run_v2 args fenv outDir fs = astro_build_done_v2 args fenv outDir \<lparr>files = fs, events = []\<rparr>"

section \<open>Reading a run\<close>

subsection \<open>Observations\<close>

text \<open>The calls made through the library, in the order they were made.\<close>

fun calls :: "event list \<Rightarrow> call list" where
  "calls [] = []"
| "calls (Request cfg c # es) = c # calls es"
| "calls (Logger l m # es) = calls es"
| "calls (Console e # es) = calls es"
| "calls (Fetch url m h f # es) = calls es"

text \<open>The calls of the upload session, and the two kinds of metadata call.\<close>

fun is_session_call :: "call \<Rightarrow> bool" where
  "is_session_call BigCreate = True"
| "is_session_call (BigAppend sid z) = True"
| "is_session_call (DeletePath p) = True"
| "is_session_call (BigImport sid) = True"
| "is_session_call (GetSiteInfo d) = False"
| "is_session_call GetCsrf = False"
| "is_session_call (FilesEdit p c s t) = False"

fun is_edit :: "call \<Rightarrow> bool" where
  "is_edit (FilesEdit p c s t) = True"
| "is_edit BigCreate = False"
| "is_edit (BigAppend sid z) = False"
| "is_edit (DeletePath p) = False"
| "is_edit (BigImport sid) = False"
| "is_edit (GetSiteInfo d) = False"
| "is_edit GetCsrf = False"

definition is_metadata_call :: "call \<Rightarrow> bool" where
  "is_metadata_call c = (c = GetCsrf \<or> is_edit c)"

fun is_import :: "call \<Rightarrow> bool" where
  "is_import (BigImport sid) = True"
| "is_import BigCreate = False"
| "is_import (BigAppend sid z) = False"
| "is_import (DeletePath p) = False"
| "is_import (FilesEdit p c s t) = False"
| "is_import (GetSiteInfo d) = False"
| "is_import GetCsrf = False"

text \<open>The requests that carry a \<^verbatim>\<open>Cookie\<close> header, with the options they were sent under.\<close>

fun cookie_requests :: "event list \<Rightarrow> (NekowebConfig \<times> call) list" where
  "cookie_requests [] = []"
| "cookie_requests (Request cfg c # es) =
     (if map_of (cfg_headers cfg) ''Cookie'' \<noteq> None then (cfg, c) # cookie_requests es
      else cookie_requests es)"
| "cookie_requests (Logger l m # es) = cookie_requests es"
| "cookie_requests (Console e # es) = cookie_requests es"
| "cookie_requests (Fetch url m h f # es) = cookie_requests es"

text \<open>Whether the logger got a line at the error level.\<close>

fun is_error_log :: "event \<Rightarrow> bool" where
  "is_error_log (Logger l m) = (l = Err)"
| "is_error_log (Request cfg c) = False"
| "is_error_log (Console e) = False"
| "is_error_log (Fetch url m h f) = False"

subsection \<open>The hook in blocks\<close>

text \<open>
  The hook is one long sequence. For the proofs it is cut at three places: the lines that
  stage and zip (from the check for a stale \<^verbatim>\<open>.build-temp\<close> to the log line
  \<^verbatim>\<open>Compressed\<close>), the lines that open the session and append, and the last three
  lines. \<open>astro_build_done_blocks\<close> below shows that the hook is these blocks in sequence.
\<close>

definition zipFileName :: "string \<Rightarrow> string" where
  "zipFileName folder = hd (split CHR ''/'' folder) @ ''.zip''"

definition staging :: "Options \<Rightarrow> env \<Rightarrow> string \<Rightarrow> string \<Rightarrow> string option prog" where
  \<open>staging args env outDir folder =
     bind existsSync_tmp (\<lambda>stale.
     bind (if stale then rmSync_tmp else ret ()) (\<lambda>_.
     bind mkdirSync_tmp (\<lambda>_.
     bind (case rssFeed args of
             None \<Rightarrow> ret None
           | Some f \<Rightarrow>
               if f = [] then ret None
               else bind (readFileSync_utf8 (utf8_text env) outDir (join outDir f)) (\<lambda>orig.
                      ret (Some (orig @ ''\<newline>'' @ rss_marker (now_rss env)))))
       (\<lambda>rssContent.
     bind (existsSync_out ''404.html'') (\<lambda>found.
     bind (if found then
             bind (logger Info ''Found 404.html, renaming it to not_found.html...'') (\<lambda>_.
               renameSync_out ''404.html'' ''not_found.html'')
           else ret ()) (\<lambda>_.
     bind (cpSync_out_tmp folder) (\<lambda>_.
     bind (zipDirectory (zipFileName folder)) (\<lambda>_.
     bind (logger Info (''Compressed "'' @ outDir @ ''"'')) (\<lambda>_.
     ret rssContent)))))))))\<close>

definition upload :: "env \<Rightarrow> NekoAPI \<Rightarrow> string \<Rightarrow> string \<Rightarrow> BigFileExt prog" where
  \<open>upload env neko outDir zipName =
     bind (initFileUpload env neko) (\<lambda>bigId.
     bind (logger Info (''Created BigFile upload session (ID: '' @ big_id bigId @ '')'')) (\<lambda>_.
     bind (readFileSync_cwd zipName) (\<lambda>zf.
     bind (request (big_config bigId) (BigAppend (big_id bigId) zf) (append_res env)) (\<lambda>_.
     bind (logger Info (''Uploaded "'' @ outDir @ ''"'')) (\<lambda>_.
     ret bigId)))))\<close>

definition cleanup :: "string \<Rightarrow> string \<Rightarrow> unit prog" where
  \<open>cleanup outDir zipName =
     bind (logger Info (''Successfully deployed "'' @ outDir @ ''"'')) (\<lambda>_.
     bind (unlink zipName) (\<lambda>_.
     rmSync_tmp))\<close>

subsection \<open>What each block leaves behind\<close>

text \<open>
  The content the RSS edit will carry, or the error of reading the feed; the file system
  after staging and after cleanup; the events each block adds. These describe the blocks
  from outside; the lemmas \<open>staging_run\<close>, \<open>upload_run\<close>, \<open>finalizeUpload_cookie\<close> and
  \<open>cleanup_run\<close> prove that the blocks do exactly this.
\<close>

definition rss_content ::
  "Options \<Rightarrow> env \<Rightarrow> string \<Rightarrow> fs_state \<Rightarrow> error + string option" where
  "rss_content args env outDir fs =
     (case rssFeed args of
        None \<Rightarrow> Inr None
      | Some f \<Rightarrow>
          if f = [] then Inr None
          else (case readFile outDir fs (join outDir f) of
                  Inl e \<Rightarrow> Inl e
                | Inr orig \<Rightarrow>
                    Inr (Some (utf8_text env orig @ ''\<newline>'' @ rss_marker (now_rss env)))))"

definition staged_zip :: "string \<Rightarrow> fs_state \<Rightarrow> bytes" where
  "staged_zip folder fs =
     Zip (copy_under folder (rename_entry ''404.html'' ''not_found.html'' (outDir_files fs)))"

definition staged :: "string \<Rightarrow> fs_state \<Rightarrow> fs_state" where
  "staged folder fs =
     \<lparr>outDir_files = rename_entry ''404.html'' ''not_found.html'' (outDir_files fs),
      tmpBuildDir = Some (copy_under folder
         (rename_entry ''404.html'' ''not_found.html'' (outDir_files fs))),
      cwd_files = (cwd_files fs)(zipFileName folder \<mapsto> staged_zip folder fs),
      elsewhere = elsewhere fs ++ map_of (copy_outside folder
         (rename_entry ''404.html'' ''not_found.html'' (outDir_files fs)))\<rparr>"

definition cleaned :: "string \<Rightarrow> fs_state \<Rightarrow> fs_state" where
  "cleaned zipName fs = fs\<lparr>tmpBuildDir := None, cwd_files := (cwd_files fs)(zipName := None)\<rparr>"

definition staging_events :: "string \<Rightarrow> fs_state \<Rightarrow> event list" where
  \<open>staging_events outDir fs =
     (if map_of (outDir_files fs) ''404.html'' \<noteq> None
      then [Logger Info ''Found 404.html, renaming it to not_found.html...''] else [])
     @ [Logger Info (''Compressed "'' @ outDir @ ''"'')]\<close>

definition upload_events :: "env \<Rightarrow> NekowebConfig \<Rightarrow> string \<Rightarrow> bytes option \<Rightarrow> event list" where
  \<open>upload_events env cfg outDir zf =
     Request cfg BigCreate #
     (case create_res env of
        Inl e \<Rightarrow> [Console e]
      | Inr sid \<Rightarrow>
          Logger Info (''Created BigFile upload session (ID: '' @ sid @ '')'') #
          (case zf of
             None \<Rightarrow> []
           | Some z \<Rightarrow>
               Request cfg (BigAppend sid z) #
               (case append_res env of
                  Inl e \<Rightarrow> []
                | Inr _ \<Rightarrow> [Logger Info (''Uploaded "'' @ outDir @ ''"'')])))\<close>

definition upload_result ::
  "env \<Rightarrow> NekowebConfig \<Rightarrow> string \<Rightarrow> bytes option \<Rightarrow> error + BigFileExt" where
  "upload_result env cfg zipName zf =
     (case create_res env of
        Inl e \<Rightarrow> Inl e
      | Inr sid \<Rightarrow>
          (case zf of
             None \<Rightarrow> Inl (new_Error (''ENOENT: no such file or directory, open '' @ zipName))
           | Some z \<Rightarrow>
               (case append_res env of
                  Inl e \<Rightarrow> Inl e
                | Inr _ \<Rightarrow> Inr \<lparr>big_id = sid, big_config = cfg\<rparr>)))"

definition failed_to_upload :: "error \<Rightarrow> event" where
  "failed_to_upload e = Logger Err (''Failed to upload. '' @ error_toString e)"

definition marker_events :: "env \<Rightarrow> NekowebConfig \<Rightarrow> string \<Rightarrow> string \<Rightarrow> event list" where
  "marker_events env u sn tok =
     Request u (FilesEdit marker_pathname (marker_content (now_marker env)) sn tok) #
     (case edit_marker_res env of
        Inl e \<Rightarrow> [failed_to_upload e]
      | Inr _ \<Rightarrow> [Logger Info ''Sent cookie request''])"

definition rss_events ::
  "env \<Rightarrow> NekowebConfig \<Rightarrow> string \<Rightarrow> string option \<Rightarrow> string option \<Rightarrow> string
     \<Rightarrow> event list" where
  "rss_events env u sn rf rc tok =
     (case (rf, rc) of
        (Some f, Some c) \<Rightarrow>
          if f \<noteq> [] \<and> c \<noteq> [] then
            Request u (FilesEdit f c sn tok) #
            (case edit_rss_res env of
               Inl e \<Rightarrow> [failed_to_upload e]
             | Inr _ \<Rightarrow> marker_events env u sn tok)
          else marker_events env u sn tok
      | _ \<Rightarrow> marker_events env u sn tok)"

definition metadata_events ::
  "env \<Rightarrow> NekowebConfig \<Rightarrow> NekowebConfig \<Rightarrow> string \<Rightarrow> string option \<Rightarrow> string option
     \<Rightarrow> event list" where
  "metadata_events env cfg u sn rf rc =
     Request cfg (GetSiteInfo None) #
     (case csrf_site_info_res env of
        Inl e \<Rightarrow> [failed_to_upload e]
      | Inr _ \<Rightarrow>
          Request u GetCsrf #
          (case csrf_res env of
             Inl e \<Rightarrow> [failed_to_upload e]
           | Inr tok \<Rightarrow> rss_events env u sn rf rc tok))"

text \<open>The two clients of a run, and the arguments the hook gives \<^verbatim>\<open>finalizeUpload\<close>.\<close>

definition cookie_client :: "string \<Rightarrow> NekowebConfig" where
  "cookie_client c =
     \<lparr>cfg_apiKey = [],
      cfg_appName = ''astro-adapter-nekoweb/'' @ version
        @ '' (https://github.com/indiefellas/astro-adapter-nekoweb)'',
      cfg_headers = cookie_headers c\<rparr>"

definition key_client :: "Options \<Rightarrow> NekowebConfig" where
  "key_client args = config (new_NekoAPI (apiKey args) (cookie args))"

definition rss_pathname :: "Options \<Rightarrow> string \<Rightarrow> string option" where
  "rss_pathname args folder =
     (case rssFeed args of
        None \<Rightarrow> None
      | Some f \<Rightarrow> if f = [] then None else Some (join (''/'' @ folder) f))"

definition site_name :: "Options \<Rightarrow> string" where
  "site_name args = (case siteName args of None \<Rightarrow> [] | Some s \<Rightarrow> s)"

definition uploaded_events ::
  "Options \<Rightarrow> env \<Rightarrow> string \<Rightarrow> fs_state \<Rightarrow> string \<Rightarrow> event list" where
  "uploaded_events args env outDir fs folder =
     Request (key_client args) (GetSiteInfo (domain args)) #
     staging_events outDir fs @
     upload_events env (key_client args) outDir (Some (staged_zip folder fs))"

subsection \<open>A site to deploy\<close>

text \<open>
  One concrete deployment, used to run the theorems: a site served from \<^verbatim>\<open>site\<close>, with
  a cookie and an RSS feed, a build output with a not-found page, a staging directory left
  over from an earlier run, and a server that accepts everything.
\<close>

definition site_args :: Options where
  "site_args =
     \<lparr>apiKey = ''key'', domain = None, cookie = Some ''c00kie'',
      siteName = Some ''me'', rssFeed = Some ''rss.xml''\<rparr>"

definition good_env :: env where
  "good_env =
     \<lparr>site_info_res = Inr \<lparr>site_folder = Some ''site'', site_domain = ''me.nekoweb.org'',
                             site_username = ''me''\<rparr>,
      create_res = Inr ''big1'',
      append_res = Inr (),
      delete_res = Inr (),
      import_res = Inr (),
      csrf_site_info_res = Inr \<lparr>site_folder = Some ''site'', site_domain = ''me.nekoweb.org'',
                             site_username = ''me''\<rparr>,
      csrf_res = Inr ''tok'',
      edit_rss_res = Inr (),
      edit_marker_res = Inr (),
      now_rss = 17,
      now_marker = 18,
      now_date = ''Tue Nov 03 2026 12:00:00 GMT+0000 (Coordinated Universal Time)'',
      utf8_text = (\<lambda>b. b)\<rparr>"

definition local_fs :: fs_state where
  "local_fs =
     \<lparr>outDir_files = [(''index.html'', ''<h1>hi</h1>''), (''404.html'', ''<h1>lost</h1>''),
                      (''rss.xml'', ''<rss/>'')],
      tmpBuildDir = Some [(''site/old.html'', ''old'')],
      cwd_files = Map.empty,
      elsewhere = Map.empty\<rparr>"

definition import_failed :: error where
  "import_failed = new_Error ''import rejected''"

definition bad_response :: Response where
  "bad_response =
     \<lparr>resp_ok = False, resp_status = 500, resp_statusText = ''Internal Server Error'',
      resp_text = ''no''\<rparr>"

subsection \<open>The earlier hooks in blocks\<close>

text \<open>
  The hook of the version before 3.0.0 is cut in the same places; its upload and its last
  three lines are the blocks \<open>upload\<close> and \<open>cleanup\<close> above. What its staging block
  returns is the path \<^verbatim>\<open>getRssFile\<close> found and the content to send for it.
\<close>

definition staging_lib ::
  "env \<Rightarrow> string \<Rightarrow> string \<Rightarrow> (string option \<times> string option) prog" where
  \<open>staging_lib env outDir folder =
     bind existsSync_tmp (\<lambda>stale.
     bind (if stale then rmSync_tmp else ret ()) (\<lambda>_.
     bind mkdirSync_tmp (\<lambda>_.
     bind (read_fs (\<lambda>fs. getRssFile outDir (outDir_files fs))) (\<lambda>rssFile.
     bind (case rssFile of
             None \<Rightarrow> ret None
           | Some f \<Rightarrow>
               if f = [] then ret None
               else bind (readFileSync_utf8 (utf8_text env) outDir f) (\<lambda>orig.
                      ret (Some (orig @ ''\<newline>''))))
       (\<lambda>rssContent.
     bind (existsSync_out ''404.html'') (\<lambda>found.
     bind (if found then
             bind (logger Info ''Found 404.html, renaming it to not_found.html...'') (\<lambda>_.
               renameSync_out ''404.html'' ''not_found.html'')
           else ret ()) (\<lambda>_.
     bind (cpSync_out_tmp folder) (\<lambda>_.
     bind (zipDirectory (folder @ ''.zip'')) (\<lambda>_.
     bind (logger Info (''Compressed "'' @ outDir @ ''"'')) (\<lambda>_.
     ret (rssFile, rssContent)))))))))))\<close>

definition rss_content_lib :: "env \<Rightarrow> string \<Rightarrow> fs_state \<Rightarrow> error + string option" where
  "rss_content_lib env outDir fs =
     (case getRssFile outDir (outDir_files fs) of
        None \<Rightarrow> Inr None
      | Some f \<Rightarrow>
          if f = [] then Inr None
          else (case readFile outDir fs f of
                  Inl e \<Rightarrow> Inl e
                | Inr orig \<Rightarrow> Inr (Some (utf8_text env orig @ ''\<newline>''))))"

definition staged_lib :: "string \<Rightarrow> fs_state \<Rightarrow> fs_state" where
  "staged_lib folder fs =
     \<lparr>outDir_files = rename_entry ''404.html'' ''not_found.html'' (outDir_files fs),
      tmpBuildDir = Some (copy_under folder
         (rename_entry ''404.html'' ''not_found.html'' (outDir_files fs))),
      cwd_files = (cwd_files fs)(folder @ ''.zip'' \<mapsto> staged_zip folder fs),
      elsewhere = elsewhere fs ++ map_of (copy_outside folder
         (rename_entry ''404.html'' ''not_found.html'' (outDir_files fs)))\<rparr>"

text \<open>
  The events of its metadata update, and how the update ends: with the first error among
  the calls it makes.
\<close>

definition marker_events_lib :: "env \<Rightarrow> NekowebConfig \<Rightarrow> string \<Rightarrow> string \<Rightarrow> event list" where
  "marker_events_lib env u sn tok =
     Request u (FilesEdit marker_pathname_lib (marker_content_lib (now_date env)) sn tok) #
     (case edit_marker_res env of
        Inl e \<Rightarrow> [failed_to_upload e]
      | Inr _ \<Rightarrow> [Logger Info ''Sent cookie request''])"

definition rss_edit_due :: "string option \<Rightarrow> string option \<Rightarrow> bool" where
  "rss_edit_due rf rc =
     (case (rf, rc) of (Some f, Some c) \<Rightarrow> f \<noteq> [] \<and> c \<noteq> [] | _ \<Rightarrow> False)"

definition rss_events_lib ::
  "env \<Rightarrow> NekowebConfig \<Rightarrow> string \<Rightarrow> string option \<Rightarrow> string option \<Rightarrow> string
     \<Rightarrow> event list" where
  "rss_events_lib env u sn rf rc tok =
     (if rss_edit_due rf rc then
        Request u (FilesEdit (case rf of Some f \<Rightarrow> f | None \<Rightarrow> [])
                             (case rc of Some c \<Rightarrow> c | None \<Rightarrow> []) sn tok) #
        (case edit_rss_res env of
           Inl e \<Rightarrow> [failed_to_upload e]
         | Inr _ \<Rightarrow> marker_events_lib env u sn tok)
      else marker_events_lib env u sn tok)"

definition metadata_events_lib ::
  "env \<Rightarrow> NekowebConfig \<Rightarrow> NekowebConfig \<Rightarrow> string option \<Rightarrow> string option \<Rightarrow> event list"
where
  "metadata_events_lib env cfg u rf rc =
     Request cfg (GetSiteInfo None) #
     (case csrf_site_info_res env of
        Inl e \<Rightarrow> [failed_to_upload e]
      | Inr ures \<Rightarrow>
          Request u GetCsrf #
          (case csrf_res env of
             Inl e \<Rightarrow> [failed_to_upload e]
           | Inr tok \<Rightarrow> rss_events_lib env u (site_username ures) rf rc tok))"

definition metadata_result :: "env \<Rightarrow> string option \<Rightarrow> string option \<Rightarrow> error + unit" where
  "metadata_result env rf rc =
     (case csrf_site_info_res env of
        Inl e \<Rightarrow> Inl e
      | Inr _ \<Rightarrow>
          (case csrf_res env of
             Inl e \<Rightarrow> Inl e
           | Inr _ \<Rightarrow>
               (case (if rss_edit_due rf rc then edit_rss_res env else Inr ()) of
                  Inl e \<Rightarrow> Inl e
                | Inr _ \<Rightarrow> edit_marker_res env)))"

definition cookie_client_lib :: "string \<Rightarrow> NekowebConfig" where
  "cookie_client_lib c =
     \<lparr>cfg_apiKey = [],
      cfg_appName = ''astro-adapter-nekoweb/${version} (https://github.com/indiefellas/astro-adapter-nekoweb)'',
      cfg_headers = cookie_headers_lib c\<rparr>"

definition key_client_lib :: "Options_2 \<Rightarrow> NekowebConfig" where
  "key_client_lib args =
     config (new_NekoAPI_lib (case apiKey_2 args of Some k \<Rightarrow> k | None \<Rightarrow> []) (cookie_2 args))"

definition serve_folder :: "Options_2 \<Rightarrow> string" where
  "serve_folder args = (case folder_2 args of Some f \<Rightarrow> f | None \<Rightarrow> ''build'')"

definition uploaded_events_lib ::
  "Options_2 \<Rightarrow> env \<Rightarrow> string \<Rightarrow> fs_state \<Rightarrow> event list" where
  "uploaded_events_lib args env outDir fs =
     staging_events outDir fs @
     upload_events env (key_client_lib args) outDir (Some (staged_zip (serve_folder args) fs))"

text \<open>
  The hook of version 2.0.3 up to the log line \<^verbatim>\<open>Compressed\<close>, and the addresses its
  requests go to.
\<close>

definition staging_v2 ::
  "fetch_env \<Rightarrow> string \<Rightarrow> string \<Rightarrow> (string option \<times> string option) prog" where
  \<open>staging_v2 fenv outDir folder =
     bind existsSync_tmp (\<lambda>stale.
     bind (if stale then rmSync_tmp else ret ()) (\<lambda>_.
     bind mkdirSync_tmp (\<lambda>_.
     bind (read_fs (\<lambda>fs. getRssFile outDir (outDir_files fs))) (\<lambda>rssFile.
     bind (case rssFile of
             None \<Rightarrow> ret None
           | Some f \<Rightarrow>
               if f = [] then ret None
               else bind (readFileSync_utf8 (utf8_text_2 fenv) outDir f) (\<lambda>orig.
                      ret (Some (orig @ ''\<newline>''))))
       (\<lambda>rssContent.
     bind (cpSync_out_tmp folder) (\<lambda>_.
     bind (zipDirectory (folder @ ''.zip'')) (\<lambda>_.
     bind (logger Info (''Compressed "'' @ outDir @ ''"'')) (\<lambda>_.
     ret (rssFile, rssContent)))))))))\<close>

definition after_upload_v2 ::
  "fetch_env \<Rightarrow> (string \<times> string) list \<Rightarrow> (string \<times> string) list \<Rightarrow> string \<Rightarrow> string
     \<Rightarrow> string \<Rightarrow> string option \<Rightarrow> string option \<Rightarrow> unit prog" where
  \<open>after_upload_v2 fenv apiToken token outDir folder bigId rssFile rssContent =
     bind (logger Info (''Uploaded "'' @ outDir @ ''"'')) (\<lambda>_.
     bind (try_catch
             (bind (genericRequest ''/files/delete'' ''POST''
                      (spread token [(''Content-Type'', ''application/x-www-form-urlencoded'')])
                      [(''pathname'', Text folder)] (delete_fetch fenv)) (\<lambda>_. ret ()))
             (\<lambda>e. ret ())) (\<lambda>_.
     bind (finalizeUpload_v2 fenv apiToken token bigId rssFile rssContent) (\<lambda>_.
     bind (logger Info (''Successfully deployed "'' @ outDir @ ''"'')) (\<lambda>_.
     bind (unlink (folder @ ''.zip'')) (\<lambda>_.
     rmSync_tmp)))))\<close>

fun fetched :: "event list \<Rightarrow> string list" where
  "fetched [] = []"
| "fetched (Fetch url m h f # es) = url # fetched es"
| "fetched (Request cfg c # es) = fetched es"
| "fetched (Logger l m # es) = fetched es"
| "fetched (Console e # es) = fetched es"

definition create_url :: string where
  "create_url = nekowebApiUrl @ ''/files/big/create''"

definition append_url :: string where
  "append_url = ''https://nekoweb.org/api/files/big/append''"

text \<open>What the blocks of version 2.0.3 leave behind, up to the append request.\<close>

definition rss_content_v2 :: "fetch_env \<Rightarrow> string \<Rightarrow> fs_state \<Rightarrow> error + string option" where
  "rss_content_v2 fenv outDir fs =
     (case getRssFile outDir (outDir_files fs) of
        None \<Rightarrow> Inr None
      | Some f \<Rightarrow>
          if f = [] then Inr None
          else (case readFile outDir fs f of
                  Inl e \<Rightarrow> Inl e
                | Inr orig \<Rightarrow> Inr (Some (utf8_text_2 fenv orig @ ''\<newline>''))))"

definition staged_v2 :: "string \<Rightarrow> fs_state \<Rightarrow> fs_state" where
  "staged_v2 folder fs =
     \<lparr>outDir_files = outDir_files fs,
      tmpBuildDir = Some (copy_under folder (outDir_files fs)),
      cwd_files = (cwd_files fs)(folder @ ''.zip'' \<mapsto> Zip (copy_under folder (outDir_files fs))),
      elsewhere = elsewhere fs ++ map_of (copy_outside folder (outDir_files fs))\<rparr>"

definition create_result :: "fetch_env \<Rightarrow> error + string" where
  "create_result fenv =
     (case create_fetch fenv of
        Inl e \<Rightarrow> Inl e
      | Inr r \<Rightarrow>
          if \<not> resp_ok r then
            Inl (new_Error (''Failed to create upload session: '' @ status_line r
                            @ '' - '' @ resp_text r))
          else create_json fenv)"

definition create_events :: "fetch_env \<Rightarrow> (string \<times> string) list \<Rightarrow> event list" where
  "create_events fenv token =
     Fetch create_url ''GET'' token [] #
     (case create_fetch fenv of
        Inl e \<Rightarrow> [Console e]
      | Inr r \<Rightarrow>
          if \<not> resp_ok r then
            [Console (new_Error (''Failed to create upload session: '' @ status_line r
                                 @ '' - '' @ resp_text r))]
          else [])"

definition uploadFile_result :: "error + Response \<Rightarrow> error + string" where
  "uploadFile_result answer =
     (case answer of
        Inl e \<Rightarrow> Inl e
      | Inr r \<Rightarrow>
          if \<not> resp_ok r then
            Inl (new_Error (''Failed to upload: '' @ status_line r @ '' - '' @ resp_text r))
          else Inr (resp_text r))"

subsection \<open>The same site, deployed by the earlier versions\<close>

text \<open>
  The options of the earlier versions for the same site, a build output with a feed and no
  not-found page, and a server that answers every request of version 2.0.3 with
  \<^verbatim>\<open>200 OK\<close>.
\<close>

definition site_args_2 :: Options_2 where
  "site_args_2 = \<lparr>apiKey_2 = Some ''key'', folder_2 = Some ''site'', cookie_2 = Some ''c00kie''\<rparr>"


definition ok_response :: "string \<Rightarrow> Response" where
  "ok_response body =
     \<lparr>resp_ok = True, resp_status = 200, resp_statusText = ''OK'', resp_text = body\<rparr>"

definition good_fetch_env :: fetch_env where
  \<open>good_fetch_env =
     \<lparr>create_fetch = Inr (ok_response ''{"id":"big1"}''),
      create_json = Inr ''big1'',
      append_fetch = Inr (ok_response ''ok''),
      delete_fetch = Inr (ok_response ''ok''),
      import_fetch = Inr (ok_response ''ok''),
      site_info_fetch = Inr (ok_response ''{"username":"me"}''),
      username_json = Inr ''me'',
      csrf_fetch = Inr (ok_response ''tok''),
      edit_rss_fetch = Inr (ok_response ''ok''),
      edit_marker_fetch = Inr (ok_response ''ok''),
      now_text = ''Tue Nov 03 2026 12:00:00 GMT+0000 (Coordinated Universal Time)'',
      utf8_text_2 = (\<lambda>b. b)\<rparr>\<close>

definition hang_up :: error where
  "hang_up = Error ''Error'' ''socket hang up''"

definition denied :: error where
  "denied = new_Error ''denied''"

text \<open>The addresses of the import request and of the requests of the metadata update.\<close>

definition is_import_url :: "string \<Rightarrow> bool" where
  "is_import_url u = prefix (nekowebApiUrl @ ''/files/import/'') u"

definition is_metadata_url :: "string \<Rightarrow> bool" where
  "is_metadata_url u =
     (u = nekowebApiUrl @ ''/site/info'' \<or> u = nekowebApiUrl @ ''/csrf''
      \<or> u = nekowebApiUrl @ ''/files/edit'')"

section \<open>How a run unfolds\<close>

subsection \<open>Sequencing\<close>

lemmas prog_defs = ret_def throw_def bind_def try_catch_def settle_def emit_def logger_def
  request_def modify_fs_def read_fs_def

lemma bind_assoc: "bind (bind m f) g = bind m (\<lambda>x. bind (f x) g)"
  by (rule ext) (simp add: bind_def split: prod.splits sum.splits)

lemma bind_ret: "bind (ret x) f = f x"
  by (rule ext) (simp add: bind_def ret_def)

lemma astro_build_done_blocks:
  \<open>astro_build_done args env outDir =
     (if apiKey args = [] then
        bind (logger Err ''Missing API key. You need to define it so you can deploy your site.'')
          (\<lambda>_. throw (new_Error ''Missing API key''))
      else
        let neko = new_NekoAPI (apiKey args) (cookie args) in
        bind (request (config neko) (GetSiteInfo (domain args)) (site_info_res env)) (\<lambda>info.
        if \<not> truthy (site_folder info) then
          bind (logger Err ''Missing folder.'') (\<lambda>_. throw (new_Error ''Missing folder''))
        else
          let folder = (case site_folder info of Some f \<Rightarrow> f | None \<Rightarrow> []) in
          bind (staging args env outDir folder) (\<lambda>rssContent.
          bind (upload env neko outDir (zipFileName folder)) (\<lambda>bigId.
          bind (try_catch (request (config neko) (DeletePath folder) (delete_res env))
                  (\<lambda>e. ret ())) (\<lambda>_.
          bind (finalizeUpload env bigId neko
                  (case siteName args of None \<Rightarrow> [] | Some s \<Rightarrow> s)
                  (case rssFeed args of
                     None \<Rightarrow> None
                   | Some f \<Rightarrow> if f = [] then None else Some (join (''/'' @ folder) f))
                  rssContent) (\<lambda>_.
          cleanup outDir (zipFileName folder)))))))\<close>
  unfolding astro_build_done_def staging_def upload_def cleanup_def zipFileName_def
    bind_assoc bind_ret Let_def
  by (rule refl)

subsection \<open>The blocks\<close>

lemma rename_entry_absent: "map_of t src = None \<Longrightarrow> rename_entry src dst t = t"
  by (simp add: rename_entry_def)

lemma staging_run:
  "staging args env outDir folder w =
     (case rss_content args env outDir (files w) of
        Inl e \<Rightarrow> (Inl e, w\<lparr>files := (files w)\<lparr>tmpBuildDir := Some []\<rparr>\<rparr>)
      | Inr rc \<Rightarrow> (Inr rc, \<lparr>files = staged folder (files w),
                             events = events w @ staging_events outDir (files w)\<rparr>))"
  by (cases w, cases "files w")
     (auto simp: staging_def prog_defs existsSync_tmp_def rmSync_tmp_def mkdirSync_tmp_def
        readFileSync_utf8_def existsSync_out_def renameSync_out_def cpSync_out_tmp_def
        zipDirectory_def rss_content_def readFile_def staged_def staged_zip_def staging_events_def
        rename_entry_absent
        split: option.splits sum.splits)

lemma readFile_tmpBuildDir [simp]:
  "readFile outDir (fs\<lparr>tmpBuildDir := t\<rparr>) p = readFile outDir fs p"
  by (simp add: readFile_def)

lemma rss_content_tmpBuildDir [simp]:
  "rss_content args env outDir (fs\<lparr>tmpBuildDir := t\<rparr>) = rss_content args env outDir fs"
  by (simp add: rss_content_def split: option.splits)

lemma upload_run:
  "upload env neko outDir zipName w =
     (upload_result env (config neko) zipName (cwd_files (files w) zipName),
      w\<lparr>events := events w @ upload_events env (config neko) outDir (cwd_files (files w) zipName)\<rparr>)"
  by (cases w)
     (auto simp: upload_def prog_defs initFileUpload_def createBigFile_def readFileSync_cwd_def
        upload_events_def upload_result_def split: option.splits sum.splits)

lemma delete_run:
  "try_catch (request cfg (DeletePath folder) answer) (\<lambda>e. ret ()) w =
     (Inr (), w\<lparr>events := events w @ [Request cfg (DeletePath folder)]\<rparr>)"
  by (cases w) (auto simp: prog_defs split: sum.splits)

lemma finalizeUpload_no_cookie:
  \<open>ucfg api = None \<Longrightarrow>
   finalizeUpload env this api sn rf rc w =
     (import_res env,
      w\<lparr>events := events w @
         [Request (big_config this) (BigImport (big_id this)),
          Logger Warn ''Nekoweb Cookie not found. Skipping Recently Updated support...'']\<rparr>)\<close>
  by (cases w) (simp add: finalizeUpload_def prog_defs)

lemma finalizeUpload_cookie:
  "ucfg api = Some u \<Longrightarrow>
   finalizeUpload env this api sn rf rc w =
     (Inr (),
      w\<lparr>events := events w @
         Request (big_config this) (BigImport (big_id this)) #
         metadata_events env (config api) u sn rf rc\<rparr>)"
  by (cases w)
     (auto simp: finalizeUpload_def prog_defs getCSRFToken_def editFileCSRF_def
        metadata_events_def rss_events_def marker_events_def failed_to_upload_def
        split: option.splits sum.splits)

lemma cleanup_run:
  \<open>cleanup outDir zipName w =
     (case cwd_files (files w) zipName of
        None \<Rightarrow> (Inl (new_Error (''ENOENT: no such file or directory, unlink '' @ zipName)),
                 w\<lparr>events := events w @ [Logger Info (''Successfully deployed "'' @ outDir @ ''"'')]\<rparr>)
      | Some _ \<Rightarrow> (Inr (),
                 \<lparr>files = cleaned zipName (files w),
                  events = events w @ [Logger Info (''Successfully deployed "'' @ outDir @ ''"'')]\<rparr>))\<close>
  by (cases w, cases "files w")
     (auto simp: cleanup_def prog_defs unlink_def rmSync_tmp_def cleaned_def split: option.splits)

lemma ucfg_new_NekoAPI:
  "ucfg (new_NekoAPI key ck) =
     (case ck of None \<Rightarrow> None | Some c \<Rightarrow> if c = [] then None else Some (cookie_client c))"
  by (simp add: new_NekoAPI_def cookie_client_def split: option.splits)

lemma cwd_files_staged:
  "cwd_files (staged folder fs) (zipFileName folder) = Some (staged_zip folder fs)"
  by (simp add: staged_def)

subsection \<open>The seven ways a run can go\<close>

lemma run_no_key:
  "apiKey args = [] \<Longrightarrow>
   run args env outDir fs =
     (Inl (new_Error ''Missing API key''),
      \<lparr>files = fs,
       events = [Logger Err ''Missing API key. You need to define it so you can deploy your site.'']\<rparr>)"
  by (simp add: run_def astro_build_done_blocks prog_defs)

lemma run_site_info_fails:
  "apiKey args \<noteq> [] \<Longrightarrow> site_info_res env = Inl e \<Longrightarrow>
   run args env outDir fs =
     (Inl e, \<lparr>files = fs, events = [Request (key_client args) (GetSiteInfo (domain args))]\<rparr>)"
  by (simp add: run_def astro_build_done_blocks prog_defs key_client_def Let_def)

lemma run_no_folder:
  "apiKey args \<noteq> [] \<Longrightarrow> site_info_res env = Inr info \<Longrightarrow> \<not> truthy (site_folder info) \<Longrightarrow>
   run args env outDir fs =
     (Inl (new_Error ''Missing folder''),
      \<lparr>files = fs,
       events = [Request (key_client args) (GetSiteInfo (domain args)),
                 Logger Err ''Missing folder.'']\<rparr>)"
  by (simp add: run_def astro_build_done_blocks prog_defs key_client_def Let_def)

lemma run_rss_missing:
  "apiKey args \<noteq> [] \<Longrightarrow> site_info_res env = Inr info \<Longrightarrow> site_folder info = Some folder \<Longrightarrow>
   folder \<noteq> [] \<Longrightarrow> rss_content args env outDir fs = Inl e \<Longrightarrow>
   run args env outDir fs =
     (Inl e,
      \<lparr>files = fs\<lparr>tmpBuildDir := Some []\<rparr>,
       events = [Request (key_client args) (GetSiteInfo (domain args))]\<rparr>)"
  by (simp add: run_def astro_build_done_blocks prog_defs key_client_def Let_def truthy_def
      staging_run)

lemma run_upload_fails:
  "apiKey args \<noteq> [] \<Longrightarrow> site_info_res env = Inr info \<Longrightarrow> site_folder info = Some folder \<Longrightarrow>
   folder \<noteq> [] \<Longrightarrow> rss_content args env outDir fs = Inr rc \<Longrightarrow>
   upload_result env (key_client args) (zipFileName folder) (Some (staged_zip folder fs)) = Inl e \<Longrightarrow>
   run args env outDir fs =
     (Inl e,
      \<lparr>files = staged folder fs, events = uploaded_events args env outDir fs folder\<rparr>)"
  by (simp add: run_def astro_build_done_blocks prog_defs key_client_def Let_def truthy_def
      staging_run upload_run cwd_files_staged uploaded_events_def)

lemma run_no_cookie:
  \<open>apiKey args \<noteq> [] \<Longrightarrow> site_info_res env = Inr info \<Longrightarrow> site_folder info = Some folder \<Longrightarrow>
   folder \<noteq> [] \<Longrightarrow> rss_content args env outDir fs = Inr rc \<Longrightarrow>
   upload_result env (key_client args) (zipFileName folder) (Some (staged_zip folder fs)) = Inr big \<Longrightarrow>
   \<not> truthy (cookie args) \<Longrightarrow>
   run args env outDir fs =
     (case import_res env of
        Inl e \<Rightarrow>
          (Inl e,
           \<lparr>files = staged folder fs,
            events = uploaded_events args env outDir fs folder @
              [Request (key_client args) (DeletePath folder),
               Request (key_client args) (BigImport (big_id big)),
               Logger Warn ''Nekoweb Cookie not found. Skipping Recently Updated support...'']\<rparr>)
      | Inr _ \<Rightarrow>
          (Inr (),
           \<lparr>files = cleaned (zipFileName folder) (staged folder fs),
            events = uploaded_events args env outDir fs folder @
              [Request (key_client args) (DeletePath folder),
               Request (key_client args) (BigImport (big_id big)),
               Logger Warn ''Nekoweb Cookie not found. Skipping Recently Updated support...'',
               Logger Info (''Successfully deployed "'' @ outDir @ ''"'')]\<rparr>))\<close>
  by (auto simp: run_def astro_build_done_blocks prog_defs key_client_def Let_def truthy_def
      staging_run upload_run cwd_files_staged uploaded_events_def delete_run
      finalizeUpload_no_cookie ucfg_new_NekoAPI cleanup_run cleaned_def
      upload_result_def
      split: option.splits sum.splits)

lemma run_cookie:
  \<open>apiKey args \<noteq> [] \<Longrightarrow> site_info_res env = Inr info \<Longrightarrow> site_folder info = Some folder \<Longrightarrow>
   folder \<noteq> [] \<Longrightarrow> rss_content args env outDir fs = Inr rc \<Longrightarrow>
   upload_result env (key_client args) (zipFileName folder) (Some (staged_zip folder fs)) = Inr big \<Longrightarrow>
   cookie args = Some c \<Longrightarrow> c \<noteq> [] \<Longrightarrow>
   run args env outDir fs =
     (Inr (),
      \<lparr>files = cleaned (zipFileName folder) (staged folder fs),
       events = uploaded_events args env outDir fs folder @
         [Request (key_client args) (DeletePath folder),
          Request (key_client args) (BigImport (big_id big))] @
         metadata_events env (key_client args) (cookie_client c) (site_name args)
           (rss_pathname args folder) rc @
         [Logger Info (''Successfully deployed "'' @ outDir @ ''"'')]\<rparr>)\<close>
  by (auto simp: run_def astro_build_done_blocks prog_defs key_client_def Let_def truthy_def
      staging_run upload_run cwd_files_staged uploaded_events_def delete_run
      finalizeUpload_cookie ucfg_new_NekoAPI cleanup_run cleaned_def
      upload_result_def rss_pathname_def site_name_def
      split: option.splits sum.splits)

lemma run_cases [case_names no_key site_info_fails no_folder rss_missing upload_fails
    no_cookie with_cookie]:
  obtains
    (no_key) "apiKey args = []"
  | (site_info_fails) e where "apiKey args \<noteq> []" "site_info_res env = Inl e"
  | (no_folder) info where "apiKey args \<noteq> []" "site_info_res env = Inr info"
      "\<not> truthy (site_folder info)"
  | (rss_missing) info folder e where "apiKey args \<noteq> []" "site_info_res env = Inr info"
      "site_folder info = Some folder" "folder \<noteq> []"
      "rss_content args env outDir fs = Inl e"
  | (upload_fails) info folder rc e where "apiKey args \<noteq> []" "site_info_res env = Inr info"
      "site_folder info = Some folder" "folder \<noteq> []"
      "rss_content args env outDir fs = Inr rc"
      "upload_result env (key_client args) (zipFileName folder) (Some (staged_zip folder fs)) = Inl e"
  | (no_cookie) info folder rc big where "apiKey args \<noteq> []" "site_info_res env = Inr info"
      "site_folder info = Some folder" "folder \<noteq> []"
      "rss_content args env outDir fs = Inr rc"
      "upload_result env (key_client args) (zipFileName folder) (Some (staged_zip folder fs)) = Inr big"
      "\<not> truthy (cookie args)"
  | (with_cookie) info folder rc big c where "apiKey args \<noteq> []" "site_info_res env = Inr info"
      "site_folder info = Some folder" "folder \<noteq> []"
      "rss_content args env outDir fs = Inr rc"
      "upload_result env (key_client args) (zipFileName folder) (Some (staged_zip folder fs)) = Inr big"
      "cookie args = Some c" "c \<noteq> []"
proof (cases "apiKey args = []")
  case True
  then show ?thesis by (rule no_key)
next
  case key: False
  show ?thesis
  proof (cases "site_info_res env")
    case (Inl e)
    with key show ?thesis by (rule site_info_fails)
  next
    case info: (Inr info)
    show ?thesis
    proof (cases "truthy (site_folder info)")
      case False
      with key info show ?thesis by (rule no_folder)
    next
      case True
      then obtain folder where folder: "site_folder info = Some folder" "folder \<noteq> []"
        by (auto simp: truthy_def split: option.splits)
      show ?thesis
      proof (cases "rss_content args env outDir fs")
        case (Inl e)
        with key info folder show ?thesis by (rule rss_missing)
      next
        case rc: (Inr rc)
        show ?thesis
        proof (cases "upload_result env (key_client args) (zipFileName folder)
                        (Some (staged_zip folder fs))")
          case (Inl e)
          with key info folder rc show ?thesis by (rule upload_fails)
        next
          case big: (Inr big)
          show ?thesis
          proof (cases "truthy (cookie args)")
            case False
            with key info folder rc big show ?thesis by (rule no_cookie)
          next
            case True
            then obtain c where "cookie args = Some c" "c \<noteq> []"
              by (auto simp: truthy_def split: option.splits)
            with key info folder rc big show ?thesis by (rule with_cookie)
          qed
        qed
      qed
    qed
  qed
qed

subsection \<open>The calls of each block\<close>

lemma calls_append [simp]: "calls (xs @ ys) = calls xs @ calls ys"
  by (induction xs rule: calls.induct) simp_all

lemma calls_staging_events [simp]: "calls (staging_events outDir fs) = []"
  by (simp add: staging_events_def)

lemma calls_upload_events:
  "calls (upload_events env cfg outDir (Some z)) =
     BigCreate # (case create_res env of Inl e \<Rightarrow> [] | Inr sid \<Rightarrow> [BigAppend sid z])"
  by (simp add: upload_events_def split: sum.splits)

lemma calls_uploaded_events:
  "calls (uploaded_events args env outDir fs folder) =
     GetSiteInfo (domain args) # BigCreate #
     (case create_res env of Inl e \<Rightarrow> [] | Inr sid \<Rightarrow> [BigAppend sid (staged_zip folder fs)])"
  by (simp add: uploaded_events_def calls_upload_events)

lemma calls_marker_events:
  "calls (marker_events env u sn tok) =
     [FilesEdit marker_pathname (marker_content (now_marker env)) sn tok]"
  by (simp add: marker_events_def failed_to_upload_def split: sum.splits)

lemma calls_rss_events:
  "calls (rss_events env u sn rf rc tok) =
     (case (rf, rc) of
        (Some f, Some c) \<Rightarrow>
          if f \<noteq> [] \<and> c \<noteq> [] then
            FilesEdit f c sn tok #
            (case edit_rss_res env of
               Inl e \<Rightarrow> []
             | Inr _ \<Rightarrow> [FilesEdit marker_pathname (marker_content (now_marker env)) sn tok])
          else [FilesEdit marker_pathname (marker_content (now_marker env)) sn tok]
      | _ \<Rightarrow> [FilesEdit marker_pathname (marker_content (now_marker env)) sn tok])"
  by (simp add: rss_events_def calls_marker_events failed_to_upload_def
      split: option.splits sum.splits)

lemma calls_metadata_events:
  "calls (metadata_events env cfg u sn rf rc) =
     GetSiteInfo None #
     (case csrf_site_info_res env of
        Inl e \<Rightarrow> []
      | Inr _ \<Rightarrow>
          GetCsrf #
          (case csrf_res env of
             Inl e \<Rightarrow> []
           | Inr tok \<Rightarrow> calls (rss_events env u sn rf rc tok)))"
  by (simp add: metadata_events_def failed_to_upload_def split: sum.splits)

lemma metadata_calls_not_session:
  "c \<in> set (calls (metadata_events env cfg u sn rf rc)) \<Longrightarrow> \<not> is_session_call c"
  by (cases "csrf_site_info_res env"; cases "csrf_res env"; cases "edit_rss_res env")
     (auto simp: calls_metadata_events calls_rss_events split: option.splits if_splits)

lemma filter_session_metadata [simp]:
  "filter is_session_call (calls (metadata_events env cfg u sn rf rc)) = []"
  by (simp add: filter_empty_conv metadata_calls_not_session)

lemma upload_result_Inr:
  "upload_result env cfg zipName (Some z) = Inr big \<longleftrightarrow>
     (\<exists>sid. create_res env = Inr sid \<and> append_res env = Inr ()
            \<and> big = \<lparr>big_id = sid, big_config = cfg\<rparr>)"
  by (auto simp: upload_result_def split: sum.splits)

lemma upload_result_Inl:
  "upload_result env cfg zipName (Some z) = Inl e \<longleftrightarrow>
     (create_res env = Inl e \<or> (\<exists>sid. create_res env = Inr sid \<and> append_res env = Inl e))"
  by (auto simp: upload_result_def split: sum.splits)

subsection \<open>What the run does not depend on\<close>

lemma delete_answer_ignored:
  "try_catch (request cfg (DeletePath folder) a) (\<lambda>e. ret ()) =
   try_catch (request cfg (DeletePath folder) b) (\<lambda>e. ret ())"
  by (rule ext) (simp add: delete_run)

lemma run_ignores_delete_res:
  "run args (env\<lparr>delete_res := d\<rparr>) outDir fs = run args env outDir fs"
proof -
  have "astro_build_done args (env\<lparr>delete_res := d\<rparr>) outDir = astro_build_done args env outDir"
    unfolding astro_build_done_def initFileUpload_def createBigFile_def finalizeUpload_def
      getCSRFToken_def
    by (simp add: Let_def delete_answer_ignored[of _ _ d "delete_res env"]
        cong: if_cong option.case_cong sum.case_cong prod.case_cong)
  then show ?thesis by (simp add: run_def)
qed

subsection \<open>The example deployment\<close>

lemma site_read:
  "readFile ''/out/'' local_fs (join ''/out/'' ''rss.xml'') = Inr ''<rss/>''"
  by code_simp

lemma site_rss_content:
  "now_rss env = 17 \<Longrightarrow> utf8_text env ''<rss/>'' = ''<rss/>'' \<Longrightarrow>
   rss_content site_args env ''/out/'' local_fs =
     Inr (Some (''<rss/>'' @ ''\<newline>'' @ rss_marker 17))"
  by (simp add: rss_content_def site_args_def site_read del: append.simps)

lemma site_run:
  assumes "site_info_res env = site_info_res good_env" "create_res env = Inr ''big1''"
    "append_res env = Inr ()" "now_rss env = 17" "utf8_text env ''<rss/>'' = ''<rss/>''"
  shows \<open>run site_args env ''/out/'' local_fs =
     (Inr (),
      \<lparr>files = cleaned (zipFileName ''site'') (staged ''site'' local_fs),
       events = uploaded_events site_args env ''/out/'' local_fs ''site'' @
         [Request (key_client site_args) (DeletePath ''site''),
          Request (key_client site_args) (BigImport ''big1'')] @
         metadata_events env (key_client site_args) (cookie_client ''c00kie'') ''me''
           (Some ''/site/rss.xml'') (Some (''<rss/>'' @ ''\<newline>'' @ rss_marker 17)) @
         [Logger Info ''Successfully deployed "/out/"'']\<rparr>)\<close>
proof -
  have rp: "rss_pathname site_args ''site'' = Some ''/site/rss.xml''"
    by (simp add: rss_pathname_def site_args_def join_def normalize_def)
  have sn: "site_name site_args = ''me''"
    by (simp add: site_name_def site_args_def)
  have up: "upload_result env (key_client site_args) (zipFileName ''site'')
              (Some (staged_zip ''site'' local_fs))
            = Inr \<lparr>big_id = ''big1'', big_config = key_client site_args\<rparr>"
    using assms by (simp add: upload_result_def)
  have \<open>run site_args env ''/out/'' local_fs =
     (Inr (),
      \<lparr>files = cleaned (zipFileName ''site'') (staged ''site'' local_fs),
       events = uploaded_events site_args env ''/out/'' local_fs ''site'' @
         [Request (key_client site_args) (DeletePath ''site''),
          Request (key_client site_args)
            (BigImport (big_id \<lparr>big_id = ''big1'', big_config = key_client site_args\<rparr>))] @
         metadata_events env (key_client site_args) (cookie_client ''c00kie'')
           (site_name site_args) (rss_pathname site_args ''site'')
           (Some (''<rss/>'' @ ''\<newline>'' @ rss_marker 17)) @
         [Logger Info (''Successfully deployed "'' @ ''/out/'' @ ''"'')]\<rparr>)\<close>
  proof (rule run_cookie)
    show "apiKey site_args \<noteq> []" by (simp add: site_args_def)
    show "site_info_res env = Inr \<lparr>site_folder = Some ''site'', site_domain = ''me.nekoweb.org'',
            site_username = ''me''\<rparr>"
      using assms by (simp add: good_env_def)
    show "site_folder \<lparr>site_folder = Some ''site'', site_domain = ''me.nekoweb.org'',
            site_username = ''me''\<rparr> = Some ''site''"
      by simp
    show "''site'' \<noteq> []" by simp
    show "rss_content site_args env ''/out/'' local_fs
            = Inr (Some (''<rss/>'' @ ''\<newline>'' @ rss_marker 17))"
      using assms by (simp add: site_rss_content)
    show "upload_result env (key_client site_args) (zipFileName ''site'')
            (Some (staged_zip ''site'' local_fs))
          = Inr \<lparr>big_id = ''big1'', big_config = key_client site_args\<rparr>"
      by (rule up)
    show "cookie site_args = Some ''c00kie''" by (simp add: site_args_def)
    show "''c00kie'' \<noteq> []" by simp
  qed
  then show ?thesis by (simp add: rp sn)
qed

lemma site_calls:
  assumes "site_info_res env = site_info_res good_env" "create_res env = Inr ''big1''"
    "append_res env = Inr ()" "now_rss env = 17" "utf8_text env ''<rss/>'' = ''<rss/>''"
  shows "calls (events (snd (run site_args env ''/out/'' local_fs))) =
     [GetSiteInfo None, BigCreate, BigAppend ''big1'' (staged_zip ''site'' local_fs),
      DeletePath ''site'', BigImport ''big1''] @
     calls (metadata_events env (key_client site_args) (cookie_client ''c00kie'') ''me''
           (Some ''/site/rss.xml'') (Some (''<rss/>'' @ ''\<newline>'' @ rss_marker 17)))"
proof -
  have "domain site_args = None"
    by (simp add: site_args_def)
  with assms show ?thesis
    by (simp add: site_run calls_uploaded_events)
qed

lemma good_env_facts:
  "create_res good_env = Inr ''big1''" "append_res good_env = Inr ()" "now_rss good_env = 17"
  "utf8_text good_env b = b"
  by (simp_all add: good_env_def)

lemma site_run_upload_fails:
  assumes "site_info_res env = site_info_res good_env" "now_rss env = 17"
    "utf8_text env ''<rss/>'' = ''<rss/>''"
    "upload_result env (key_client site_args) (zipFileName ''site'')
       (Some (staged_zip ''site'' local_fs)) = Inl e"
  shows "run site_args env ''/out/'' local_fs =
     (Inl e,
      \<lparr>files = staged ''site'' local_fs,
       events = uploaded_events site_args env ''/out/'' local_fs ''site''\<rparr>)"
proof (rule run_upload_fails)
  show "apiKey site_args \<noteq> []" by (simp add: site_args_def)
  show "site_info_res env = Inr \<lparr>site_folder = Some ''site'', site_domain = ''me.nekoweb.org'',
            site_username = ''me''\<rparr>"
    using assms by (simp add: good_env_def)
  show "site_folder \<lparr>site_folder = Some ''site'', site_domain = ''me.nekoweb.org'',
            site_username = ''me''\<rparr> = Some ''site''"
    by simp
  show "''site'' \<noteq> []" by simp
  show "rss_content site_args env ''/out/'' local_fs
          = Inr (Some (''<rss/>'' @ ''\<newline>'' @ rss_marker 17))"
    using assms by (simp add: site_rss_content)
  show "upload_result env (key_client site_args) (zipFileName ''site'')
          (Some (staged_zip ''site'' local_fs)) = Inl e"
    by (rule assms(4))
qed

lemma site_zip:
  "staged_zip ''site'' local_fs =
     Zip [(''site/not_found.html'', ''<h1>lost</h1>''), (''site/index.html'', ''<h1>hi</h1>''),
          (''site/rss.xml'', ''<rss/>'')]"
  by code_simp

lemma good_metadata_calls:
  assumes "csrf_site_info_res env = csrf_site_info_res good_env" "csrf_res env = Inr ''tok''"
    "edit_rss_res env = Inr ()" "now_marker env = 18" "p \<noteq> []" "c \<noteq> []"
  shows "calls (metadata_events env cfg u sn (Some p) (Some c)) =
     [GetSiteInfo None, GetCsrf, FilesEdit p c sn ''tok'',
      FilesEdit marker_pathname (marker_content 18) sn ''tok'']"
  using assms by (simp add: calls_metadata_events calls_rss_events good_env_def)

subsection \<open>The import promise and its two readers\<close>

text \<open>
  Without a cookie client the promise of the import is what \<^verbatim>\<open>finalizeUpload\<close> returns:
  a rejected import rejects the hook, before the success line and before cleanup.
\<close>

lemma import_failure_without_cookie_propagates:
  assumes "\<not> truthy (cookie args)" "import_res env = Inl e"
    "BigImport sid \<in> set (calls (events (snd (run args env outDir fs))))"
  shows "fst (run args env outDir fs) = Inl e"
proof (cases rule: run_cases[where args=args and env=env and outDir=outDir and fs=fs])
  case no_key
  with assms(3) show ?thesis by (simp add: run_no_key)
next
  case (site_info_fails e')
  with assms(3) show ?thesis by (simp add: run_site_info_fails)
next
  case (no_folder info)
  with assms(3) show ?thesis by (simp add: run_no_folder)
next
  case (rss_missing info folder e')
  with assms(3) show ?thesis by (simp add: run_rss_missing)
next
  case (upload_fails info folder rc e')
  with assms(3) show ?thesis
    by (simp add: run_upload_fails calls_uploaded_events split: sum.splits)
next
  case (no_cookie info folder rc big)
  with assms(2) show ?thesis by (simp add: run_no_cookie)
next
  case (with_cookie info folder rc big c)
  with assms(1) show ?thesis by (simp add: truthy_def)
qed

text \<open>
  With a cookie client the promise is dropped: the whole run, its result, its events and
  its files, is the same whatever the import does.
\<close>

lemma metadata_events_ignore_import [simp]:
  "metadata_events (env\<lparr>import_res := r\<rparr>) cfg u sn rf rc = metadata_events env cfg u sn rf rc"
  by (simp add: metadata_events_def rss_events_def marker_events_def
      cong: sum.case_cong option.case_cong prod.case_cong if_cong)

lemma finalizeUpload_ignores_import:
  assumes "ucfg api = Some u"
  shows "finalizeUpload (env\<lparr>import_res := r\<rparr>) this api sn rf rc
           = finalizeUpload env this api sn rf rc"
  using assms by (intro ext) (simp add: finalizeUpload_cookie)

lemma run_ignores_import_with_cookie:
  assumes "truthy (cookie args)"
  shows "run args (env\<lparr>import_res := r\<rparr>) outDir fs = run args env outDir fs"
proof -
  from assms obtain c where c: "cookie args = Some c" "c \<noteq> []"
    by (auto simp: truthy_def split: option.splits)
  then have u: "ucfg (new_NekoAPI (apiKey args) (cookie args)) = Some (cookie_client c)"
    by (simp add: ucfg_new_NekoAPI)
  have "astro_build_done args (env\<lparr>import_res := r\<rparr>) outDir = astro_build_done args env outDir"
    unfolding astro_build_done_def initFileUpload_def createBigFile_def
    by (simp add: Let_def finalizeUpload_ignores_import[OF u]
        cong: if_cong option.case_cong sum.case_cong prod.case_cong)
  then show ?thesis by (simp add: run_def)
qed

text \<open>
  Version 2.0.3 awaited the import and looked at the response: a response that is not
  \<^verbatim>\<open>ok\<close> throws, and nothing is sent after the import request.
\<close>

lemma finalizeUpload_v2_import_not_ok:
  assumes "import_fetch fenv = Inr r" "\<not> resp_ok r"
  shows "finalizeUpload_v2 fenv apiToken token bigId rssFile rssContent w =
     (Inl (new_Error (''Failed to import: '' @ status_line r @ '' ('' @ resp_text r @ '')'')),
      w\<lparr>events := events w @
         [Fetch (nekowebApiUrl @ ''/files/import/'' @ bigId) ''POST'' apiToken []]\<rparr>)"
  using assms by (simp add: finalizeUpload_v2_def genericRequest_def prog_defs)

subsection \<open>A staging directory left behind\<close>

lemma staged_zip_tmp [simp]: "staged_zip folder (fs\<lparr>tmpBuildDir := t\<rparr>) = staged_zip folder fs"
  by (simp add: staged_zip_def)

lemma staged_tmp [simp]: "staged folder (fs\<lparr>tmpBuildDir := t\<rparr>) = staged folder fs"
  by (simp add: staged_def)

lemma uploaded_events_tmp [simp]:
  "uploaded_events args env outDir (fs\<lparr>tmpBuildDir := t\<rparr>) folder
     = uploaded_events args env outDir fs folder"
  by (simp add: uploaded_events_def staging_events_def)

lemma run_ignores_stale:
  assumes "apiKey args \<noteq> []" "site_info_res env = Inr info" "truthy (site_folder info)"
  shows "run args env outDir (fs\<lparr>tmpBuildDir := t\<rparr>) = run args env outDir fs"
proof (cases rule: run_cases[where args=args and env=env and outDir=outDir and fs=fs])
  case no_key
  with assms show ?thesis by simp
next
  case (site_info_fails e)
  with assms show ?thesis by simp
next
  case (no_folder info')
  with assms show ?thesis by simp
next
  case (rss_missing info' folder e)
  then have "run args env outDir (fs\<lparr>tmpBuildDir := t\<rparr>) =
     (Inl e, \<lparr>files = fs\<lparr>tmpBuildDir := t\<rparr>\<lparr>tmpBuildDir := Some []\<rparr>,
              events = [Request (key_client args) (GetSiteInfo (domain args))]\<rparr>)"
    by (intro run_rss_missing[where info=info' and folder=folder]) simp_all
  with rss_missing show ?thesis by (simp add: run_rss_missing)
next
  case (upload_fails info' folder rc e)
  then have "run args env outDir (fs\<lparr>tmpBuildDir := t\<rparr>) =
     (Inl e, \<lparr>files = staged folder (fs\<lparr>tmpBuildDir := t\<rparr>),
              events = uploaded_events args env outDir (fs\<lparr>tmpBuildDir := t\<rparr>) folder\<rparr>)"
    by (intro run_upload_fails[where info=info' and folder=folder and rc=rc]) simp_all
  with upload_fails show ?thesis by (simp add: run_upload_fails)
next
  case (no_cookie info' folder rc big)
  then show ?thesis
    by (simp add: run_no_cookie[where fs="fs\<lparr>tmpBuildDir := t\<rparr>" and rc=rc and big=big]
        run_no_cookie[where fs=fs and rc=rc and big=big] split: sum.splits)
next
  case (with_cookie info' folder rc big c)
  then show ?thesis
    by (simp add: run_cookie[where fs="fs\<lparr>tmpBuildDir := t\<rparr>" and rc=rc and big=big]
        run_cookie[where fs=fs and rc=rc and big=big])
qed

subsection \<open>Paths and markers\<close>

lemma normalize_not_empty: "normalize p \<noteq> []"
  by (simp add: normalize_def Let_def)

lemma join_not_empty: "join a b \<noteq> []"
  by (simp add: join_def Let_def normalize_not_empty)





lemma filter_edit_uploaded [simp]:
  "filter is_edit (calls (uploaded_events args env outDir fs folder)) = []"
  by (simp add: calls_uploaded_events split: sum.splits)

lemma rss_content_Some:
  "rssFeed args = Some f \<Longrightarrow> f \<noteq> [] \<Longrightarrow> readFile outDir fs (join outDir f) = Inr orig \<Longrightarrow>
   rss_content args env outDir fs
     = Inr (Some (utf8_text env orig @ ''\<newline>'' @ rss_marker (now_rss env)))"
  by (simp add: rss_content_def)

lemma filter_edit_metadata:
  assumes "p \<noteq> []" "c \<noteq> []"
  shows "filter is_edit (calls (metadata_events env cfg u sn (Some p) (Some c))) =
     (case csrf_site_info_res env of
        Inl e \<Rightarrow> []
      | Inr _ \<Rightarrow>
          (case csrf_res env of
             Inl e \<Rightarrow> []
           | Inr tok \<Rightarrow>
               FilesEdit p c sn tok #
               (case edit_rss_res env of
                  Inl e \<Rightarrow> []
                | Inr _ \<Rightarrow> [FilesEdit marker_pathname (marker_content (now_marker env)) sn tok])))"
  using assms
  by (simp add: calls_metadata_events calls_rss_events split: sum.splits)

subsection \<open>Renaming inside the output directory\<close>



lemma outDir_after_run:
  "outDir_files (files (snd (run args env outDir fs))) = outDir_files fs
   \<or> outDir_files (files (snd (run args env outDir fs)))
       = rename_entry ''404.html'' ''not_found.html'' (outDir_files fs)"
proof (cases rule: run_cases[where args=args and env=env and outDir=outDir and fs=fs])
  case no_key
  then show ?thesis by (simp add: run_no_key)
next
  case (site_info_fails e)
  then show ?thesis by (simp add: run_site_info_fails)
next
  case (no_folder info)
  then show ?thesis by (simp add: run_no_folder)
next
  case (rss_missing info folder e)
  then show ?thesis by (simp add: run_rss_missing)
next
  case (upload_fails info folder rc e)
  then show ?thesis by (simp add: run_upload_fails staged_def)
next
  case (no_cookie info folder rc big)
  then show ?thesis by (simp add: run_no_cookie staged_def cleaned_def split: sum.splits)
next
  case (with_cookie info folder rc big c)
  then show ?thesis by (simp add: run_cookie staged_def cleaned_def)
qed

subsection \<open>A failed RSS edit\<close>

lemma metadata_events_rss_fails:
  assumes "p \<noteq> []" "c \<noteq> []" "csrf_site_info_res env = Inr i" "csrf_res env = Inr tok"
    "edit_rss_res env = Inl e"
  shows "metadata_events env cfg u sn (Some p) (Some c) =
     [Request cfg (GetSiteInfo None), Request u GetCsrf, Request u (FilesEdit p c sn tok),
      failed_to_upload e]"
  using assms by (simp add: metadata_events_def rss_events_def)

lemma edit_sent_then_token:
  assumes "p \<noteq> []" "c \<noteq> []"
    "\<exists>x \<in> set (calls (metadata_events env cfg u sn (Some p) (Some c))). is_edit x"
  obtains i tok where "csrf_site_info_res env = Inr i" "csrf_res env = Inr tok"
proof -
  from assms(3) have "filter is_edit (calls (metadata_events env cfg u sn (Some p) (Some c))) \<noteq> []"
    by (simp add: filter_empty_conv)
  with assms(1,2) show ?thesis
    by (cases "csrf_site_info_res env"; cases "csrf_res env")
       (auto simp: filter_edit_metadata intro: that)
qed

lemma no_edit_before_metadata:
  "x \<in> set (calls (uploaded_events args env outDir fs folder)) \<Longrightarrow> \<not> is_edit x"
  by (auto simp: calls_uploaded_events split: sum.splits)

subsection \<open>The two clients\<close>

lemma cookie_requests_append [simp]:
  "cookie_requests (xs @ ys) = cookie_requests xs @ cookie_requests ys"
  by (induction xs rule: cookie_requests.induct) simp_all

lemma key_client_headers [simp]: "cfg_headers (key_client args) = []"
  by (simp add: key_client_def new_NekoAPI_def split: option.splits)

lemma cookie_client_headers:
  "map_of (cfg_headers (cookie_client c)) ''Cookie'' = Some (''token='' @ c)"
  "map_of (cfg_headers (cookie_client c)) ''Authorization'' = Some []"
  "cfg_apiKey (cookie_client c) = []"
  by (simp_all add: cookie_client_def cookie_headers_def)

lemma cookie_requests_uploaded [simp]:
  "cookie_requests (uploaded_events args env outDir fs folder) = []"
  by (simp add: uploaded_events_def staging_events_def upload_events_def split: sum.splits)

lemma cookie_requests_metadata:
  assumes "cfg_headers cfg = []"
  shows "cookie_requests (metadata_events env cfg (cookie_client c) sn rf rc) =
     map (Pair (cookie_client c)) (tl (calls (metadata_events env cfg (cookie_client c) sn rf rc)))"
  using assms
  by (simp add: metadata_events_def rss_events_def marker_events_def failed_to_upload_def
      cookie_client_headers split: sum.splits option.splits)

lemma calls_metadata_any_client:
  "calls (metadata_events env cfg u sn rf rc) = calls (metadata_events env cfg' u' sn rf rc)"
  by (simp add: calls_metadata_events calls_rss_events split: sum.splits)

lemma metadata_request_client:
  assumes "Request cfg x \<in> set (metadata_events env k u sn rf rc)" "is_metadata_call x"
  shows "cfg = u"
  using assms
  by (auto simp: metadata_events_def rss_events_def marker_events_def failed_to_upload_def
      is_metadata_call_def split: sum.splits option.splits if_splits)

lemma uploaded_request_not_metadata:
  "Request cfg x \<in> set (uploaded_events args env outDir fs folder) \<Longrightarrow> \<not> is_metadata_call x"
  by (auto simp: uploaded_events_def staging_events_def upload_events_def is_metadata_call_def
      split: sum.splits if_splits)

lemma cookie_request_listed:
  "Request cfg x \<in> set es \<Longrightarrow> map_of (cfg_headers cfg) ''Cookie'' \<noteq> None \<Longrightarrow>
   (cfg, x) \<in> set (cookie_requests es)"
  by (induction es rule: cookie_requests.induct) auto

lemma rss_content_apiKey [simp]:
  "rss_content (args\<lparr>apiKey := k\<rparr>) env outDir fs = rss_content args env outDir fs"
  by (simp add: rss_content_def)

lemma rss_pathname_apiKey [simp]:
  "rss_pathname (args\<lparr>apiKey := k\<rparr>) folder = rss_pathname args folder"
  by (simp add: rss_pathname_def)

lemma site_name_apiKey [simp]: "site_name (args\<lparr>apiKey := k\<rparr>) = site_name args"
  by (simp add: site_name_def)

lemma upload_result_other_client:
  "upload_result env cfg zipName zf = Inr big \<Longrightarrow>
   upload_result env cfg' zipName zf = Inr (big\<lparr>big_config := cfg'\<rparr>)"
  by (auto simp: upload_result_def split: sum.splits option.splits)

lemma upload_result_fails_any_client:
  "upload_result env cfg zipName zf = Inl e \<Longrightarrow> upload_result env cfg' zipName zf = Inl e"
  by (auto simp: upload_result_def split: sum.splits option.splits)

text \<open>What a run sends with a cookie, told without the API key.\<close>

lemma cookie_requests_of_run:
  assumes "apiKey args \<noteq> []"
  shows "cookie_requests (events (snd (run args env outDir fs))) =
     (case site_info_res env of
        Inl e \<Rightarrow> []
      | Inr info \<Rightarrow>
          (case site_folder info of
             None \<Rightarrow> []
           | Some folder \<Rightarrow>
               if folder = [] then []
               else (case rss_content args env outDir fs of
                       Inl e \<Rightarrow> []
                     | Inr rc \<Rightarrow>
                         (case upload_result env \<lparr>cfg_apiKey = [], cfg_appName = [], cfg_headers = []\<rparr>
                                 (zipFileName folder) (Some (staged_zip folder fs)) of
                            Inl e \<Rightarrow> []
                          | Inr big \<Rightarrow>
                              (case cookie args of
                                 None \<Rightarrow> []
                               | Some c \<Rightarrow>
                                   if c = [] then []
                                   else map (Pair (cookie_client c))
                                     (tl (calls (metadata_events env
                                        \<lparr>cfg_apiKey = [], cfg_appName = [], cfg_headers = []\<rparr>
                                        (cookie_client c) (site_name args)
                                        (rss_pathname args folder) rc))))))))"
proof (cases rule: run_cases[where args=args and env=env and outDir=outDir and fs=fs])
  case no_key
  with assms show ?thesis by simp
next
  case (site_info_fails e)
  then show ?thesis by (simp add: run_site_info_fails)
next
  case (no_folder info)
  then show ?thesis
    by (auto simp: run_no_folder truthy_def split: option.splits)
next
  case (rss_missing info folder e)
  then show ?thesis by (simp add: run_rss_missing)
next
  case (upload_fails info folder rc e)
  from upload_fails(6)
  have "upload_result env \<lparr>cfg_apiKey = [], cfg_appName = [], cfg_headers = []\<rparr>
          (zipFileName folder) (Some (staged_zip folder fs)) = Inl e"
    by (rule upload_result_fails_any_client)
  with upload_fails show ?thesis by (simp add: run_upload_fails)
next
  case (no_cookie info folder rc big)
  from no_cookie(6)
  have "upload_result env \<lparr>cfg_apiKey = [], cfg_appName = [], cfg_headers = []\<rparr>
          (zipFileName folder) (Some (staged_zip folder fs))
        = Inr (big\<lparr>big_config := \<lparr>cfg_apiKey = [], cfg_appName = [], cfg_headers = []\<rparr>\<rparr>)"
    by (rule upload_result_other_client)
  with no_cookie show ?thesis
    by (auto simp: run_no_cookie truthy_def split: sum.splits option.splits)
next
  case (with_cookie info folder rc big c)
  from with_cookie(6)
  have "upload_result env \<lparr>cfg_apiKey = [], cfg_appName = [], cfg_headers = []\<rparr>
          (zipFileName folder) (Some (staged_zip folder fs))
        = Inr (big\<lparr>big_config := \<lparr>cfg_apiKey = [], cfg_appName = [], cfg_headers = []\<rparr>\<rparr>)"
    by (rule upload_result_other_client)
  with with_cookie show ?thesis
    by (simp add: run_cookie cookie_requests_metadata
        calls_metadata_any_client[of env "key_client args" _ _ _ _
          "\<lparr>cfg_apiKey = [], cfg_appName = [], cfg_headers = []\<rparr>" "cookie_client c"])
qed

section \<open>How a run of the earlier hook unfolds\<close>

lemma astro_build_done_lib_blocks:
  \<open>astro_build_done_lib args env outDir =
     (if \<not> truthy (apiKey_2 args) then
        bind (logger Err ''Missing API key. You need to define it so you can deploy your site.'')
          (\<lambda>_. throw (new_Error ''Missing API key''))
      else if \<not> truthy (folder_2 args) then
        bind (logger Err ''Missing serve folder.'')
          (\<lambda>_. throw (new_Error ''Missing serve directory''))
      else
        let apiKey' = (case apiKey_2 args of Some k \<Rightarrow> k | None \<Rightarrow> []);
            folder = (case folder_2 args of Some f \<Rightarrow> f | None \<Rightarrow> ''build'');
            neko = new_NekoAPI_lib apiKey' (cookie_2 args) in
        bind (staging_lib env outDir folder) (\<lambda>(rssFile, rssContent).
        bind (upload env neko outDir (folder @ ''.zip'')) (\<lambda>bigId.
        bind (try_catch (request (config neko) (DeletePath folder) (delete_res env))
                (\<lambda>e. ret ())) (\<lambda>_.
        bind (finalizeUpload_lib env bigId neko rssFile rssContent) (\<lambda>_.
        cleanup outDir (folder @ ''.zip''))))))\<close>
  unfolding astro_build_done_lib_def staging_lib_def upload_def cleanup_def
    bind_assoc bind_ret Let_def prod.case
  by (rule refl)

lemma staging_lib_run:
  "staging_lib env outDir folder w =
     (case rss_content_lib env outDir (files w) of
        Inl e \<Rightarrow> (Inl e, w\<lparr>files := (files w)\<lparr>tmpBuildDir := Some []\<rparr>\<rparr>)
      | Inr rc \<Rightarrow> (Inr (getRssFile outDir (outDir_files (files w)), rc),
                   \<lparr>files = staged_lib folder (files w),
                    events = events w @ staging_events outDir (files w)\<rparr>))"
  by (cases w, cases "files w")
     (auto simp: staging_lib_def prog_defs existsSync_tmp_def rmSync_tmp_def mkdirSync_tmp_def
        readFileSync_utf8_def existsSync_out_def renameSync_out_def cpSync_out_tmp_def
        zipDirectory_def rss_content_lib_def readFile_def staged_lib_def staged_zip_def
        staging_events_def rename_entry_absent
        simp del: getRssFile.simps
        split: option.splits sum.splits)

lemma rss_content_lib_tmpBuildDir [simp]:
  "rss_content_lib env outDir (fs\<lparr>tmpBuildDir := t\<rparr>) = rss_content_lib env outDir fs"
  by (simp add: rss_content_lib_def del: getRssFile.simps split: option.splits)

lemma finalizeUpload_lib_no_cookie:
  \<open>ucfg api = None \<Longrightarrow>
   finalizeUpload_lib env this api rf rc w =
     (import_res env,
      w\<lparr>events := events w @
         [Request (big_config this) (BigImport (big_id this)),
          Logger Warn ''Nekoweb Cookie not found. Skipping Recently Updated support...'']\<rparr>)\<close>
  by (cases w) (simp add: finalizeUpload_lib_def prog_defs)

lemma finalizeUpload_lib_cookie:
  "ucfg api = Some u \<Longrightarrow>
   finalizeUpload_lib env this api rf rc w =
     (metadata_result env rf rc,
      w\<lparr>events := events w @
         Request (big_config this) (BigImport (big_id this)) #
         metadata_events_lib env (config api) u rf rc\<rparr>)"
  by (cases w)
     (auto simp: finalizeUpload_lib_def prog_defs getCSRFToken_lib_def editFileCSRF_lib_def
        metadata_events_lib_def rss_events_lib_def marker_events_lib_def failed_to_upload_def
        metadata_result_def rss_edit_due_def
        split: option.splits sum.splits)

lemma ucfg_new_NekoAPI_lib:
  "ucfg (new_NekoAPI_lib key ck) =
     (case ck of None \<Rightarrow> None | Some c \<Rightarrow> if c = [] then None else Some (cookie_client_lib c))"
  by (simp add: new_NekoAPI_lib_def cookie_client_lib_def split: option.splits)

lemma cwd_files_staged_lib:
  "cwd_files (staged_lib folder fs) (folder @ ''.zip'') = Some (staged_zip folder fs)"
  by (simp add: staged_lib_def)

subsection \<open>The ways a run of the earlier hook can go\<close>

lemma run_lib_no_key:
  "\<not> truthy (apiKey_2 args) \<Longrightarrow>
   run_lib args env outDir fs =
     (Inl (new_Error ''Missing API key''),
      \<lparr>files = fs,
       events = [Logger Err ''Missing API key. You need to define it so you can deploy your site.'']\<rparr>)"
  by (simp add: run_lib_def astro_build_done_lib_blocks prog_defs)

lemma run_lib_no_folder:
  "truthy (apiKey_2 args) \<Longrightarrow> \<not> truthy (folder_2 args) \<Longrightarrow>
   run_lib args env outDir fs =
     (Inl (new_Error ''Missing serve directory''),
      \<lparr>files = fs, events = [Logger Err ''Missing serve folder.'']\<rparr>)"
  by (simp add: run_lib_def astro_build_done_lib_blocks prog_defs)

lemma run_lib_rss_unreadable:
  "truthy (apiKey_2 args) \<Longrightarrow> truthy (folder_2 args) \<Longrightarrow>
   rss_content_lib env outDir fs = Inl e \<Longrightarrow>
   run_lib args env outDir fs = (Inl e, \<lparr>files = fs\<lparr>tmpBuildDir := Some []\<rparr>, events = []\<rparr>)"
  by (simp add: run_lib_def astro_build_done_lib_blocks prog_defs Let_def staging_lib_run)

lemma run_lib_upload_fails:
  "truthy (apiKey_2 args) \<Longrightarrow> truthy (folder_2 args) \<Longrightarrow>
   rss_content_lib env outDir fs = Inr rc \<Longrightarrow>
   upload_result env (key_client_lib args) (serve_folder args @ ''.zip'')
       (Some (staged_zip (serve_folder args) fs)) = Inl e \<Longrightarrow>
   run_lib args env outDir fs =
     (Inl e,
      \<lparr>files = staged_lib (serve_folder args) fs,
       events = uploaded_events_lib args env outDir fs\<rparr>)"
  by (simp add: run_lib_def astro_build_done_lib_blocks prog_defs Let_def staging_lib_run
      upload_run cwd_files_staged_lib uploaded_events_lib_def key_client_lib_def
      serve_folder_def)

lemma run_lib_no_cookie:
  \<open>truthy (apiKey_2 args) \<Longrightarrow> truthy (folder_2 args) \<Longrightarrow>
   rss_content_lib env outDir fs = Inr rc \<Longrightarrow>
   upload_result env (key_client_lib args) (serve_folder args @ ''.zip'')
       (Some (staged_zip (serve_folder args) fs)) = Inr big \<Longrightarrow>
   \<not> truthy (cookie_2 args) \<Longrightarrow>
   run_lib args env outDir fs =
     (case import_res env of
        Inl e \<Rightarrow>
          (Inl e,
           \<lparr>files = staged_lib (serve_folder args) fs,
            events = uploaded_events_lib args env outDir fs @
              [Request (key_client_lib args) (DeletePath (serve_folder args)),
               Request (key_client_lib args) (BigImport (big_id big)),
               Logger Warn ''Nekoweb Cookie not found. Skipping Recently Updated support...'']\<rparr>)
      | Inr _ \<Rightarrow>
          (Inr (),
           \<lparr>files = cleaned (serve_folder args @ ''.zip'') (staged_lib (serve_folder args) fs),
            events = uploaded_events_lib args env outDir fs @
              [Request (key_client_lib args) (DeletePath (serve_folder args)),
               Request (key_client_lib args) (BigImport (big_id big)),
               Logger Warn ''Nekoweb Cookie not found. Skipping Recently Updated support...'',
               Logger Info (''Successfully deployed "'' @ outDir @ ''"'')]\<rparr>))\<close>
  by (auto simp: run_lib_def astro_build_done_lib_blocks prog_defs Let_def truthy_def
      staging_lib_run upload_run cwd_files_staged_lib uploaded_events_lib_def delete_run
      finalizeUpload_lib_no_cookie ucfg_new_NekoAPI_lib cleanup_run cleaned_def
      upload_result_def key_client_lib_def serve_folder_def
      split: option.splits sum.splits)

lemma run_lib_cookie:
  \<open>truthy (apiKey_2 args) \<Longrightarrow> truthy (folder_2 args) \<Longrightarrow>
   rss_content_lib env outDir fs = Inr rc \<Longrightarrow>
   upload_result env (key_client_lib args) (serve_folder args @ ''.zip'')
       (Some (staged_zip (serve_folder args) fs)) = Inr big \<Longrightarrow>
   cookie_2 args = Some c \<Longrightarrow> c \<noteq> [] \<Longrightarrow>
   run_lib args env outDir fs =
     (case metadata_result env (getRssFile outDir (outDir_files fs)) rc of
        Inl e \<Rightarrow>
          (Inl e,
           \<lparr>files = staged_lib (serve_folder args) fs,
            events = uploaded_events_lib args env outDir fs @
              [Request (key_client_lib args) (DeletePath (serve_folder args)),
               Request (key_client_lib args) (BigImport (big_id big))] @
              metadata_events_lib env (key_client_lib args) (cookie_client_lib c)
                (getRssFile outDir (outDir_files fs)) rc\<rparr>)
      | Inr _ \<Rightarrow>
          (Inr (),
           \<lparr>files = cleaned (serve_folder args @ ''.zip'') (staged_lib (serve_folder args) fs),
            events = uploaded_events_lib args env outDir fs @
              [Request (key_client_lib args) (DeletePath (serve_folder args)),
               Request (key_client_lib args) (BigImport (big_id big))] @
              metadata_events_lib env (key_client_lib args) (cookie_client_lib c)
                (getRssFile outDir (outDir_files fs)) rc @
              [Logger Info (''Successfully deployed "'' @ outDir @ ''"'')]\<rparr>))\<close>
  by (auto simp: run_lib_def astro_build_done_lib_blocks prog_defs Let_def truthy_def
      staging_lib_run upload_run cwd_files_staged_lib uploaded_events_lib_def delete_run
      finalizeUpload_lib_cookie ucfg_new_NekoAPI_lib cleanup_run cleaned_def
      upload_result_def key_client_lib_def serve_folder_def
      simp del: getRssFile.simps
      split: option.splits sum.splits)

lemma run_lib_cases [case_names no_key no_folder rss_unreadable upload_fails no_cookie
    with_cookie]:
  obtains
    (no_key) "\<not> truthy (apiKey_2 args)"
  | (no_folder) "truthy (apiKey_2 args)" "\<not> truthy (folder_2 args)"
  | (rss_unreadable) e where "truthy (apiKey_2 args)" "truthy (folder_2 args)"
      "rss_content_lib env outDir fs = Inl e"
  | (upload_fails) rc e where "truthy (apiKey_2 args)" "truthy (folder_2 args)"
      "rss_content_lib env outDir fs = Inr rc"
      "upload_result env (key_client_lib args) (serve_folder args @ ''.zip'')
         (Some (staged_zip (serve_folder args) fs)) = Inl e"
  | (no_cookie) rc big where "truthy (apiKey_2 args)" "truthy (folder_2 args)"
      "rss_content_lib env outDir fs = Inr rc"
      "upload_result env (key_client_lib args) (serve_folder args @ ''.zip'')
         (Some (staged_zip (serve_folder args) fs)) = Inr big"
      "\<not> truthy (cookie_2 args)"
  | (with_cookie) rc big c where "truthy (apiKey_2 args)" "truthy (folder_2 args)"
      "rss_content_lib env outDir fs = Inr rc"
      "upload_result env (key_client_lib args) (serve_folder args @ ''.zip'')
         (Some (staged_zip (serve_folder args) fs)) = Inr big"
      "cookie_2 args = Some c" "c \<noteq> []"
proof (cases "truthy (apiKey_2 args)")
  case False
  then show ?thesis by (rule no_key)
next
  case key: True
  show ?thesis
  proof (cases "truthy (folder_2 args)")
    case False
    with key show ?thesis by (rule no_folder)
  next
    case folder: True
    show ?thesis
    proof (cases "rss_content_lib env outDir fs")
      case (Inl e)
      with key folder show ?thesis by (rule rss_unreadable)
    next
      case rc: (Inr rc)
      show ?thesis
      proof (cases "upload_result env (key_client_lib args) (serve_folder args @ ''.zip'')
                      (Some (staged_zip (serve_folder args) fs))")
        case (Inl e)
        with key folder rc show ?thesis by (rule upload_fails)
      next
        case big: (Inr big)
        show ?thesis
        proof (cases "truthy (cookie_2 args)")
          case False
          with key folder rc big show ?thesis by (rule no_cookie)
        next
          case True
          then obtain c where "cookie_2 args = Some c" "c \<noteq> []"
            by (auto simp: truthy_def split: option.splits)
          with key folder rc big show ?thesis by (rule with_cookie)
        qed
      qed
    qed
  qed
qed

section \<open>How a run of version 2.0.3 unfolds, up to the append request\<close>

lemma astro_build_done_v2_blocks:
  \<open>astro_build_done_v2 args fenv outDir =
     (if \<not> truthy (apiKey_2 args) then
        bind (logger Err ''Missing API key. You need to define it so you can deploy your site.'')
          (\<lambda>_. throw (new_Error ''Missing API key''))
      else if \<not> truthy (folder_2 args) then
        bind (logger Err ''Missing serve folder.'')
          (\<lambda>_. throw (new_Error ''Missing serve directory''))
      else
        let apiKey' = (case apiKey_2 args of Some k \<Rightarrow> k | None \<Rightarrow> []);
            folder = (case folder_2 args of Some f \<Rightarrow> f | None \<Rightarrow> ''build'');
            token = getToken apiKey' (cookie_2 args);
            apiToken = getToken apiKey' None in
        bind (staging_v2 fenv outDir folder) (\<lambda>(rssFile, rssContent).
        bind (initFileUpload_v2 fenv apiToken) (\<lambda>bigId.
        bind (logger Info (''Created BigFile upload session (ID: '' @ bigId @ '')'')) (\<lambda>_.
        bind (uploadFile (append_fetch fenv) apiToken (folder @ ''.zip'') bigId) (\<lambda>_.
        after_upload_v2 fenv apiToken token outDir folder bigId rssFile rssContent)))))\<close>
  unfolding astro_build_done_v2_def staging_v2_def after_upload_v2_def
    bind_assoc bind_ret Let_def prod.case
  by (rule refl)

lemma staging_v2_run:
  \<open>staging_v2 fenv outDir folder w =
     (case rss_content_v2 fenv outDir (files w) of
        Inl e \<Rightarrow> (Inl e, w\<lparr>files := (files w)\<lparr>tmpBuildDir := Some []\<rparr>\<rparr>)
      | Inr rc \<Rightarrow> (Inr (getRssFile outDir (outDir_files (files w)), rc),
                   \<lparr>files = staged_v2 folder (files w),
                    events = events w @ [Logger Info (''Compressed "'' @ outDir @ ''"'')]\<rparr>))\<close>
  by (cases w, cases "files w")
     (auto simp: staging_v2_def prog_defs existsSync_tmp_def rmSync_tmp_def mkdirSync_tmp_def
        readFileSync_utf8_def cpSync_out_tmp_def zipDirectory_def rss_content_v2_def
        readFile_def staged_v2_def
        simp del: getRssFile.simps
        split: option.splits sum.splits)

lemma initFileUpload_v2_run:
  "initFileUpload_v2 fenv token w =
     (create_result fenv, w\<lparr>events := events w @ create_events fenv token\<rparr>)"
  by (cases w)
     (auto simp: initFileUpload_v2_def genericRequest_def prog_defs create_result_def
        create_events_def create_url_def split: sum.splits)

lemma uploadFile_run:
  "cwd_files (files w) filePath = Some z \<Longrightarrow>
   uploadFile answer token filePath bigId w =
     (uploadFile_result answer,
      w\<lparr>events := events w @
         [Fetch append_url ''POST'' token [(''id'', Text bigId), (''file'', z)]]\<rparr>)"
  by (cases w)
     (auto simp: uploadFile_def readFileSync_cwd_def prog_defs uploadFile_result_def
        append_url_def split: sum.splits)

lemma fetched_append [simp]: "fetched (xs @ ys) = fetched xs @ fetched ys"
  by (induct xs rule: fetched.induct) simp_all

lemma fetched_create_events [simp]: "fetched (create_events fenv token) = [create_url]"
  by (simp add: create_events_def split: sum.splits)

lemma create_not_append: "create_url \<noteq> append_url"
  by (simp add: create_url_def append_url_def nekowebApiUrl_def)

text \<open>
  When the append request fails, a run of version 2.0.3 has either not come to it, and has
  then sent nothing but, at most, the create request; or it ends there, with the error of
  \<^verbatim>\<open>uploadFile\<close>, after the create and the append request.
\<close>

lemma run_v2_append_fails:
  assumes "uploadFile_result (append_fetch fenv) = Inl e"
  shows "(fetched (events (snd (run_v2 args fenv outDir fs))) = [create_url, append_url]
          \<and> fst (run_v2 args fenv outDir fs) = Inl e)
         \<or> (fetched (events (snd (run_v2 args fenv outDir fs))) = [create_url]
             \<and> (\<exists>e'. fst (run_v2 args fenv outDir fs) = Inl e'))
         \<or> (fetched (events (snd (run_v2 args fenv outDir fs))) = []
             \<and> (\<exists>e'. fst (run_v2 args fenv outDir fs) = Inl e'))"
proof (cases "truthy (apiKey_2 args) \<and> truthy (folder_2 args)")
  case False
  then show ?thesis
    by (auto simp: run_v2_def astro_build_done_v2_blocks prog_defs)
next
  case True
  let ?folder = "case folder_2 args of Some f \<Rightarrow> f | None \<Rightarrow> ''build''"
  show ?thesis
  proof (cases "rss_content_v2 fenv outDir fs")
    case (Inl e')
    with True show ?thesis
      by (simp add: run_v2_def astro_build_done_v2_blocks prog_defs Let_def staging_v2_run)
  next
    case rc: (Inr rc)
    have zip: "cwd_files (staged_v2 ?folder fs) (?folder @ ''.zip'')
                 = Some (Zip (copy_under ?folder (outDir_files fs)))"
      by (simp add: staged_v2_def)
    show ?thesis
    proof (cases "create_result fenv")
      case (Inl e')
      with True rc show ?thesis
        by (simp add: run_v2_def astro_build_done_v2_blocks prog_defs Let_def staging_v2_run
            initFileUpload_v2_run)
    next
      case (Inr bigId)
      with True rc assms zip show ?thesis
        by (simp add: run_v2_def astro_build_done_v2_blocks prog_defs Let_def staging_v2_run
            initFileUpload_v2_run uploadFile_run)
    qed
  qed
qed

section \<open>What the runs of the two library versions have in common\<close>

subsection \<open>The calls of the earlier hook\<close>

lemma calls_uploaded_events_lib:
  "calls (uploaded_events_lib args env outDir fs) =
     BigCreate #
     (case create_res env of
        Inl e \<Rightarrow> []
      | Inr sid \<Rightarrow> [BigAppend sid (staged_zip (serve_folder args) fs)])"
  by (simp add: uploaded_events_lib_def calls_upload_events)





subsection \<open>The output directory after a run\<close>






subsection \<open>The example deployment, by the earlier library version\<close>

lemma site_feed_found:
  "getRssFile ''/out/'' (outDir_files local_fs) = Some ''/out/rss.xml''"
  by code_simp

lemma site_feed_read:
  "readFile ''/out/'' local_fs ''/out/rss.xml'' = Inr ''<rss/>''"
  by code_simp

lemma site_rss_content_lib:
  "utf8_text env ''<rss/>'' = ''<rss/>'' \<Longrightarrow>
   rss_content_lib env ''/out/'' local_fs = Inr (Some (''<rss/>'' @ ''\<newline>''))"
  by (simp add: rss_content_lib_def site_feed_found site_feed_read
      del: getRssFile.simps append.simps)

lemma site_serve_folder: "serve_folder site_args_2 = ''site''"
  by (simp add: serve_folder_def site_args_2_def)

lemma site_run_lib:
  assumes "create_res env = Inr ''big1''" "append_res env = Inr ()"
    "utf8_text env ''<rss/>'' = ''<rss/>''"
  shows \<open>run_lib site_args_2 env ''/out/'' local_fs =
     (case metadata_result env (Some ''/out/rss.xml'') (Some (''<rss/>'' @ ''\<newline>'')) of
        Inl e \<Rightarrow>
          (Inl e,
           \<lparr>files = staged_lib ''site'' local_fs,
            events = uploaded_events_lib site_args_2 env ''/out/'' local_fs @
              [Request (key_client_lib site_args_2) (DeletePath ''site''),
               Request (key_client_lib site_args_2) (BigImport ''big1'')] @
              metadata_events_lib env (key_client_lib site_args_2) (cookie_client_lib ''c00kie'')
                (Some ''/out/rss.xml'') (Some (''<rss/>'' @ ''\<newline>''))\<rparr>)
      | Inr _ \<Rightarrow>
          (Inr (),
           \<lparr>files = cleaned (''site'' @ ''.zip'') (staged_lib ''site'' local_fs),
            events = uploaded_events_lib site_args_2 env ''/out/'' local_fs @
              [Request (key_client_lib site_args_2) (DeletePath ''site''),
               Request (key_client_lib site_args_2) (BigImport ''big1'')] @
              metadata_events_lib env (key_client_lib site_args_2) (cookie_client_lib ''c00kie'')
                (Some ''/out/rss.xml'') (Some (''<rss/>'' @ ''\<newline>'')) @
              [Logger Info (''Successfully deployed "'' @ ''/out/'' @ ''"'')]\<rparr>))\<close>
proof -
  have up: "upload_result env (key_client_lib site_args_2) (serve_folder site_args_2 @ ''.zip'')
              (Some (staged_zip (serve_folder site_args_2) local_fs))
            = Inr \<lparr>big_id = ''big1'', big_config = key_client_lib site_args_2\<rparr>"
    using assms by (simp add: upload_result_def)
  have \<open>run_lib site_args_2 env ''/out/'' local_fs =
     (case metadata_result env (getRssFile ''/out/'' (outDir_files local_fs))
             (Some (''<rss/>'' @ ''\<newline>'')) of
        Inl e \<Rightarrow>
          (Inl e,
           \<lparr>files = staged_lib (serve_folder site_args_2) local_fs,
            events = uploaded_events_lib site_args_2 env ''/out/'' local_fs @
              [Request (key_client_lib site_args_2) (DeletePath (serve_folder site_args_2)),
               Request (key_client_lib site_args_2)
                 (BigImport (big_id \<lparr>big_id = ''big1'',
                                      big_config = key_client_lib site_args_2\<rparr>))] @
              metadata_events_lib env (key_client_lib site_args_2) (cookie_client_lib ''c00kie'')
                (getRssFile ''/out/'' (outDir_files local_fs))
                (Some (''<rss/>'' @ ''\<newline>''))\<rparr>)
      | Inr _ \<Rightarrow>
          (Inr (),
           \<lparr>files = cleaned (serve_folder site_args_2 @ ''.zip'')
                      (staged_lib (serve_folder site_args_2) local_fs),
            events = uploaded_events_lib site_args_2 env ''/out/'' local_fs @
              [Request (key_client_lib site_args_2) (DeletePath (serve_folder site_args_2)),
               Request (key_client_lib site_args_2)
                 (BigImport (big_id \<lparr>big_id = ''big1'',
                                      big_config = key_client_lib site_args_2\<rparr>))] @
              metadata_events_lib env (key_client_lib site_args_2) (cookie_client_lib ''c00kie'')
                (getRssFile ''/out/'' (outDir_files local_fs))
                (Some (''<rss/>'' @ ''\<newline>'')) @
              [Logger Info (''Successfully deployed "'' @ ''/out/'' @ ''"'')]\<rparr>))\<close>
  proof (rule run_lib_cookie)
    show "truthy (apiKey_2 site_args_2)" by (simp add: site_args_2_def truthy_def)
    show "truthy (folder_2 site_args_2)" by (simp add: site_args_2_def truthy_def)
    show "rss_content_lib env ''/out/'' local_fs = Inr (Some (''<rss/>'' @ ''\<newline>''))"
      using assms(3) by (rule site_rss_content_lib)
    show "upload_result env (key_client_lib site_args_2) (serve_folder site_args_2 @ ''.zip'')
            (Some (staged_zip (serve_folder site_args_2) local_fs))
          = Inr \<lparr>big_id = ''big1'', big_config = key_client_lib site_args_2\<rparr>"
      by (rule up)
    show "cookie_2 site_args_2 = Some ''c00kie''" by (simp add: site_args_2_def)
    show "''c00kie'' \<noteq> []" by simp
  qed
  then show ?thesis
    by (simp only: site_feed_found site_serve_folder BigFileExt.simps)
qed

lemma site_staged_lib:
  "tmpBuildDir (staged_lib ''site'' local_fs)
     = Some [(''site/not_found.html'', ''<h1>lost</h1>''), (''site/index.html'', ''<h1>hi</h1>''),
             (''site/rss.xml'', ''<rss/>'')]
   \<and> cwd_files (staged_lib ''site'' local_fs) ''site.zip''
       = Some (Zip [(''site/not_found.html'', ''<h1>lost</h1>''),
                    (''site/index.html'', ''<h1>hi</h1>''), (''site/rss.xml'', ''<rss/>'')])"
proof -
  have "copy_under ''site'' (rename_entry ''404.html'' ''not_found.html'' (outDir_files local_fs))
          = [(''site/not_found.html'', ''<h1>lost</h1>''), (''site/index.html'', ''<h1>hi</h1>''),
             (''site/rss.xml'', ''<rss/>'')]"
    by code_simp
  then show ?thesis
    by (simp add: staged_lib_def staged_zip_def)
qed

lemma site_calls_lib:
  assumes "create_res env = Inr ''big1''" "append_res env = Inr ()"
    "utf8_text env ''<rss/>'' = ''<rss/>''"
  shows "calls (events (snd (run_lib site_args_2 env ''/out/'' local_fs))) =
     [BigCreate, BigAppend ''big1'' (staged_zip ''site'' local_fs),
      DeletePath ''site'', BigImport ''big1''] @
     calls (metadata_events_lib env (key_client_lib site_args_2) (cookie_client_lib ''c00kie'')
             (Some ''/out/rss.xml'') (Some (''<rss/>'' @ ''\<newline>'')))"
  using assms
  by (simp add: site_run_lib calls_uploaded_events_lib site_serve_folder split: sum.splits)

subsection \<open>A build output without a not-found page\<close>




subsection \<open>Cleanup, version by version\<close>

lemma cleanup_of_run:
  "(fst (run args env outDir fs) = Inr () \<longrightarrow>
      tmpBuildDir (files (snd (run args env outDir fs))) = None
      \<and> (\<forall>info folder. site_info_res env = Inr info \<and> site_folder info = Some folder
            \<longrightarrow> cwd_files (files (snd (run args env outDir fs))) (zipFileName folder) = None))
   \<and> (truthy (cookie args)
        \<and> (\<exists>sid. BigImport sid \<in> set (calls (events (snd (run args env outDir fs)))))
      \<longrightarrow> fst (run args env outDir fs) = Inr ())
   \<and> (apiKey args \<noteq> [] \<and> (\<exists>info. site_info_res env = Inr info \<and> truthy (site_folder info))
      \<longrightarrow> run args env outDir (fs\<lparr>tmpBuildDir := Some stale\<rparr>)
            = run args env outDir (fs\<lparr>tmpBuildDir := None\<rparr>))"
proof -
  let ?run = "run args env outDir fs"
  have clean: "tmpBuildDir (files (snd ?run)) = None
      \<and> (\<forall>info folder. site_info_res env = Inr info \<and> site_folder info = Some folder
            \<longrightarrow> cwd_files (files (snd ?run)) (zipFileName folder) = None)"
    if "fst ?run = Inr ()"
  proof (cases rule: run_cases[where args=args and env=env and outDir=outDir and fs=fs])
    case no_key
    with that show ?thesis by (simp add: run_no_key)
  next
    case (site_info_fails e)
    with that show ?thesis by (simp add: run_site_info_fails)
  next
    case (no_folder info)
    with that show ?thesis by (simp add: run_no_folder)
  next
    case (rss_missing info folder e)
    with that show ?thesis by (simp add: run_rss_missing)
  next
    case (upload_fails info folder rc e)
    with that show ?thesis by (simp add: run_upload_fails)
  next
    case (no_cookie info folder rc big)
    with that show ?thesis
      by (cases "import_res env") (simp_all add: run_no_cookie cleaned_def)
  next
    case (with_cookie info folder rc big c)
    then show ?thesis by (simp add: run_cookie cleaned_def)
  qed
  have absorbed: "fst ?run = Inr ()"
    if "truthy (cookie args)" "\<exists>sid. BigImport sid \<in> set (calls (events (snd ?run)))"
  proof (cases rule: run_cases[where args=args and env=env and outDir=outDir and fs=fs])
    case no_key
    with that show ?thesis by (simp add: run_no_key)
  next
    case (site_info_fails e)
    with that show ?thesis by (simp add: run_site_info_fails)
  next
    case (no_folder info)
    with that show ?thesis by (simp add: run_no_folder)
  next
    case (rss_missing info folder e)
    with that show ?thesis by (simp add: run_rss_missing)
  next
    case (upload_fails info folder rc e)
    with that show ?thesis
      by (simp add: run_upload_fails calls_uploaded_events split: sum.splits)
  next
    case (no_cookie info folder rc big)
    with that show ?thesis by simp
  next
    case (with_cookie info folder rc big c)
    then show ?thesis by (simp add: run_cookie)
  qed
  have fresh: "run args env outDir (fs\<lparr>tmpBuildDir := Some stale\<rparr>)
            = run args env outDir (fs\<lparr>tmpBuildDir := None\<rparr>)"
    if "apiKey args \<noteq> []" "\<exists>info. site_info_res env = Inr info \<and> truthy (site_folder info)"
  proof -
    from that obtain info where "site_info_res env = Inr info" "truthy (site_folder info)"
      by blast
    with that(1)
    have "run args env outDir (fs\<lparr>tmpBuildDir := None\<rparr>\<lparr>tmpBuildDir := Some stale\<rparr>)
            = run args env outDir (fs\<lparr>tmpBuildDir := None\<rparr>)"
      by (intro run_ignores_stale) simp_all
    then show ?thesis by simp
  qed
  from clean absorbed fresh show ?thesis by blast
qed

lemma metadata_failure_logged:
  "metadata_result env rf rc = Inl e \<Longrightarrow>
   failed_to_upload e \<in> set (metadata_events_lib env cfg u rf rc)"
  by (auto simp: metadata_result_def metadata_events_lib_def rss_events_lib_def
      marker_events_lib_def split: sum.splits if_splits)

lemma staged_lib_tmp [simp]:
  "staged_lib folder (fs\<lparr>tmpBuildDir := t\<rparr>) = staged_lib folder fs"
  by (simp add: staged_lib_def)

lemma staging_lib_stale:
  "staging_lib env outDir folder \<lparr>files = fs\<lparr>tmpBuildDir := t\<rparr>, events = es\<rparr>
     = staging_lib env outDir folder \<lparr>files = fs, events = es\<rparr>"
  by (simp add: staging_lib_run staging_events_def split: sum.splits)

lemma run_lib_ignores_stale:
  assumes "truthy (apiKey_2 args)" "truthy (folder_2 args)"
  shows "run_lib args env outDir (fs\<lparr>tmpBuildDir := t\<rparr>) = run_lib args env outDir fs"
  using assms
  by (simp add: run_lib_def astro_build_done_lib_blocks Let_def bind_def staging_lib_stale)

lemma cleanup_of_run_lib:
  "(fst (run_lib args env outDir fs) = Inr () \<longrightarrow>
      tmpBuildDir (files (snd (run_lib args env outDir fs))) = None
      \<and> (\<forall>folder. folder_2 args = Some folder
            \<longrightarrow> cwd_files (files (snd (run_lib args env outDir fs))) (folder @ ''.zip'') = None))
   \<and> (\<forall>e. truthy (cookie_2 args)
          \<and> (\<exists>sid. BigImport sid \<in> set (calls (events (snd (run_lib args env outDir fs)))))
          \<and> fst (run_lib args env outDir fs) = Inl e
        \<longrightarrow> Logger Err (''Failed to upload. '' @ error_toString e)
               \<in> set (events (snd (run_lib args env outDir fs)))
            \<and> tmpBuildDir (files (snd (run_lib args env outDir fs))) \<noteq> None
            \<and> (\<forall>folder. folder_2 args = Some folder
                  \<longrightarrow> cwd_files (files (snd (run_lib args env outDir fs))) (folder @ ''.zip'')
                        \<noteq> None))
   \<and> (truthy (apiKey_2 args) \<and> truthy (folder_2 args)
        \<longrightarrow> run_lib args env outDir (fs\<lparr>tmpBuildDir := Some stale\<rparr>)
              = run_lib args env outDir (fs\<lparr>tmpBuildDir := None\<rparr>))"
proof -
  let ?run = "run_lib args env outDir fs"
  have folder: "serve_folder args = folder" if "folder_2 args = Some folder" for folder
    using that by (simp add: serve_folder_def)
  have clean: "tmpBuildDir (files (snd ?run)) = None
      \<and> (\<forall>folder. folder_2 args = Some folder
            \<longrightarrow> cwd_files (files (snd ?run)) (folder @ ''.zip'') = None)"
    if "fst ?run = Inr ()"
  proof (cases rule: run_lib_cases[where args=args and env=env and outDir=outDir and fs=fs])
    case no_key
    with that show ?thesis by (simp add: run_lib_no_key)
  next
    case no_folder
    with that show ?thesis by (simp add: run_lib_no_folder)
  next
    case (rss_unreadable e)
    with that show ?thesis by (simp add: run_lib_rss_unreadable)
  next
    case (upload_fails rc e)
    with that show ?thesis by (simp add: run_lib_upload_fails)
  next
    case (no_cookie rc big)
    with that show ?thesis
      by (cases "import_res env") (auto simp: run_lib_no_cookie cleaned_def dest: folder)
  next
    case (with_cookie rc big c)
    with that show ?thesis
      by (cases "metadata_result env (getRssFile outDir (outDir_files fs)) rc")
         (auto simp: run_lib_cookie cleaned_def simp del: getRssFile.simps dest: folder)
  qed
  have left: "Logger Err (''Failed to upload. '' @ error_toString e) \<in> set (events (snd ?run))
      \<and> tmpBuildDir (files (snd ?run)) \<noteq> None
      \<and> (\<forall>folder. folder_2 args = Some folder
            \<longrightarrow> cwd_files (files (snd ?run)) (folder @ ''.zip'') \<noteq> None)"
    if "truthy (cookie_2 args)" "\<exists>sid. BigImport sid \<in> set (calls (events (snd ?run)))"
      "fst ?run = Inl e" for e
  proof (cases rule: run_lib_cases[where args=args and env=env and outDir=outDir and fs=fs])
    case no_key
    with that show ?thesis by (simp add: run_lib_no_key)
  next
    case no_folder
    with that show ?thesis by (simp add: run_lib_no_folder)
  next
    case (rss_unreadable e')
    with that show ?thesis by (simp add: run_lib_rss_unreadable)
  next
    case (upload_fails rc e')
    with that show ?thesis
      by (simp add: run_lib_upload_fails calls_uploaded_events_lib split: sum.splits)
  next
    case (no_cookie rc big)
    with that show ?thesis by simp
  next
    case (with_cookie rc big c)
    show ?thesis
    proof (cases "metadata_result env (getRssFile outDir (outDir_files fs)) rc")
      case (Inl e')
      with with_cookie that(3) have same: "e' = e"
        by (simp add: run_lib_cookie del: getRssFile.simps)
      from Inl have "failed_to_upload e'
          \<in> set (metadata_events_lib env (key_client_lib args) (cookie_client_lib c)
                   (getRssFile outDir (outDir_files fs)) rc)"
        by (rule metadata_failure_logged)
      with with_cookie Inl same show ?thesis
        by (auto simp: run_lib_cookie staged_lib_def failed_to_upload_def
            simp del: getRssFile.simps dest: folder)
    next
      case (Inr u)
      with with_cookie that(3) show ?thesis
        by (simp add: run_lib_cookie del: getRssFile.simps)
    qed
  qed
  have fresh: "run_lib args env outDir (fs\<lparr>tmpBuildDir := Some stale\<rparr>)
            = run_lib args env outDir (fs\<lparr>tmpBuildDir := None\<rparr>)"
    if "truthy (apiKey_2 args)" "truthy (folder_2 args)"
    using that by (simp add: run_lib_ignores_stale)
  from clean left fresh show ?thesis by blast
qed

subsection \<open>The content of the RSS edit, version by version\<close>


lemma filter_edit_uploaded_lib [simp]:
  "filter is_edit (calls (uploaded_events_lib args env outDir fs)) = []"
  by (simp add: calls_uploaded_events_lib split: sum.splits)




subsection \<open>A failed append, version by version\<close>

lemma run_v2_upload_fails:
  assumes "truthy (apiKey_2 args)" "truthy (folder_2 args)"
    "rss_content_v2 fenv outDir fs = Inr rc" "create_result fenv = Inr bigId"
    "uploadFile_result (append_fetch fenv) = Inl e"
  shows "fst (run_v2 args fenv outDir fs) = Inl e
         \<and> fetched (events (snd (run_v2 args fenv outDir fs))) = [create_url, append_url]"
proof -
  let ?folder = "case folder_2 args of Some f \<Rightarrow> f | None \<Rightarrow> ''build''"
  have zip: "cwd_files (staged_v2 ?folder fs) (?folder @ ''.zip'')
               = Some (Zip (copy_under ?folder (outDir_files fs)))"
    by (simp add: staged_v2_def)
  with assms show ?thesis
    by (simp add: run_v2_def astro_build_done_v2_blocks prog_defs Let_def staging_v2_run
        initFileUpload_v2_run uploadFile_run)
qed

lemma session_urls:
  "\<not> is_import_url create_url" "\<not> is_metadata_url create_url"
  "\<not> is_import_url append_url" "\<not> is_metadata_url append_url"
  by (simp_all add: is_import_url_def is_metadata_url_def create_url_def append_url_def
      nekowebApiUrl_def)

lemma append_failure_v2:
  assumes "uploadFile_result (append_fetch fenv) = Inl e"
  shows "(\<forall>u \<in> set (fetched (events (snd (run_v2 args fenv outDir fs)))).
            \<not> is_import_url u \<and> \<not> is_metadata_url u)
         \<and> (append_url \<in> set (fetched (events (snd (run_v2 args fenv outDir fs))))
              \<longrightarrow> fst (run_v2 args fenv outDir fs) = Inl e
                  \<and> last (fetched (events (snd (run_v2 args fenv outDir fs)))) = append_url)"
  using run_v2_append_fails[OF assms, of args outDir fs] session_urls create_not_append
  by (elim disjE conjE) simp_all

lemma append_failure_of_run:
  assumes failed: "append_res env = Inl e"
  shows "(\<forall>c \<in> set (calls (events (snd (run args env outDir fs)))).
            \<not> is_import c \<and> \<not> is_metadata_call c)
         \<and> (\<forall>sid z. BigAppend sid z \<in> set (calls (events (snd (run args env outDir fs))))
               \<longrightarrow> fst (run args env outDir fs) = Inl e
                   \<and> last (calls (events (snd (run args env outDir fs)))) = BigAppend sid z)"
proof (cases rule: run_cases[where args=args and env=env and outDir=outDir and fs=fs])
  case no_key
  then show ?thesis by (simp add: run_no_key)
next
  case (site_info_fails e')
  then show ?thesis by (simp add: run_site_info_fails is_metadata_call_def)
next
  case (no_folder info)
  then show ?thesis by (simp add: run_no_folder is_metadata_call_def)
next
  case (rss_missing info folder e')
  then show ?thesis by (simp add: run_rss_missing is_metadata_call_def)
next
  case (upload_fails info folder rc e')
  from upload_fails(6) failed consider
      (create) "create_res env = Inl e'"
    | (append) sid where "create_res env = Inr sid" "e' = e"
    by (auto simp: upload_result_Inl)
  then show ?thesis
  proof cases
    case create
    with upload_fails show ?thesis
      by (simp add: run_upload_fails calls_uploaded_events is_metadata_call_def)
  next
    case append
    with upload_fails show ?thesis
      by (simp add: run_upload_fails calls_uploaded_events is_metadata_call_def)
  qed
next
  case (no_cookie info folder rc big)
  with failed show ?thesis by (simp add: upload_result_Inr)
next
  case (with_cookie info folder rc big c)
  with failed show ?thesis by (simp add: upload_result_Inr)
qed

lemma no_error_log_uploaded:
  "filter is_error_log (uploaded_events args env outDir fs folder) = []"
  by (simp add: uploaded_events_def staging_events_def upload_events_def split: sum.splits)

lemma site_rss_content_v2:
  "utf8_text_2 fenv ''<rss/>'' = ''<rss/>'' \<Longrightarrow>
   rss_content_v2 fenv ''/out/'' local_fs = Inr (Some (''<rss/>'' @ ''\<newline>''))"
  by (simp add: rss_content_v2_def site_feed_found site_feed_read
      del: getRssFile.simps append.simps)

section \<open>The claims\<close>

text \<open>
  C1. In every run the calls of the upload session are made in the order create, append,
  delete of the target folder, import: what a run makes of them is an initial part of that
  sequence. The folder deleted is the one site info gave. Import is called only when
  append has succeeded, and once append has succeeded delete and import follow. The
  answer to the delete call changes nothing: the run is the same whatever it is.
\<close>

theorem session_calls_in_order:
  "(\<exists>sid z folder.
      prefix (filter is_session_call (calls (events (snd (run args env outDir fs)))))
        [BigCreate, BigAppend sid z, DeletePath folder, BigImport sid])
   \<and> (\<forall>sid. BigImport sid \<in> set (calls (events (snd (run args env outDir fs))))
          \<longrightarrow> append_res env = Inr ())
   \<and> (\<forall>p. DeletePath p \<in> set (calls (events (snd (run args env outDir fs))))
          \<longrightarrow> (\<exists>info. site_info_res env = Inr info \<and> site_folder info = Some p))
   \<and> (\<forall>sid z. BigAppend sid z \<in> set (calls (events (snd (run args env outDir fs))))
            \<and> append_res env = Inr ()
          \<longrightarrow> (\<exists>folder. filter is_session_call (calls (events (snd (run args env outDir fs))))
                         = [BigCreate, BigAppend sid z, DeletePath folder, BigImport sid]))
   \<and> run args (env\<lparr>delete_res := d\<rparr>) outDir fs = run args env outDir fs"
proof -
  let ?cs = "calls (events (snd (run args env outDir fs)))"
  have order: "(\<exists>sid z folder.
      prefix (filter is_session_call ?cs) [BigCreate, BigAppend sid z, DeletePath folder, BigImport sid])
   \<and> (\<forall>sid. BigImport sid \<in> set ?cs \<longrightarrow> append_res env = Inr ())
   \<and> (\<forall>p. DeletePath p \<in> set ?cs
          \<longrightarrow> (\<exists>info. site_info_res env = Inr info \<and> site_folder info = Some p))
   \<and> (\<forall>sid z. BigAppend sid z \<in> set ?cs \<and> append_res env = Inr ()
          \<longrightarrow> (\<exists>folder. filter is_session_call ?cs
                         = [BigCreate, BigAppend sid z, DeletePath folder, BigImport sid]))"
  proof (cases rule: run_cases[where args=args and env=env and outDir=outDir and fs=fs])
    case no_key
    then show ?thesis by (simp add: run_no_key)
  next
    case (site_info_fails e)
    then show ?thesis by (simp add: run_site_info_fails)
  next
    case (no_folder info)
    then show ?thesis by (simp add: run_no_folder)
  next
    case (rss_missing info folder e)
    then show ?thesis by (simp add: run_rss_missing)
  next
    case (upload_fails info folder rc e)
    from upload_fails(6) consider
        (create) "create_res env = Inl e"
      | (append) sid where "create_res env = Inr sid" "append_res env = Inl e"
      by (auto simp: upload_result_Inl)
    then show ?thesis
    proof cases
      case create
      with upload_fails show ?thesis
        by (simp add: run_upload_fails calls_uploaded_events)
    next
      case append
      with upload_fails show ?thesis
        by (simp add: run_upload_fails calls_uploaded_events)
    qed
  next
    case (no_cookie info folder rc big)
    from no_cookie(6) obtain sid where sid: "create_res env = Inr sid" "append_res env = Inr ()"
        "big = \<lparr>big_id = sid, big_config = key_client args\<rparr>"
      by (auto simp: upload_result_Inr)
    with no_cookie show ?thesis
      by (simp add: run_no_cookie calls_uploaded_events split: sum.splits)
  next
    case (with_cookie info folder rc big c)
    from with_cookie(6) obtain sid where sid: "create_res env = Inr sid" "append_res env = Inr ()"
        "big = \<lparr>big_id = sid, big_config = key_client args\<rparr>"
      by (auto simp: upload_result_Inr)
    with with_cookie show ?thesis
      by (auto simp: run_cookie calls_uploaded_events dest: metadata_calls_not_session)
  qed
  with run_ignores_delete_res show ?thesis by blast
qed

theorem session_calls_in_order_witness:
  "BigAppend ''big1'' (staged_zip ''site'' local_fs)
     \<in> set (calls (events (snd (run site_args good_env ''/out/'' local_fs))))
   \<and> append_res good_env = Inr ()
   \<and> filter is_session_call (calls (events (snd (run site_args good_env ''/out/'' local_fs))))
       = [BigCreate, BigAppend ''big1'' (staged_zip ''site'' local_fs), DeletePath ''site'',
          BigImport ''big1'']
   \<and> run site_args (good_env\<lparr>delete_res := Inl (new_Error ''busy'')\<rparr>) ''/out/'' local_fs
       = run site_args good_env ''/out/'' local_fs"
proof -
  let ?cs = "calls (events (snd (run site_args good_env ''/out/'' local_fs)))"
  have sent: "BigAppend ''big1'' (staged_zip ''site'' local_fs) \<in> set ?cs"
    by (simp add: site_calls good_env_facts)
  have ok: "append_res good_env = Inr ()"
    by (simp add: good_env_def)
  have deleted: "DeletePath ''site'' \<in> set ?cs"
    by (simp add: site_calls good_env_facts)
  note all = session_calls_in_order[of site_args good_env "''/out/''" local_fs
      "Inl (new_Error ''busy'')"]
  from all sent ok obtain folder where
    full: "filter is_session_call ?cs
             = [BigCreate, BigAppend ''big1'' (staged_zip ''site'' local_fs), DeletePath folder,
                BigImport ''big1'']"
    by blast
  have "DeletePath folder \<in> set (filter is_session_call ?cs)"
    by (simp add: full)
  then have "DeletePath folder \<in> set ?cs"
    by simp
  with all have "\<exists>info. site_info_res good_env = Inr info \<and> site_folder info = Some folder"
    by blast
  then have "folder = ''site''"
    by (auto simp: good_env_def)
  with full sent ok all show ?thesis
    by blast
qed

text \<open>
  C2. The claim: a failed import aborts the run with the import error, before any CSRF
  fetch or metadata edit, and the run is not reported successful. With a cookie the
  hook does not behave so. At the example deployment, with the import rejected, the hook
  returns normally, logs the deployment as successful and removes the archive and the
  staging directory; the rejection of the import reaches nobody.
\<close>

theorem import_failure_with_cookie_reported_as_success:
  \<open>import_res (good_env\<lparr>import_res := Inl import_failed\<rparr>) = Inl import_failed
   \<and> fst (run site_args (good_env\<lparr>import_res := Inl import_failed\<rparr>) ''/out/'' local_fs) = Inr ()
   \<and> last (events (snd (run site_args (good_env\<lparr>import_res := Inl import_failed\<rparr>)
                            ''/out/'' local_fs)))
       = Logger Info ''Successfully deployed "/out/"''
   \<and> tmpBuildDir (files (snd (run site_args (good_env\<lparr>import_res := Inl import_failed\<rparr>)
                                 ''/out/'' local_fs))) = None
   \<and> cwd_files (files (snd (run site_args (good_env\<lparr>import_res := Inl import_failed\<rparr>)
                               ''/out/'' local_fs))) ''site.zip'' = None\<close>
proof -
  have zn: "zipFileName ''site'' = ''site.zip''"
    by (simp add: zipFileName_def)
  show ?thesis
    by (simp add: site_run good_env_def zn cleaned_def)
qed

text \<open>
  C3. The claim: with a cookie, the CSRF token is fetched and the metadata edits are sent
  only after the import has succeeded. At the example deployment with the import rejected,
  the hook still asks for site info and the CSRF token and sends both edits, right after
  the import request.
\<close>

theorem csrf_fetched_though_import_failed:
  "import_res (good_env\<lparr>import_res := Inl import_failed\<rparr>) = Inl import_failed
   \<and> calls (events (snd (run site_args (good_env\<lparr>import_res := Inl import_failed\<rparr>)
                            ''/out/'' local_fs)))
       = [GetSiteInfo None, BigCreate,
          BigAppend ''big1''
            (Zip [(''site/not_found.html'', ''<h1>lost</h1>''), (''site/index.html'', ''<h1>hi</h1>''),
                  (''site/rss.xml'', ''<rss/>'')]),
          DeletePath ''site'', BigImport ''big1'', GetSiteInfo None, GetCsrf,
          FilesEdit ''/site/rss.xml'' (''<rss/>'' @ ''\<newline>'' @ rss_marker 17) ''me'' ''tok'',
          FilesEdit marker_pathname (marker_content 18) ''me'' ''tok'']"
  by (simp add: site_calls good_metadata_calls good_env_def site_zip)

text \<open>
  C4. The claim: when the append call fails, the error that reaches the caller names the
  upload step. In version 3.0.0 the hook awaits \<^verbatim>\<open>bigId.append(zip)\<close> and adds nothing:
  what reaches the caller is the error the library's call rejected with, as it is, and
  the hook logs nothing about it. At the example deployment with the connection of the
  append request dropped, the hook rejects with \<^verbatim>\<open>Error: socket hang up\<close>.
\<close>

theorem append_error_is_passed_on_as_it_is:
  "append_res (good_env\<lparr>append_res := Inl hang_up\<rparr>) = Inl hang_up
   \<and> calls (events (snd (run site_args (good_env\<lparr>append_res := Inl hang_up\<rparr>) ''/out/'' local_fs)))
       = [GetSiteInfo None, BigCreate,
          BigAppend ''big1''
            (Zip [(''site/not_found.html'', ''<h1>lost</h1>''), (''site/index.html'', ''<h1>hi</h1>''),
                  (''site/rss.xml'', ''<rss/>'')])]
   \<and> fst (run site_args (good_env\<lparr>append_res := Inl hang_up\<rparr>) ''/out/'' local_fs)
       = Inl (Error ''Error'' ''socket hang up'')
   \<and> error_toString (Error ''Error'' ''socket hang up'') = ''Error: socket hang up''
   \<and> filter is_error_log
         (events (snd (run site_args (good_env\<lparr>append_res := Inl hang_up\<rparr>) ''/out/'' local_fs)))
       = []"
proof -
  let ?env = "good_env\<lparr>append_res := Inl hang_up\<rparr>"
  have up: "upload_result ?env (key_client site_args) (zipFileName ''site'')
              (Some (staged_zip ''site'' local_fs)) = Inl hang_up"
    by (simp add: upload_result_def good_env_def)
  have run: "run site_args ?env ''/out/'' local_fs =
     (Inl hang_up,
      \<lparr>files = staged ''site'' local_fs,
       events = uploaded_events site_args ?env ''/out/'' local_fs ''site''\<rparr>)"
    by (rule site_run_upload_fails) (simp_all add: up, simp_all add: good_env_def)
  have failed: "append_res ?env = Inl hang_up"
    by simp
  have sent: "calls (events (snd (run site_args ?env ''/out/'' local_fs)))
       = [GetSiteInfo None, BigCreate,
          BigAppend ''big1''
            (Zip [(''site/not_found.html'', ''<h1>lost</h1>''), (''site/index.html'', ''<h1>hi</h1>''),
                  (''site/rss.xml'', ''<rss/>'')])]"
    by (simp only: run) (simp add: calls_uploaded_events good_env_def site_zip site_args_def)
  have rejected: "fst (run site_args ?env ''/out/'' local_fs) = Inl (Error ''Error'' ''socket hang up'')"
    by (simp only: run) (simp add: hang_up_def)
  have words: "error_toString (Error ''Error'' ''socket hang up'') = ''Error: socket hang up''"
    by (simp add: error_toString_def)
  have silent: "filter is_error_log (events (snd (run site_args ?env ''/out/'' local_fs))) = []"
    by (simp only: run) (simp add: no_error_log_uploaded)
  show ?thesis
    by (intro conjI failed sent rejected words silent)
qed

text \<open>
  C4, amended. When the append call fails, no import, CSRF or file-edit call is made in
  that run, and a run that reached the append call ends there, with the error of the
  append step. In version 3.0.0 that is the error the library's append call rejected with,
  passed on unchanged, whatever it names. In version 2.0.3, where the adapter sends the
  request itself, it is the adapter's own error
  \<^verbatim>\<open>Failed to upload: <status> <statusText> - <body>\<close> when the response is not
  \<^verbatim>\<open>ok\<close>, and the error of \<^verbatim>\<open>fetch\<close> when the request itself fails; no request
  to the import address or to an address of the metadata update (site info, CSRF, file
  edit) is sent in that run.
\<close>

theorem append_failure_stops_the_run:
  "(append_res env = Inl e \<longrightarrow>
      (\<forall>c \<in> set (calls (events (snd (run args env outDir fs)))).
          \<not> is_import c \<and> \<not> is_metadata_call c)
      \<and> (\<forall>sid z. BigAppend sid z \<in> set (calls (events (snd (run args env outDir fs))))
             \<longrightarrow> fst (run args env outDir fs) = Inl e
                 \<and> last (calls (events (snd (run args env outDir fs)))) = BigAppend sid z))
   \<and> (append_fetch fenv = Inr r \<and> \<not> resp_ok r \<longrightarrow>
        (\<forall>u \<in> set (fetched (events (snd (run_v2 args' fenv outDir fs)))).
            \<not> is_import_url u \<and> \<not> is_metadata_url u)
        \<and> (append_url \<in> set (fetched (events (snd (run_v2 args' fenv outDir fs))))
             \<longrightarrow> fst (run_v2 args' fenv outDir fs)
                   = Inl (new_Error (''Failed to upload: '' @ status_line r @ '' - ''
                                     @ resp_text r))
                 \<and> last (fetched (events (snd (run_v2 args' fenv outDir fs)))) = append_url))
   \<and> (append_fetch fenv = Inl e' \<longrightarrow>
        (\<forall>u \<in> set (fetched (events (snd (run_v2 args' fenv outDir fs)))).
            \<not> is_import_url u \<and> \<not> is_metadata_url u)
        \<and> (append_url \<in> set (fetched (events (snd (run_v2 args' fenv outDir fs))))
             \<longrightarrow> fst (run_v2 args' fenv outDir fs) = Inl e'
                 \<and> last (fetched (events (snd (run_v2 args' fenv outDir fs)))) = append_url))"
proof -
  have library: "append_res env = Inl e \<longrightarrow>
      (\<forall>c \<in> set (calls (events (snd (run args env outDir fs)))).
          \<not> is_import c \<and> \<not> is_metadata_call c)
      \<and> (\<forall>sid z. BigAppend sid z \<in> set (calls (events (snd (run args env outDir fs))))
             \<longrightarrow> fst (run args env outDir fs) = Inl e
                 \<and> last (calls (events (snd (run args env outDir fs)))) = BigAppend sid z)"
  proof
    assume "append_res env = Inl e"
    then show "(\<forall>c \<in> set (calls (events (snd (run args env outDir fs)))).
          \<not> is_import c \<and> \<not> is_metadata_call c)
      \<and> (\<forall>sid z. BigAppend sid z \<in> set (calls (events (snd (run args env outDir fs))))
             \<longrightarrow> fst (run args env outDir fs) = Inl e
                 \<and> last (calls (events (snd (run args env outDir fs)))) = BigAppend sid z)"
      by (rule append_failure_of_run)
  qed
  have not_ok: "append_fetch fenv = Inr r \<and> \<not> resp_ok r \<longrightarrow>
        (\<forall>u \<in> set (fetched (events (snd (run_v2 args' fenv outDir fs)))).
            \<not> is_import_url u \<and> \<not> is_metadata_url u)
        \<and> (append_url \<in> set (fetched (events (snd (run_v2 args' fenv outDir fs))))
             \<longrightarrow> fst (run_v2 args' fenv outDir fs)
                   = Inl (new_Error (''Failed to upload: '' @ status_line r @ '' - ''
                                     @ resp_text r))
                 \<and> last (fetched (events (snd (run_v2 args' fenv outDir fs)))) = append_url)"
  proof
    assume "append_fetch fenv = Inr r \<and> \<not> resp_ok r"
    then have "uploadFile_result (append_fetch fenv)
               = Inl (new_Error (''Failed to upload: '' @ status_line r @ '' - '' @ resp_text r))"
      by (simp add: uploadFile_result_def)
    then show "(\<forall>u \<in> set (fetched (events (snd (run_v2 args' fenv outDir fs)))).
            \<not> is_import_url u \<and> \<not> is_metadata_url u)
        \<and> (append_url \<in> set (fetched (events (snd (run_v2 args' fenv outDir fs))))
             \<longrightarrow> fst (run_v2 args' fenv outDir fs)
                   = Inl (new_Error (''Failed to upload: '' @ status_line r @ '' - ''
                                     @ resp_text r))
                 \<and> last (fetched (events (snd (run_v2 args' fenv outDir fs)))) = append_url)"
      by (rule append_failure_v2)
  qed
  have no_answer: "append_fetch fenv = Inl e' \<longrightarrow>
        (\<forall>u \<in> set (fetched (events (snd (run_v2 args' fenv outDir fs)))).
            \<not> is_import_url u \<and> \<not> is_metadata_url u)
        \<and> (append_url \<in> set (fetched (events (snd (run_v2 args' fenv outDir fs))))
             \<longrightarrow> fst (run_v2 args' fenv outDir fs) = Inl e'
                 \<and> last (fetched (events (snd (run_v2 args' fenv outDir fs)))) = append_url)"
  proof
    assume "append_fetch fenv = Inl e'"
    then have "uploadFile_result (append_fetch fenv) = Inl e'"
      by (simp add: uploadFile_result_def)
    then show "(\<forall>u \<in> set (fetched (events (snd (run_v2 args' fenv outDir fs)))).
            \<not> is_import_url u \<and> \<not> is_metadata_url u)
        \<and> (append_url \<in> set (fetched (events (snd (run_v2 args' fenv outDir fs))))
             \<longrightarrow> fst (run_v2 args' fenv outDir fs) = Inl e'
                 \<and> last (fetched (events (snd (run_v2 args' fenv outDir fs)))) = append_url)"
      by (rule append_failure_v2)
  qed
  show ?thesis
    by (rule conjI[OF library conjI[OF not_ok no_answer]])
qed

theorem append_failure_stops_the_run_witness:
  "append_res (good_env\<lparr>append_res := Inl hang_up\<rparr>) = Inl hang_up
   \<and> BigAppend ''big1'' (staged_zip ''site'' local_fs)
       \<in> set (calls (events (snd (run site_args (good_env\<lparr>append_res := Inl hang_up\<rparr>)
                                     ''/out/'' local_fs))))
   \<and> fst (run site_args (good_env\<lparr>append_res := Inl hang_up\<rparr>) ''/out/'' local_fs) = Inl hang_up
   \<and> append_fetch (good_fetch_env\<lparr>append_fetch := Inr bad_response\<rparr>) = Inr bad_response
   \<and> \<not> resp_ok bad_response
   \<and> append_url \<in> set (fetched (events (snd (run_v2 site_args_2
         (good_fetch_env\<lparr>append_fetch := Inr bad_response\<rparr>) ''/out/'' local_fs))))
   \<and> fst (run_v2 site_args_2 (good_fetch_env\<lparr>append_fetch := Inr bad_response\<rparr>)
             ''/out/'' local_fs)
       = Inl (new_Error ''Failed to upload: 500 Internal Server Error - no'')
   \<and> append_fetch (good_fetch_env\<lparr>append_fetch := Inl hang_up\<rparr>) = Inl hang_up
   \<and> append_url \<in> set (fetched (events (snd (run_v2 site_args_2
         (good_fetch_env\<lparr>append_fetch := Inl hang_up\<rparr>) ''/out/'' local_fs))))
   \<and> fst (run_v2 site_args_2 (good_fetch_env\<lparr>append_fetch := Inl hang_up\<rparr>) ''/out/'' local_fs)
       = Inl hang_up"
proof -
  let ?env = "good_env\<lparr>append_res := Inl hang_up\<rparr>"
  let ?bad = "good_fetch_env\<lparr>append_fetch := Inr bad_response\<rparr>"
  let ?cut = "good_fetch_env\<lparr>append_fetch := Inl hang_up\<rparr>"
  have failed: "append_res ?env = Inl hang_up"
    by simp
  have up: "upload_result ?env (key_client site_args) (zipFileName ''site'')
              (Some (staged_zip ''site'' local_fs)) = Inl hang_up"
    by (simp add: upload_result_def good_env_def)
  have run: "run site_args ?env ''/out/'' local_fs =
     (Inl hang_up,
      \<lparr>files = staged ''site'' local_fs,
       events = uploaded_events site_args ?env ''/out/'' local_fs ''site''\<rparr>)"
    by (rule site_run_upload_fails) (simp_all add: up, simp_all add: good_env_def)
  have sent: "BigAppend ''big1'' (staged_zip ''site'' local_fs)
                \<in> set (calls (events (snd (run site_args ?env ''/out/'' local_fs))))"
    by (simp only: run) (simp add: calls_uploaded_events good_env_def)
  have key: "truthy (apiKey_2 site_args_2)" "truthy (folder_2 site_args_2)"
    by (simp_all add: site_args_2_def truthy_def)
  have not_ok: "append_fetch ?bad = Inr bad_response \<and> \<not> resp_ok bad_response"
    by (simp add: bad_response_def)
  have cut: "append_fetch ?cut = Inl hang_up"
    by simp
  have line: "status_line bad_response = ''500 Internal Server Error''"
    by code_simp
  have reached_bad: "append_url \<in> set (fetched (events (snd (run_v2 site_args_2 ?bad
                        ''/out/'' local_fs))))"
  proof -
    have "fst (run_v2 site_args_2 ?bad ''/out/'' local_fs)
            = Inl (new_Error (''Failed to upload: '' @ status_line bad_response @ '' - ''
                              @ resp_text bad_response))
          \<and> fetched (events (snd (run_v2 site_args_2 ?bad ''/out/'' local_fs)))
              = [create_url, append_url]"
      by (rule run_v2_upload_fails[OF key, where rc="Some (''<rss/>'' @ ''\<newline>'')"
            and bigId="''big1''"])
         (simp_all add: site_rss_content_v2 create_result_def uploadFile_result_def
            good_fetch_env_def ok_response_def bad_response_def)
    then show ?thesis by simp
  qed
  have reached_cut: "append_url \<in> set (fetched (events (snd (run_v2 site_args_2 ?cut
                        ''/out/'' local_fs))))"
  proof -
    have "fst (run_v2 site_args_2 ?cut ''/out/'' local_fs) = Inl hang_up
          \<and> fetched (events (snd (run_v2 site_args_2 ?cut ''/out/'' local_fs)))
              = [create_url, append_url]"
      by (rule run_v2_upload_fails[OF key, where rc="Some (''<rss/>'' @ ''\<newline>'')"
            and bigId="''big1''"])
         (simp_all add: site_rss_content_v2 create_result_def uploadFile_result_def
            good_fetch_env_def ok_response_def)
    then show ?thesis by simp
  qed
  note v3 = append_failure_stops_the_run[where env="?env" and e=hang_up and args=site_args
      and outDir="''/out/''" and fs=local_fs, THEN conjunct1, THEN mp, OF failed]
  note bad = append_failure_stops_the_run[where fenv="?bad" and r=bad_response
      and args'=site_args_2 and outDir="''/out/''" and fs=local_fs,
      THEN conjunct2, THEN conjunct1, THEN mp, OF not_ok]
  note dropped = append_failure_stops_the_run[where fenv="?cut" and e'=hang_up
      and args'=site_args_2 and outDir="''/out/''" and fs=local_fs,
      THEN conjunct2, THEN conjunct2, THEN mp, OF cut]
  have rejected: "fst (run site_args ?env ''/out/'' local_fs) = Inl hang_up"
    using v3[THEN conjunct2, rule_format, OF sent] by (rule conjunct1)
  have "fst (run_v2 site_args_2 ?bad ''/out/'' local_fs)
          = Inl (new_Error (''Failed to upload: '' @ status_line bad_response @ '' - ''
                            @ resp_text bad_response))"
    using bad[THEN conjunct2, THEN mp, OF reached_bad] by (rule conjunct1)
  then have worded: "fst (run_v2 site_args_2 ?bad ''/out/'' local_fs)
          = Inl (new_Error ''Failed to upload: 500 Internal Server Error - no'')"
    by (simp add: line) (simp add: bad_response_def)
  have passed: "fst (run_v2 site_args_2 ?cut ''/out/'' local_fs) = Inl hang_up"
    using dropped[THEN conjunct2, THEN mp, OF reached_cut] by (rule conjunct1)
  show ?thesis
    by (intro conjI failed sent rejected not_ok[THEN conjunct1] not_ok[THEN conjunct2]
        reached_bad worded cut reached_cut passed)
qed

text \<open>
  C5. In a run without a cookie (none given, or an empty one) no CSRF request and no
  file-edit request is made. Their absence is no error: when the import is reached and
  succeeds, the hook returns normally, the logger gets the warning that the cookie was not
  found and the line that the deployment succeeded, and nothing at the error level.
\<close>

theorem no_cookie_no_metadata_calls:
  \<open>\<not> truthy (cookie args) \<longrightarrow>
     (\<forall>c \<in> set (calls (events (snd (run args env outDir fs)))). \<not> is_metadata_call c)
     \<and> (\<forall>sid. BigImport sid \<in> set (calls (events (snd (run args env outDir fs))))
              \<and> import_res env = Inr ()
            \<longrightarrow> fst (run args env outDir fs) = Inr ()
                \<and> Logger Warn ''Nekoweb Cookie not found. Skipping Recently Updated support...''
                     \<in> set (events (snd (run args env outDir fs)))
                \<and> Logger Info (''Successfully deployed "'' @ outDir @ ''"'')
                     \<in> set (events (snd (run args env outDir fs)))
                \<and> (\<forall>ev \<in> set (events (snd (run args env outDir fs))). \<not> is_error_log ev))\<close>
proof
  assume none: "\<not> truthy (cookie args)"
  show \<open>(\<forall>c \<in> set (calls (events (snd (run args env outDir fs)))). \<not> is_metadata_call c)
     \<and> (\<forall>sid. BigImport sid \<in> set (calls (events (snd (run args env outDir fs))))
              \<and> import_res env = Inr ()
            \<longrightarrow> fst (run args env outDir fs) = Inr ()
                \<and> Logger Warn ''Nekoweb Cookie not found. Skipping Recently Updated support...''
                     \<in> set (events (snd (run args env outDir fs)))
                \<and> Logger Info (''Successfully deployed "'' @ outDir @ ''"'')
                     \<in> set (events (snd (run args env outDir fs)))
                \<and> (\<forall>ev \<in> set (events (snd (run args env outDir fs))). \<not> is_error_log ev))\<close>
  proof (cases rule: run_cases[where args=args and env=env and outDir=outDir and fs=fs])
    case no_key
    then show ?thesis by (simp add: run_no_key)
  next
    case (site_info_fails e)
    then show ?thesis by (simp add: run_site_info_fails is_metadata_call_def)
  next
    case (no_folder info)
    then show ?thesis by (simp add: run_no_folder is_metadata_call_def)
  next
    case (rss_missing info folder e)
    then show ?thesis by (simp add: run_rss_missing is_metadata_call_def)
  next
    case (upload_fails info folder rc e)
    then show ?thesis
      by (auto simp: run_upload_fails calls_uploaded_events is_metadata_call_def
          split: sum.splits)
  next
    case (no_cookie info folder rc big)
    from no_cookie(6) obtain sid where sid: "create_res env = Inr sid" "append_res env = Inr ()"
      by (auto simp: upload_result_Inr)
    have quiet: "\<forall>ev \<in> set (uploaded_events args env outDir fs folder). \<not> is_error_log ev"
      using sid by (simp add: uploaded_events_def staging_events_def upload_events_def)
    from no_cookie sid quiet show ?thesis
      by (simp add: run_no_cookie calls_uploaded_events is_metadata_call_def split: sum.splits)
  next
    case (with_cookie info folder rc big c)
    with none show ?thesis by (simp add: truthy_def)
  qed
qed

theorem no_cookie_no_metadata_calls_witness:
  \<open>\<not> truthy (cookie (site_args\<lparr>cookie := None\<rparr>))
   \<and> BigImport ''big1''
       \<in> set (calls (events (snd (run (site_args\<lparr>cookie := None\<rparr>) good_env ''/out/'' local_fs))))
   \<and> import_res good_env = Inr ()
   \<and> fst (run (site_args\<lparr>cookie := None\<rparr>) good_env ''/out/'' local_fs) = Inr ()
   \<and> Logger Info ''Successfully deployed "/out/"''
       \<in> set (events (snd (run (site_args\<lparr>cookie := None\<rparr>) good_env ''/out/'' local_fs)))
   \<and> GetCsrf \<notin> set (calls (events (snd (run (site_args\<lparr>cookie := None\<rparr>) good_env
                                            ''/out/'' local_fs))))\<close>
proof -
  let ?args = "site_args\<lparr>cookie := None\<rparr>"
  let ?run = "run ?args good_env ''/out/'' local_fs"
  have none: "\<not> truthy (cookie ?args)"
    by (simp add: truthy_def)
  have rc: "rss_content ?args good_env ''/out/'' local_fs
              = Inr (Some (''<rss/>'' @ ''\<newline>'' @ rss_marker 17))"
    by (simp add: rss_content_def site_args_def site_read good_env_def del: append.simps)
  have up: "upload_result good_env (key_client ?args) (zipFileName ''site'')
              (Some (staged_zip ''site'' local_fs))
            = Inr \<lparr>big_id = ''big1'', big_config = key_client ?args\<rparr>"
    by (simp add: upload_result_def good_env_def)
  have ok: "import_res good_env = Inr ()"
    by (simp add: good_env_def)
  have \<open>?run =
     (case import_res good_env of
        Inl e \<Rightarrow>
          (Inl e,
           \<lparr>files = staged ''site'' local_fs,
            events = uploaded_events ?args good_env ''/out/'' local_fs ''site'' @
              [Request (key_client ?args) (DeletePath ''site''),
               Request (key_client ?args)
                 (BigImport (big_id \<lparr>big_id = ''big1'', big_config = key_client ?args\<rparr>)),
               Logger Warn ''Nekoweb Cookie not found. Skipping Recently Updated support...'']\<rparr>)
      | Inr _ \<Rightarrow>
          (Inr (),
           \<lparr>files = cleaned (zipFileName ''site'') (staged ''site'' local_fs),
            events = uploaded_events ?args good_env ''/out/'' local_fs ''site'' @
              [Request (key_client ?args) (DeletePath ''site''),
               Request (key_client ?args)
                 (BigImport (big_id \<lparr>big_id = ''big1'', big_config = key_client ?args\<rparr>)),
               Logger Warn ''Nekoweb Cookie not found. Skipping Recently Updated support...'',
               Logger Info (''Successfully deployed "'' @ ''/out/'' @ ''"'')]\<rparr>))\<close>
  proof (rule run_no_cookie)
    show "apiKey ?args \<noteq> []" by (simp add: site_args_def)
    show "site_info_res good_env
            = Inr \<lparr>site_folder = Some ''site'', site_domain = ''me.nekoweb.org'',
              site_username = ''me''\<rparr>"
      by (simp add: good_env_def)
    show "site_folder \<lparr>site_folder = Some ''site'', site_domain = ''me.nekoweb.org'',
              site_username = ''me''\<rparr> = Some ''site''"
      by simp
    show "''site'' \<noteq> []" by simp
    show "rss_content ?args good_env ''/out/'' local_fs
            = Inr (Some (''<rss/>'' @ ''\<newline>'' @ rss_marker 17))"
      by (rule rc)
    show "upload_result good_env (key_client ?args) (zipFileName ''site'')
            (Some (staged_zip ''site'' local_fs))
          = Inr \<lparr>big_id = ''big1'', big_config = key_client ?args\<rparr>"
      by (rule up)
    show "\<not> truthy (cookie ?args)" by (rule none)
  qed
  then have sent: "BigImport ''big1'' \<in> set (calls (events (snd ?run)))"
    by (simp add: ok)
  note inst = no_cookie_no_metadata_calls[of ?args good_env "''/out/''" local_fs]
  from inst none sent ok
  have "fst ?run = Inr ()"
    and \<open>Logger Info (''Successfully deployed "'' @ ''/out/'' @ ''"'') \<in> set (events (snd ?run))\<close>
    by blast+
  moreover from inst none have "\<forall>c \<in> set (calls (events (snd ?run))). \<not> is_metadata_call c"
    by blast
  then have "GetCsrf \<notin> set (calls (events (snd ?run)))"
    by (auto simp: is_metadata_call_def)
  ultimately show ?thesis
    using none sent ok by simp
qed

text \<open>
  C6. The claim: the archive file and the staging directory are removed at the end of
  every fully successful run and of every run that failed during the metadata update. In
  the version of \<^verbatim>\<open>finalizeUpload\<close> that throws again what it caught, a failure of
  the metadata update rejects the hook before its last three lines. At the example
  deployment by that version, with the CSRF token refused, the hook rejects with that
  error right after logging it, and the staging directory and \<^verbatim>\<open>site.zip\<close> are still
  there.
\<close>

theorem metadata_failure_skips_cleanup:
  \<open>csrf_res (good_env\<lparr>csrf_res := Inl denied\<rparr>) = Inl denied
   \<and> calls (events (snd (run_lib site_args_2 (good_env\<lparr>csrf_res := Inl denied\<rparr>)
                            ''/out/'' local_fs)))
       = [BigCreate,
          BigAppend ''big1''
            (Zip [(''site/not_found.html'', ''<h1>lost</h1>''), (''site/index.html'', ''<h1>hi</h1>''),
                  (''site/rss.xml'', ''<rss/>'')]),
          DeletePath ''site'', BigImport ''big1'', GetSiteInfo None, GetCsrf]
   \<and> fst (run_lib site_args_2 (good_env\<lparr>csrf_res := Inl denied\<rparr>) ''/out/'' local_fs)
       = Inl denied
   \<and> last (events (snd (run_lib site_args_2 (good_env\<lparr>csrf_res := Inl denied\<rparr>)
                           ''/out/'' local_fs)))
       = Logger Err ''Failed to upload. Error: denied''
   \<and> tmpBuildDir (files (snd (run_lib site_args_2 (good_env\<lparr>csrf_res := Inl denied\<rparr>)
                                 ''/out/'' local_fs)))
       = Some [(''site/not_found.html'', ''<h1>lost</h1>''), (''site/index.html'', ''<h1>hi</h1>''),
               (''site/rss.xml'', ''<rss/>'')]
   \<and> cwd_files (files (snd (run_lib site_args_2 (good_env\<lparr>csrf_res := Inl denied\<rparr>)
                               ''/out/'' local_fs))) ''site.zip''
       = Some (Zip [(''site/not_found.html'', ''<h1>lost</h1>''),
                    (''site/index.html'', ''<h1>hi</h1>''), (''site/rss.xml'', ''<rss/>'')])\<close>
proof -
  let ?env = "good_env\<lparr>csrf_res := Inl denied\<rparr>"
  let ?meta = "metadata_events_lib ?env (key_client_lib site_args_2) (cookie_client_lib ''c00kie'')
                 (Some ''/out/rss.xml'') (Some (''<rss/>'' @ ''\<newline>''))"
  have env: "create_res ?env = Inr ''big1''" "append_res ?env = Inr ()"
    "utf8_text ?env ''<rss/>'' = ''<rss/>''"
    by (simp_all add: good_env_def)
  have result: "metadata_result ?env (Some ''/out/rss.xml'') (Some (''<rss/>'' @ ''\<newline>''))
                  = Inl denied"
    by (simp add: metadata_result_def good_env_def)
  have meta: "?meta = [Request (key_client_lib site_args_2) (GetSiteInfo None),
                       Request (cookie_client_lib ''c00kie'') GetCsrf,
                       Logger Err ''Failed to upload. Error: denied'']"
    by (simp add: metadata_events_lib_def good_env_def failed_to_upload_def denied_def
        error_toString_def new_Error_def)
  note run = site_run_lib[OF env]
  have "calls (events (snd (run_lib site_args_2 ?env ''/out/'' local_fs)))
          = [BigCreate, BigAppend ''big1'' (staged_zip ''site'' local_fs),
             DeletePath ''site'', BigImport ''big1''] @ calls ?meta"
    by (rule site_calls_lib[OF env])
  then have sent: "calls (events (snd (run_lib site_args_2 ?env ''/out/'' local_fs)))
       = [BigCreate,
          BigAppend ''big1''
            (Zip [(''site/not_found.html'', ''<h1>lost</h1>''), (''site/index.html'', ''<h1>hi</h1>''),
                  (''site/rss.xml'', ''<rss/>'')]),
          DeletePath ''site'', BigImport ''big1'', GetSiteInfo None, GetCsrf]"
    by (simp only: meta site_zip) simp
  have rejected: "fst (run_lib site_args_2 ?env ''/out/'' local_fs) = Inl denied"
    by (simp only: run result) simp
  have logged: "last (events (snd (run_lib site_args_2 ?env ''/out/'' local_fs)))
                  = Logger Err ''Failed to upload. Error: denied''"
    by (simp only: run result meta) simp
  have "files (snd (run_lib site_args_2 ?env ''/out/'' local_fs)) = staged_lib ''site'' local_fs"
    by (simp only: run result) simp
  then have left: "tmpBuildDir (files (snd (run_lib site_args_2 ?env ''/out/'' local_fs)))
       = Some [(''site/not_found.html'', ''<h1>lost</h1>''), (''site/index.html'', ''<h1>hi</h1>''),
               (''site/rss.xml'', ''<rss/>'')]
     \<and> cwd_files (files (snd (run_lib site_args_2 ?env ''/out/'' local_fs))) ''site.zip''
       = Some (Zip [(''site/not_found.html'', ''<h1>lost</h1>''),
                    (''site/index.html'', ''<h1>hi</h1>''), (''site/rss.xml'', ''<rss/>'')])"
    by (simp only: site_staged_lib)
  have refused: "csrf_res ?env = Inl denied"
    by simp
  show ?thesis
    by (intro conjI refused sent rejected logged left[THEN conjunct1] left[THEN conjunct2])
qed

text \<open>
  C6, amended. In version 3.0.0 the archive file and the staging directory are gone
  whenever the hook returns normally, and with a cookie a run that got as far as the import
  request returns normally whatever happens to the site-info, CSRF and file-edit calls
  after it: there a failure of the metadata update is followed by the same cleanup. In the
  library version before it they are gone whenever the hook returns normally, but with a
  cookie a run that got as far as the import request and fails has logged the error
  (\<^verbatim>\<open>Failed to upload.\<close> and the error's text) and leaves the staging directory and the
  archive file in place. In both versions, once the options are validated (and, in
  version 3.0.0, site info has given a folder), a staging directory left by an earlier run
  has no influence at all: the run is the same as from a file system without it.
\<close>

theorem cleanup_after_a_run:
  "((fst (run args env outDir fs) = Inr () \<longrightarrow>
      tmpBuildDir (files (snd (run args env outDir fs))) = None
      \<and> (\<forall>info folder. site_info_res env = Inr info \<and> site_folder info = Some folder
            \<longrightarrow> cwd_files (files (snd (run args env outDir fs))) (zipFileName folder) = None))
    \<and> (truthy (cookie args)
         \<and> (\<exists>sid. BigImport sid \<in> set (calls (events (snd (run args env outDir fs)))))
       \<longrightarrow> fst (run args env outDir fs) = Inr ())
    \<and> (apiKey args \<noteq> [] \<and> (\<exists>info. site_info_res env = Inr info \<and> truthy (site_folder info))
       \<longrightarrow> run args env outDir (fs\<lparr>tmpBuildDir := Some stale\<rparr>)
             = run args env outDir (fs\<lparr>tmpBuildDir := None\<rparr>)))
   \<and> ((fst (run_lib args' env outDir fs) = Inr () \<longrightarrow>
      tmpBuildDir (files (snd (run_lib args' env outDir fs))) = None
      \<and> (\<forall>folder. folder_2 args' = Some folder
            \<longrightarrow> cwd_files (files (snd (run_lib args' env outDir fs))) (folder @ ''.zip'') = None))
    \<and> (\<forall>e. truthy (cookie_2 args')
          \<and> (\<exists>sid. BigImport sid \<in> set (calls (events (snd (run_lib args' env outDir fs)))))
          \<and> fst (run_lib args' env outDir fs) = Inl e
        \<longrightarrow> Logger Err (''Failed to upload. '' @ error_toString e)
               \<in> set (events (snd (run_lib args' env outDir fs)))
            \<and> tmpBuildDir (files (snd (run_lib args' env outDir fs))) \<noteq> None
            \<and> (\<forall>folder. folder_2 args' = Some folder
                  \<longrightarrow> cwd_files (files (snd (run_lib args' env outDir fs))) (folder @ ''.zip'')
                        \<noteq> None))
    \<and> (truthy (apiKey_2 args') \<and> truthy (folder_2 args')
        \<longrightarrow> run_lib args' env outDir (fs\<lparr>tmpBuildDir := Some stale\<rparr>)
              = run_lib args' env outDir (fs\<lparr>tmpBuildDir := None\<rparr>)))"
  by (rule conjI[OF cleanup_of_run cleanup_of_run_lib])

theorem cleanup_after_a_run_witness:
  "truthy (cookie site_args)
   \<and> BigImport ''big1''
       \<in> set (calls (events (snd (run site_args (good_env\<lparr>csrf_res := Inl denied\<rparr>)
                                     ''/out/'' local_fs))))
   \<and> fst (run site_args (good_env\<lparr>csrf_res := Inl denied\<rparr>) ''/out/'' local_fs) = Inr ()
   \<and> tmpBuildDir (files (snd (run site_args (good_env\<lparr>csrf_res := Inl denied\<rparr>)
                                 ''/out/'' local_fs))) = None
   \<and> cwd_files (files (snd (run site_args (good_env\<lparr>csrf_res := Inl denied\<rparr>)
                               ''/out/'' local_fs))) ''site.zip'' = None
   \<and> apiKey site_args \<noteq> []
   \<and> run site_args (good_env\<lparr>csrf_res := Inl denied\<rparr>) ''/out/''
         (local_fs\<lparr>tmpBuildDir := Some [(''site/old.html'', ''old'')]\<rparr>)
       = run site_args (good_env\<lparr>csrf_res := Inl denied\<rparr>) ''/out/''
           (local_fs\<lparr>tmpBuildDir := None\<rparr>)
   \<and> truthy (cookie_2 site_args_2)
   \<and> BigImport ''big1''
       \<in> set (calls (events (snd (run_lib site_args_2 (good_env\<lparr>csrf_res := Inl denied\<rparr>)
                                     ''/out/'' local_fs))))
   \<and> fst (run_lib site_args_2 (good_env\<lparr>csrf_res := Inl denied\<rparr>) ''/out/'' local_fs)
       = Inl denied
   \<and> Logger Err (''Failed to upload. '' @ error_toString denied)
       \<in> set (events (snd (run_lib site_args_2 (good_env\<lparr>csrf_res := Inl denied\<rparr>)
                              ''/out/'' local_fs)))
   \<and> tmpBuildDir (files (snd (run_lib site_args_2 (good_env\<lparr>csrf_res := Inl denied\<rparr>)
                                 ''/out/'' local_fs))) \<noteq> None
   \<and> cwd_files (files (snd (run_lib site_args_2 (good_env\<lparr>csrf_res := Inl denied\<rparr>)
                               ''/out/'' local_fs))) (''site'' @ ''.zip'') \<noteq> None
   \<and> fst (run_lib site_args_2 good_env ''/out/'' local_fs) = Inr ()
   \<and> tmpBuildDir (files (snd (run_lib site_args_2 good_env ''/out/'' local_fs))) = None"
proof -
  let ?env = "good_env\<lparr>csrf_res := Inl denied\<rparr>"
  let ?run = "run site_args ?env ''/out/'' local_fs"
  let ?old = "run_lib site_args_2 ?env ''/out/'' local_fs"
  let ?good = "run_lib site_args_2 good_env ''/out/'' local_fs"
  note v3 = cleanup_after_a_run[where args=site_args and args'=site_args_2 and env="?env"
      and outDir="''/out/''" and fs=local_fs and stale="[(''site/old.html'', ''old'')]",
      THEN conjunct1]
  note older = cleanup_after_a_run[where args=site_args and args'=site_args_2 and env="?env"
      and outDir="''/out/''" and fs=local_fs and stale="[(''site/old.html'', ''old'')]",
      THEN conjunct2]
  note good = cleanup_after_a_run[where args=site_args and args'=site_args_2 and env=good_env
      and outDir="''/out/''" and fs=local_fs and stale="[]", THEN conjunct2]
  have cookie: "truthy (cookie site_args)"
    by (simp add: truthy_def site_args_def)
  have key: "apiKey site_args \<noteq> []"
    by (simp add: site_args_def)
  have info: "site_info_res ?env = Inr \<lparr>site_folder = Some ''site'', site_domain = ''me.nekoweb.org'',
              site_username = ''me''\<rparr>"
    by (simp add: good_env_def)
  have sent: "BigImport ''big1'' \<in> set (calls (events (snd ?run)))"
    by (subst site_calls) (simp_all add: good_env_def)
  have zn: "zipFileName ''site'' = ''site.zip''"
    by (simp add: zipFileName_def)
  have finished: "fst ?run = Inr ()"
    using v3[THEN conjunct2, THEN conjunct1] cookie sent by blast
  have gone: "tmpBuildDir (files (snd ?run)) = None"
    using v3[THEN conjunct1] finished by simp
  have "cwd_files (files (snd ?run)) (zipFileName ''site'') = None"
    using v3[THEN conjunct1] finished info by simp
  then have unlinked: "cwd_files (files (snd ?run)) ''site.zip'' = None"
    by (simp add: zn)
  have "\<exists>i. site_info_res ?env = Inr i \<and> truthy (site_folder i)"
    using info by (simp add: truthy_def)
  with key have fresh:
    "run site_args ?env ''/out/'' (local_fs\<lparr>tmpBuildDir := Some [(''site/old.html'', ''old'')]\<rparr>)
       = run site_args ?env ''/out/'' (local_fs\<lparr>tmpBuildDir := None\<rparr>)"
    using v3[THEN conjunct2, THEN conjunct2] by simp
  have env: "create_res ?env = Inr ''big1''" "append_res ?env = Inr ()"
    "utf8_text ?env ''<rss/>'' = ''<rss/>''"
    by (simp_all add: good_env_def)
  have cookie_2: "truthy (cookie_2 site_args_2)"
    by (simp add: truthy_def site_args_2_def)
  have folder: "folder_2 site_args_2 = Some ''site''"
    by (simp add: site_args_2_def)
  have sent_2: "BigImport ''big1'' \<in> set (calls (events (snd ?old)))"
    by (subst site_calls_lib[OF env]) simp
  have "metadata_result ?env (Some ''/out/rss.xml'') (Some (''<rss/>'' @ ''\<newline>''))
          = Inl denied"
    by (simp add: metadata_result_def good_env_def)
  then have rejected: "fst ?old = Inl denied"
    by (simp only: site_run_lib[OF env]) simp
  have left: "Logger Err (''Failed to upload. '' @ error_toString denied) \<in> set (events (snd ?old))
      \<and> tmpBuildDir (files (snd ?old)) \<noteq> None
      \<and> (\<forall>folder. folder_2 site_args_2 = Some folder
            \<longrightarrow> cwd_files (files (snd ?old)) (folder @ ''.zip'') \<noteq> None)"
    using older[THEN conjunct2, THEN conjunct1, rule_format, of denied] cookie_2 sent_2 rejected
    by blast
  then have kept: "cwd_files (files (snd ?old)) (''site'' @ ''.zip'') \<noteq> None"
    using folder by blast
  have good_env: "create_res good_env = Inr ''big1''" "append_res good_env = Inr ()"
    "utf8_text good_env ''<rss/>'' = ''<rss/>''"
    by (simp_all add: good_env_def)
  have "metadata_result good_env (Some ''/out/rss.xml'') (Some (''<rss/>'' @ ''\<newline>''))
          = Inr ()"
    by (simp add: metadata_result_def good_env_def rss_edit_due_def)
  then have done_well: "fst ?good = Inr ()"
    by (simp only: site_run_lib[OF good_env]) simp
  then have cleaned_up: "tmpBuildDir (files (snd ?good)) = None"
    using good[THEN conjunct1] by simp
  show ?thesis
    by (intro conjI cookie sent finished gone unlinked key fresh cookie_2 sent_2 rejected
        left[THEN conjunct1] left[THEN conjunct2, THEN conjunct1] kept done_well cleaned_up)
qed







text \<open>
  C9. With a cookie and an RSS feed that exists, when the RSS file-edit call is made and
  fails, it is the only file-edit call of the run: the marker edit is not attempted. The
  error is given to the logger (\<^verbatim>\<open>Failed to upload.\<close> and the error's text), and the hook
  still returns normally, after logging that the deployment succeeded.
\<close>

theorem rss_edit_failure_is_swallowed:
  \<open>truthy (cookie args) \<and> rssFeed args = Some f \<and> f \<noteq> []
   \<and> readFile outDir fs (join outDir f) = Inr orig \<and> edit_rss_res env = Inl e
   \<and> (\<exists>c \<in> set (calls (events (snd (run args env outDir fs)))). is_edit c) \<longrightarrow>
     (\<exists>p s t. filter is_edit (calls (events (snd (run args env outDir fs))))
                 = [FilesEdit p (utf8_text env orig @ ''\<newline>'' @ rss_marker (now_rss env)) s t])
     \<and> Logger Err (''Failed to upload. '' @ error_toString e)
          \<in> set (events (snd (run args env outDir fs)))
     \<and> fst (run args env outDir fs) = Inr ()
     \<and> Logger Info (''Successfully deployed "'' @ outDir @ ''"'')
          \<in> set (events (snd (run args env outDir fs)))\<close>
proof
  assume given: "truthy (cookie args) \<and> rssFeed args = Some f \<and> f \<noteq> []
   \<and> readFile outDir fs (join outDir f) = Inr orig \<and> edit_rss_res env = Inl e
   \<and> (\<exists>c \<in> set (calls (events (snd (run args env outDir fs)))). is_edit c)"
  then have content: "rss_content args env outDir fs
                        = Inr (Some (utf8_text env orig @ ''\<newline>'' @ rss_marker (now_rss env)))"
    by (simp add: rss_content_Some)
  from given have path: "rss_pathname args folder = Some (join (''/'' @ folder) f)" for folder
    by (simp add: rss_pathname_def)
  from given have sent: "\<exists>c \<in> set (calls (events (snd (run args env outDir fs)))). is_edit c"
    by blast
  from given have failed: "edit_rss_res env = Inl e"
    by blast
  show \<open>(\<exists>p s t. filter is_edit (calls (events (snd (run args env outDir fs))))
                 = [FilesEdit p (utf8_text env orig @ ''\<newline>'' @ rss_marker (now_rss env)) s t])
     \<and> Logger Err (''Failed to upload. '' @ error_toString e)
          \<in> set (events (snd (run args env outDir fs)))
     \<and> fst (run args env outDir fs) = Inr ()
     \<and> Logger Info (''Successfully deployed "'' @ outDir @ ''"'')
          \<in> set (events (snd (run args env outDir fs)))\<close>
  proof (cases rule: run_cases[where args=args and env=env and outDir=outDir and fs=fs])
    case no_key
    with sent show ?thesis by (simp add: run_no_key)
  next
    case (site_info_fails e')
    with sent show ?thesis by (simp add: run_site_info_fails)
  next
    case (no_folder info)
    with sent show ?thesis by (simp add: run_no_folder)
  next
    case (rss_missing info folder e')
    with sent show ?thesis by (simp add: run_rss_missing)
  next
    case (upload_fails info folder rc e')
    with sent show ?thesis
      by (auto simp: run_upload_fails dest: no_edit_before_metadata)
  next
    case (no_cookie info folder rc big)
    with given show ?thesis by simp
  next
    case (with_cookie info folder rc big c)
    let ?p = "join (''/'' @ folder) f"
    let ?c = "utf8_text env orig @ ''\<newline>'' @ rss_marker (now_rss env)"
    let ?meta = "metadata_events env (key_client args) (cookie_client c) (site_name args)
                   (Some ?p) (Some ?c)"
    from with_cookie(5) content have rc: "rc = Some ?c"
      by simp
    have nonempty: "?p \<noteq> []" "?c \<noteq> []"
      by (simp_all add: join_not_empty)
    have run: \<open>run args env outDir fs =
       (Inr (),
        \<lparr>files = cleaned (zipFileName folder) (staged folder fs),
         events = uploaded_events args env outDir fs folder @
           [Request (key_client args) (DeletePath folder),
            Request (key_client args) (BigImport (big_id big))] @
           ?meta @ [Logger Info (''Successfully deployed "'' @ outDir @ ''"'')]\<rparr>)\<close>
      using with_cookie rc by (simp add: run_cookie path)
    with sent have "\<exists>x \<in> set (calls ?meta). is_edit x"
      by (auto dest: no_edit_before_metadata)
    with nonempty obtain i tok where
      token: "csrf_site_info_res env = Inr i" "csrf_res env = Inr tok"
      by (rule edit_sent_then_token)
    with nonempty failed
    have meta: "?meta =
       [Request (key_client args) (GetSiteInfo None), Request (cookie_client c) GetCsrf,
        Request (cookie_client c) (FilesEdit ?p ?c (site_name args) tok), failed_to_upload e]"
      by (intro metadata_events_rss_fails)
    have "filter is_edit (calls (events (snd (run args env outDir fs))))
            = [FilesEdit ?p ?c (site_name args) tok]"
      by (simp only: run meta) (simp add: failed_to_upload_def)
    moreover have "Logger Err (''Failed to upload. '' @ error_toString e)
                     \<in> set (events (snd (run args env outDir fs)))"
      by (simp only: run meta) (simp add: failed_to_upload_def)
    ultimately show ?thesis
      by (simp add: run)
  qed
qed

theorem rss_edit_failure_is_swallowed_witness:
  \<open>truthy (cookie site_args) \<and> rssFeed site_args = Some ''rss.xml'' \<and> ''rss.xml'' \<noteq> []
   \<and> readFile ''/out/'' local_fs (join ''/out/'' ''rss.xml'') = Inr ''<rss/>''
   \<and> edit_rss_res (good_env\<lparr>edit_rss_res := Inl (new_Error ''denied'')\<rparr>)
       = Inl (new_Error ''denied'')
   \<and> FilesEdit ''/site/rss.xml'' (''<rss/>'' @ ''\<newline>'' @ rss_marker 17) ''me'' ''tok''
       \<in> set (calls (events (snd (run site_args
                (good_env\<lparr>edit_rss_res := Inl (new_Error ''denied'')\<rparr>) ''/out/'' local_fs))))
   \<and> Logger Err ''Failed to upload. Error: denied''
       \<in> set (events (snd (run site_args
                (good_env\<lparr>edit_rss_res := Inl (new_Error ''denied'')\<rparr>) ''/out/'' local_fs)))
   \<and> fst (run site_args (good_env\<lparr>edit_rss_res := Inl (new_Error ''denied'')\<rparr>) ''/out/''
             local_fs) = Inr ()\<close>
proof -
  let ?env = "good_env\<lparr>edit_rss_res := Inl (new_Error ''denied'')\<rparr>"
  let ?run = "run site_args ?env ''/out/'' local_fs"
  have given: "truthy (cookie site_args) \<and> rssFeed site_args = Some ''rss.xml'' \<and> ''rss.xml'' \<noteq> []
      \<and> readFile ''/out/'' local_fs (join ''/out/'' ''rss.xml'') = Inr ''<rss/>''
      \<and> edit_rss_res ?env = Inl (new_Error ''denied'')"
    by (simp add: truthy_def site_args_def site_read)
  have meta: "calls (metadata_events ?env (key_client site_args) (cookie_client ''c00kie'') ''me''
           (Some ''/site/rss.xml'') (Some (''<rss/>'' @ ''\<newline>'' @ rss_marker 17)))
        = [GetSiteInfo None, GetCsrf,
           FilesEdit ''/site/rss.xml'' (''<rss/>'' @ ''\<newline>'' @ rss_marker 17) ''me'' ''tok'']"
    by (subst metadata_events_rss_fails[where e="new_Error ''denied''" and tok="''tok''"])
       (simp_all add: good_env_def failed_to_upload_def)
  have "calls (events (snd ?run)) =
     [GetSiteInfo None, BigCreate, BigAppend ''big1'' (staged_zip ''site'' local_fs),
      DeletePath ''site'', BigImport ''big1''] @
     calls (metadata_events ?env (key_client site_args) (cookie_client ''c00kie'') ''me''
           (Some ''/site/rss.xml'') (Some (''<rss/>'' @ ''\<newline>'' @ rss_marker 17)))"
    by (rule site_calls) (simp_all add: good_env_def)
  with meta have cs: "calls (events (snd ?run)) =
     [GetSiteInfo None, BigCreate, BigAppend ''big1'' (staged_zip ''site'' local_fs),
      DeletePath ''site'', BigImport ''big1'', GetSiteInfo None, GetCsrf,
      FilesEdit ''/site/rss.xml'' (''<rss/>'' @ ''\<newline>'' @ rss_marker 17) ''me'' ''tok'']"
    by simp
  then have sent: "FilesEdit ''/site/rss.xml'' (''<rss/>'' @ ''\<newline>'' @ rss_marker 17) ''me'' ''tok''
                     \<in> set (calls (events (snd ?run)))"
    by simp
  then have some: "\<exists>c \<in> set (calls (events (snd ?run))). is_edit c"
    by (rule bexI[rotated]) simp
  have msg: "''Failed to upload. '' @ error_toString (new_Error ''denied'')
                = ''Failed to upload. Error: denied''"
    by (simp add: error_toString_def new_Error_def)
  have swallowed: "Logger Err (''Failed to upload. '' @ error_toString (new_Error ''denied''))
                     \<in> set (events (snd ?run)) \<and> fst ?run = Inr ()"
    using rss_edit_failure_is_swallowed[where args=site_args and f="''rss.xml''"
        and outDir="''/out/''" and fs=local_fs and orig="''<rss/>''" and env="?env"
        and e="new_Error ''denied''"] given some
    by (elim impE) (intro conjI, simp_all)
  with given sent show ?thesis
    by (simp only: msg) simp
qed

text \<open>
  C10. Every request of a run that carries a \<^verbatim>\<open>Cookie\<close> header is sent under the
  options of the cookie client: its \<^verbatim>\<open>Authorization\<close> header is the empty string and
  its API key is empty, and these options are what the constructor builds from the cookie
  under any API key. The CSRF request and the file edits are always sent that way. Two runs
  that differ only in a (non-empty) API key send the same cookie requests, options and
  headers included. In version 2.0.3 the header set built for a cookie did not depend on the
  API key either, and had no \<^verbatim>\<open>Authorization\<close> entry at all.
\<close>

theorem cookie_client_hides_api_key:
  "(\<forall>cfg c. (cfg, c) \<in> set (cookie_requests (events (snd (run args env outDir fs)))) \<longrightarrow>
       map_of (cfg_headers cfg) ''Authorization'' = Some [] \<and> cfg_apiKey cfg = []
       \<and> ucfg (new_NekoAPI key' (cookie args)) = Some cfg)
   \<and> (\<forall>cfg c. Request cfg c \<in> set (events (snd (run args env outDir fs))) \<and> is_metadata_call c
        \<longrightarrow> (cfg, c) \<in> set (cookie_requests (events (snd (run args env outDir fs)))))
   \<and> (apiKey args \<noteq> [] \<and> key' \<noteq> [] \<longrightarrow>
        cookie_requests (events (snd (run (args\<lparr>apiKey := key'\<rparr>) env outDir fs)))
          = cookie_requests (events (snd (run args env outDir fs))))
   \<and> (truthy ck \<longrightarrow>
        ucfg (new_NekoAPI k1 ck) = ucfg (new_NekoAPI k2 ck)
        \<and> getToken k1 ck = getToken k2 ck
        \<and> map_of (getToken k1 ck) ''Authorization'' = None)"
proof -
  let ?events = "events (snd (run args env outDir fs))"
  have empty_auth: "map_of (cfg_headers cfg) ''Authorization'' = Some [] \<and> cfg_apiKey cfg = []
       \<and> ucfg (new_NekoAPI key' (cookie args)) = Some cfg"
    if listed: "(cfg, c) \<in> set (cookie_requests ?events)" for cfg c
  proof -
    have "\<exists>ck. cookie args = Some ck \<and> ck \<noteq> [] \<and> cfg = cookie_client ck"
    proof (cases rule: run_cases[where args=args and env=env and outDir=outDir and fs=fs])
      case no_key
      with listed show ?thesis by (simp add: run_no_key)
    next
      case (site_info_fails e)
      with listed show ?thesis by (simp add: run_site_info_fails)
    next
      case (no_folder info)
      with listed show ?thesis by (simp add: run_no_folder)
    next
      case (rss_missing info folder e)
      with listed show ?thesis by (simp add: run_rss_missing)
    next
      case (upload_fails info folder rc e)
      with listed show ?thesis by (simp add: run_upload_fails)
    next
      case (no_cookie info folder rc big)
      with listed show ?thesis by (simp add: run_no_cookie split: sum.splits)
    next
      case (with_cookie info folder rc big c')
      with listed show ?thesis
        by (auto simp: run_cookie cookie_requests_metadata)
    qed
    then show ?thesis
      by (auto simp: cookie_client_headers ucfg_new_NekoAPI)
  qed
  have by_cookie: "(cfg, c) \<in> set (cookie_requests ?events)"
    if sent: "Request cfg c \<in> set ?events \<and> is_metadata_call c" for cfg c
  proof (cases rule: run_cases[where args=args and env=env and outDir=outDir and fs=fs])
    case no_key
    with sent show ?thesis by (simp add: run_no_key)
  next
    case (site_info_fails e)
    with sent show ?thesis by (auto simp: run_site_info_fails is_metadata_call_def)
  next
    case (no_folder info)
    with sent show ?thesis by (auto simp: run_no_folder is_metadata_call_def)
  next
    case (rss_missing info folder e)
    with sent show ?thesis by (auto simp: run_rss_missing is_metadata_call_def)
  next
    case (upload_fails info folder rc e)
    with sent show ?thesis
      by (auto simp: run_upload_fails dest: uploaded_request_not_metadata)
  next
    case (no_cookie info folder rc big)
    with sent show ?thesis
      by (auto simp: run_no_cookie is_metadata_call_def dest: uploaded_request_not_metadata
          split: sum.splits)
  next
    case (with_cookie info folder rc big c')
    let ?meta = "metadata_events env (key_client args) (cookie_client c') (site_name args)
                   (rss_pathname args folder) rc"
    from with_cookie sent have "Request cfg c \<in> set ?meta"
      by (auto simp: run_cookie is_metadata_call_def dest: uploaded_request_not_metadata)
    with sent have "cfg = cookie_client c'"
      by (auto dest: metadata_request_client)
    then have "map_of (cfg_headers cfg) ''Cookie'' \<noteq> None"
      by (simp add: cookie_client_headers)
    with sent show ?thesis
      by (auto intro: cookie_request_listed)
  qed
  have same: "cookie_requests (events (snd (run (args\<lparr>apiKey := key'\<rparr>) env outDir fs)))
          = cookie_requests ?events"
    if "apiKey args \<noteq> [] \<and> key' \<noteq> []"
    using that
    by (simp add: cookie_requests_of_run cong: sum.case_cong option.case_cong if_cong)
  have built: "ucfg (new_NekoAPI k1 ck) = ucfg (new_NekoAPI k2 ck)
        \<and> getToken k1 ck = getToken k2 ck
        \<and> map_of (getToken k1 ck) ''Authorization'' = None"
    if "truthy ck"
    using that by (auto simp: truthy_def ucfg_new_NekoAPI getToken_def split: option.splits)
  from empty_auth by_cookie same built show ?thesis
    by blast
qed

theorem cookie_client_hides_api_key_witness:
  "(cookie_client ''c00kie'', GetCsrf)
     \<in> set (cookie_requests (events (snd (run site_args good_env ''/out/'' local_fs))))
   \<and> map_of (cfg_headers (cookie_client ''c00kie'')) ''Authorization'' = Some []
   \<and> ucfg (new_NekoAPI ''another key'' (cookie site_args)) = Some (cookie_client ''c00kie'')
   \<and> apiKey site_args \<noteq> [] \<and> ''another key'' \<noteq> []
   \<and> cookie_requests (events (snd (run (site_args\<lparr>apiKey := ''another key''\<rparr>) good_env
                                      ''/out/'' local_fs)))
       = cookie_requests (events (snd (run site_args good_env ''/out/'' local_fs)))"
proof -
  let ?events = "events (snd (run site_args good_env ''/out/'' local_fs))"
  have sent: "Request (cookie_client ''c00kie'') GetCsrf \<in> set ?events"
    by (subst site_run)
       (simp_all add: good_env_facts, simp add: metadata_events_def good_env_def)
  have keys: "apiKey site_args \<noteq> [] \<and> ''another key'' \<noteq> []"
    by (simp add: site_args_def)
  note inst = cookie_client_hides_api_key[of site_args good_env "''/out/''" local_fs
      "''another key''" "Some ''c00kie''" "''key''" "''another key''"]
  have meta: "is_metadata_call GetCsrf"
    by (simp add: is_metadata_call_def)
  from inst sent meta
  have listed: "(cookie_client ''c00kie'', GetCsrf) \<in> set (cookie_requests ?events)"
    by blast
  with inst
  have "map_of (cfg_headers (cookie_client ''c00kie'')) ''Authorization'' = Some []
        \<and> ucfg (new_NekoAPI ''another key'' (cookie site_args)) = Some (cookie_client ''c00kie'')"
    by blast
  moreover from inst keys
  have "cookie_requests (events (snd (run (site_args\<lparr>apiKey := ''another key''\<rparr>) good_env
                                      ''/out/'' local_fs)))
       = cookie_requests ?events"
    by blast
  ultimately show ?thesis
    using listed keys by blast
qed

end
